(* ===== verification/Prelude.thy ===== *)
theory Prelude
  imports Complex_Main "HOL-Library.List_Lexorder" "HOL-Library.Char_ord"
    "HOL-Library.Multiset" "HOL-Library.AList"
begin

text \<open>
  Shared vocabulary of the TradeTitan institutional-tracking model: the Python
  built-ins the two tracker modules (\<open>src/datafetcher/institutional_tracker.py\<close>,
  \<open>src/datafetcher/simplified_institutional.py\<close>) rely on, written over
  \<open>string = char list\<close> with ASCII characters.
  \<^item> \<open>str.lower\<close>/\<open>str.upper\<close>, \<open>str.strip\<close>, \<open>str.split(sep)\<close>, the
    substring test \<open>p in s\<close>, \<open>int(s)\<close>, \<open>str(n)\<close>, \<open>str.zfill\<close>;
  \<^item> \<open>list.sort(key=..., reverse=True)\<close>, which CPython implements as reverse,
    stable ascending sort, reverse; and the step slice \<open>xs[::k]\<close>;
  \<^item> the exceptions the modules can raise and catch, as the datatype \<open>py_exc\<close>.
  Strings compare lexicographically by character code, as Python's \<open>str\<close> does
  (\<open>List_Lexorder\<close> with \<open>Char_ord\<close>).
  The collection \<open>py_simps\<close> holds the evaluation rules of these built-ins.
\<close>

named_theorems py_simps "evaluation rules of the modelled Python built-ins"

section \<open>Exceptions\<close>

datatype py_exc = IndexError | ValueError | KeyError | TypeError | AttributeError | RequestException | JSONDecodeError

section \<open>Characters\<close>

definition is_digit :: "char \<Rightarrow> bool" where
  "is_digit c \<longleftrightarrow> CHR ''0'' \<le> c \<and> c \<le> CHR ''9''"

definition digit_val :: "char \<Rightarrow> nat" where
  "digit_val c = of_char c - 48"

definition is_upper :: "char \<Rightarrow> bool" where
  "is_upper c \<longleftrightarrow> CHR ''A'' \<le> c \<and> c \<le> CHR ''Z''"

definition is_lower :: "char \<Rightarrow> bool" where
  "is_lower c \<longleftrightarrow> CHR ''a'' \<le> c \<and> c \<le> CHR ''z''"

definition lower_char :: "char \<Rightarrow> char" where
  "lower_char c = (if is_upper c then char_of (of_char c + (32::nat)) else c)"

definition upper_char :: "char \<Rightarrow> char" where
  "upper_char c = (if is_lower c then char_of (of_char c - (32::nat)) else c)"

text \<open>\<open>str.isspace\<close> on ASCII: tab, newline, vertical tab, form feed, carriage
  return, the four separators 0x1c-0x1f, and space.\<close>

definition is_py_space :: "char \<Rightarrow> bool" where
  "is_py_space c \<longleftrightarrow> ((9::nat) \<le> of_char c \<and> of_char c \<le> (13::nat))
     \<or> ((28::nat) \<le> of_char c \<and> of_char c \<le> (32::nat))"

text \<open>The regular-expression class \<open>\w\<close> on ASCII.\<close>

definition is_word_char :: "char \<Rightarrow> bool" where
  "is_word_char c \<longleftrightarrow> is_digit c \<or> is_upper c \<or> is_lower c \<or> c = CHR ''_''"

section \<open>String built-ins\<close>

definition py_lower :: "string \<Rightarrow> string" where
  "py_lower s = map lower_char s"

definition py_upper :: "string \<Rightarrow> string" where
  "py_upper s = map upper_char s"

definition py_strip :: "string \<Rightarrow> string" where
  "py_strip s = rev (dropWhile is_py_space (rev (dropWhile is_py_space s)))"

text \<open>\<open>s.split(d)\<close> for a one-character separator: never empty, and
  \<open>''.split(d) = ['']\<close>.\<close>

fun py_split :: "char \<Rightarrow> string \<Rightarrow> string list" where
  "py_split d [] = [[]]"
| "py_split d (c # s) =
     (if c = d then [] # py_split d s
      else (case py_split d s of [] \<Rightarrow> [[c]] | w # ws \<Rightarrow> (c # w) # ws))"

text \<open>The substring test \<open>p in s\<close>.\<close>

fun py_in :: "string \<Rightarrow> string \<Rightarrow> bool" where
  "py_in p [] \<longleftrightarrow> p = []"
| "py_in p (c # s) \<longleftrightarrow> take (length p) (c # s) = p \<or> py_in p s"

definition digits_val :: "string \<Rightarrow> nat" where
  "digits_val s = foldl (\<lambda>n c. 10 * n + digit_val c) 0 s"

text \<open>\<open>str(n)\<close> for a natural number and for an integer.\<close>

fun show_nat :: "nat \<Rightarrow> string" where
  "show_nat n =
     (if n < 10 then [char_of (48 + n)]
      else show_nat (n div 10) @ [char_of (48 + n mod 10)])"

declare show_nat.simps [simp del]

definition py_str_int :: "int \<Rightarrow> string" where
  "py_str_int i = (if i < 0 then CHR ''-'' # show_nat (nat (- i)) else show_nat (nat i))"

text \<open>\<open>int(s)\<close> for decimal strings: surrounding white space, an optional sign, and
  digits in which single underscores may separate digits; anything else raises
  \<open>ValueError\<close>, here \<open>None\<close>.\<close>

definition int_body_ok :: "string \<Rightarrow> bool" where
  "int_body_ok b \<longleftrightarrow> b \<noteq> [] \<and> is_digit (hd b) \<and> is_digit (last b)
     \<and> list_all (\<lambda>c. is_digit c \<or> c = CHR ''_'') b \<and> \<not> py_in ''__'' b"

definition py_int :: "string \<Rightarrow> int option" where
  "py_int s =
     (let t = py_strip s;
          (sg, b) = (case t of [] \<Rightarrow> (1::int, t)
                     | c # r \<Rightarrow> if c = CHR ''-'' then (-1, r)
                                else if c = CHR ''+'' then (1, r) else (1, t))
      in if int_body_ok b then Some (sg * int (digits_val (filter is_digit b))) else None)"

text \<open>\<open>s.zfill(w)\<close>: pad with zeros on the left, after a leading sign.\<close>

definition py_zfill :: "nat \<Rightarrow> string \<Rightarrow> string" where
  "py_zfill w s =
     (let pad = replicate (w - length s) (CHR ''0'')
      in case s of
           c # r \<Rightarrow> if c = CHR ''-'' \<or> c = CHR ''+'' then c # pad @ r else pad @ s
         | [] \<Rightarrow> pad)"

section \<open>Indexing and loops that may raise\<close>

text \<open>\<open>xs[i]\<close> for \<open>i \<ge> 0\<close>: \<open>IndexError\<close> past the end.\<close>

definition py_index :: "'a list \<Rightarrow> nat \<Rightarrow> py_exc + 'a" where
  "py_index xs i = (if i < length xs then Inr (xs ! i) else Inl IndexError)"

text \<open>
  \<^verbatim>\<open>out = []
  for i, x in enumerate(xs):   # starting at index i0
      ... out.append(y) ...    # the body may raise\<close>
  The body is \<open>g i x\<close>: an exception, nothing to append (\<open>None\<close>), or one
  element. The first exception ends the loop and discards what was collected.
\<close>

fun py_collect :: "(nat \<Rightarrow> 'a \<Rightarrow> py_exc + 'b option) \<Rightarrow> nat \<Rightarrow> 'a list \<Rightarrow> py_exc + 'b list" where
  "py_collect g i [] = Inr []"
| "py_collect g i (x # xs) =
     (case g i x of
        Inl e \<Rightarrow> Inl e
      | Inr r \<Rightarrow> (case py_collect g (Suc i) xs of
                   Inl e \<Rightarrow> Inl e
                 | Inr ys \<Rightarrow> Inr (case r of None \<Rightarrow> ys | Some y \<Rightarrow> y # ys)))"

section \<open>Dictionaries\<close>

text \<open>A Python \<open>dict\<close> is an association list in insertion order. A literal
  \<open>{k1: v1, k2: v2, ...}\<close> inserts its pairs from left to right: a repeated key
  keeps its first position and takes its last value (\<open>AList.update\<close>).\<close>

definition py_dict :: "('k \<times> 'v) list \<Rightarrow> ('k \<times> 'v) list" where
  "py_dict kvs = foldl (\<lambda>d (k, v). AList.update k v d) [] kvs"

text \<open>\<open>d.get(k, dflt)\<close>.\<close>

definition py_get :: "('k \<times> 'v) list \<Rightarrow> 'k \<Rightarrow> 'v \<Rightarrow> 'v" where
  "py_get d k dflt = (case map_of d k of Some v \<Rightarrow> v | None \<Rightarrow> dflt)"

section \<open>List built-ins\<close>

text \<open>\<open>xs.sort(key=f, reverse=True)\<close>: CPython reverses the list, sorts it stably in
  ascending order and reverses the result, so equal keys keep their order.\<close>

definition sort_desc_by :: "('a \<Rightarrow> 'k::linorder) \<Rightarrow> 'a list \<Rightarrow> 'a list" where
  "sort_desc_by f xs = rev (sort_key f (rev xs))"

text \<open>The slice \<open>xs[::k]\<close> for \<open>k > 0\<close>: the elements at indices \<open>0, k, 2k, ...\<close>.\<close>

fun py_step_slice :: "nat \<Rightarrow> 'a list \<Rightarrow> 'a list" where
  "py_step_slice k [] = []"
| "py_step_slice k (x # xs) = x # py_step_slice k (drop (k - 1) xs)"

text \<open>Sequencing of statements that may raise: the first exception propagates.\<close>

definition py_bind :: "py_exc + 'a \<Rightarrow> ('a \<Rightarrow> py_exc + 'b) \<Rightarrow> py_exc + 'b" where
  "py_bind r f = (case r of Inl e \<Rightarrow> Inl e | Inr x \<Rightarrow> f x)"

text \<open>\<open>df[col]\<close> of a pandas frame: \<open>KeyError\<close> when the column is absent.\<close>

definition py_col :: "'a list option \<Rightarrow> py_exc + 'a list" where
  "py_col c = (case c of None \<Rightarrow> Inl KeyError | Some xs \<Rightarrow> Inr xs)"

text \<open>numpy floats where a division may have a zero divisor: finite, the two
  infinities, NaN. Every comparison with NaN is false; Python's two-argument \<open>max\<close>
  and \<open>min\<close> keep the first argument unless the second compares greater (smaller).\<close>

datatype pyfloat = Fin real | PosInf | NegInf | NaN

definition py_div :: "real \<Rightarrow> real \<Rightarrow> pyfloat" where
  "py_div a b = (if b \<noteq> 0 then Fin (a / b) else if 0 < a then PosInf else if a < 0 then NegInf else NaN)"

fun py_lt :: "pyfloat \<Rightarrow> pyfloat \<Rightarrow> bool" where
  "py_lt (Fin a) (Fin b) = (a < b)"
| "py_lt NegInf (Fin b) = True"
| "py_lt (Fin a) PosInf = True"
| "py_lt NegInf PosInf = True"
| "py_lt _ _ = False"

definition py_max2 :: "pyfloat \<Rightarrow> pyfloat \<Rightarrow> pyfloat" where
  "py_max2 a b = (if py_lt a b then b else a)"

definition py_min2 :: "pyfloat \<Rightarrow> pyfloat \<Rightarrow> pyfloat" where
  "py_min2 a b = (if py_lt b a then b else a)"

text \<open>\<open>x * c + d\<close> on a float, for \<open>c > 0\<close>.\<close>

definition py_affine :: "real \<Rightarrow> real \<Rightarrow> pyfloat \<Rightarrow> pyfloat" where
  "py_affine c d x = (case x of Fin a \<Rightarrow> Fin (a * c + d) | _ \<Rightarrow> x)"

text \<open>\<open>Series.mean()\<close> of a non-empty column.\<close>

definition py_mean :: "real list \<Rightarrow> real" where
  "py_mean xs = sum_list xs / real (length xs)"

text \<open>\<open>rank(pct=True).iloc[-1]\<close>: the average rank of the last value among all values,
  divided by their number.\<close>

definition rank_pct_last :: "real list \<Rightarrow> real" where
  "rank_pct_last xs =
     (let v = last xs; less = length (filter (\<lambda>x. x < v) xs); eq = length (filter (\<lambda>x. x = v) xs)
      in (real less + (real eq + 1) / 2) / real (length xs))"

text \<open>\<open>min\<close> and \<open>max\<close> of a non-empty list (they raise on an empty one; every
  call of the model is on a non-empty list).\<close>

definition py_min :: "'a::linorder list \<Rightarrow> 'a" where
  "py_min xs = fold min (tl xs) (hd xs)"

definition py_max :: "'a::linorder list \<Rightarrow> 'a" where
  "py_max xs = fold max (tl xs) (hd xs)"

declare is_digit_def [py_simps] digit_val_def [py_simps] digits_val_def [py_simps]
  is_upper_def [py_simps] is_lower_def [py_simps] lower_char_def [py_simps]
  upper_char_def [py_simps] is_py_space_def [py_simps] is_word_char_def [py_simps]
  py_lower_def [py_simps] py_upper_def [py_simps] py_strip_def [py_simps]
  int_body_ok_def [py_simps] py_int_def [py_simps] py_str_int_def [py_simps]
  show_nat.simps [py_simps] py_zfill_def [py_simps] py_index_def [py_simps]
  py_get_def [py_simps] py_dict_def [py_simps] sort_desc_by_def [py_simps]

section \<open>Lemmas on the built-ins\<close>

lemma mset_sort_desc_by [simp]: "mset (sort_desc_by f xs) = mset xs"
  by (simp add: sort_desc_by_def)

lemma set_sort_desc_by [simp]: "set (sort_desc_by f xs) = set xs"
  by (simp add: sort_desc_by_def)

lemma length_sort_desc_by [simp]: "length (sort_desc_by f xs) = length xs"
  by (simp add: sort_desc_by_def)

lemma sorted_sort_desc_by: "sorted (rev (map f (sort_desc_by f xs)))"
  by (simp add: sort_desc_by_def rev_map [symmetric])

lemma sort_desc_by_stable:
  "filter (\<lambda>y. f y = k) (sort_desc_by f xs) = filter (\<lambda>y. f y = k) xs"
  by (simp add: sort_desc_by_def rev_filter [symmetric] sort_key_stable)

lemma is_digit_char_of [simp]: "(d::nat) < 10 \<Longrightarrow> is_digit (char_of (48 + d))"
  by (auto simp: is_digit_def less_eq_char_def)

lemma digit_val_char_of [simp]: "(d::nat) < 10 \<Longrightarrow> digit_val (char_of (48 + d)) = d"
  by (simp add: digit_val_def)

lemma digits_val_append [simp]:
  "digits_val (xs @ ys) = digits_val xs * 10 ^ length ys + digits_val ys"
proof (induction ys rule: rev_induct)
  case Nil
  show ?case by (simp add: digits_val_def)
next
  case (snoc y ys)
  then show ?case by (simp add: digits_val_def algebra_simps)
qed

lemma digits_val_show_nat [simp]: "digits_val (show_nat n) = n"
proof (induction n rule: show_nat.induct)
  case (1 n)
  show ?case
  proof (cases "n < 10")
    case True
    then show ?thesis by (simp add: show_nat.simps [of n] digits_val_def)
  next
    case False
    with "1.IH" show ?thesis by (simp add: show_nat.simps [of n] digits_val_def)
  qed
qed

lemma show_nat_digits: "list_all is_digit (show_nat n)"
proof (induction n rule: show_nat.induct)
  case (1 n)
  then show ?case by (cases "n < 10") (simp_all add: show_nat.simps [of n])
qed

lemma show_nat_ne [simp]: "show_nat n \<noteq> []"
  by (simp add: show_nat.simps [of n])

lemma py_in_iff: "py_in p s \<longleftrightarrow> (\<exists>u v. s = u @ p @ v)"
proof (induction s)
  case Nil
  then show ?case by auto
next
  case (Cons c s)
  show ?case
  proof
    assume "py_in p (c # s)"
    then have "take (length p) (c # s) = p \<or> py_in p s" by simp
    then show "\<exists>u v. c # s = u @ p @ v"
    proof
      assume "take (length p) (c # s) = p"
      then have "c # s = [] @ p @ drop (length p) (c # s)"
        by (metis append_Nil append_take_drop_id)
      then show ?thesis by blast
    next
      assume "py_in p s"
      with Cons.IH obtain u v where "s = u @ p @ v" by blast
      then have "c # s = (c # u) @ p @ v" by simp
      then show ?thesis by blast
    qed
  next
    assume "\<exists>u v. c # s = u @ p @ v"
    then obtain u v where uv: "c # s = u @ p @ v" by blast
    show "py_in p (c # s)"
    proof (cases u)
      case Nil
      with uv have "take (length p) (c # s) = p" by simp
      then show ?thesis by simp
    next
      case (Cons c' u')
      with uv Cons.IH show ?thesis by auto
    qed
  qed
qed

lemma length_py_step_slice:
  "0 < k \<Longrightarrow> length (py_step_slice k xs) = (length xs + k - 1) div k"
proof (induction k xs rule: py_step_slice.induct)
  case (1 k)
  then show ?case by simp
next
  case (2 k x xs)
  then have "length (py_step_slice k (x # xs)) = Suc ((length xs - (k - 1) + k - 1) div k)"
    by simp
  also have "\<dots> = (length (x # xs) + k - 1) div k"
  proof (cases "length xs \<ge> k - 1")
    case True
    then have "length xs - (k - 1) + k - 1 + k = length (x # xs) + k - 1"
      using "2.prems" by simp
    then show ?thesis using "2.prems"
      by (metis div_add_self2 less_not_refl2 plus_1_eq_Suc add.commute)
  next
    case False
    then show ?thesis using "2.prems" by simp
  qed
  finally show ?case .
qed

lemma py_dict_snoc [simp]: "py_dict (kvs @ [(k, v)]) = AList.update k v (py_dict kvs)"
  by (simp add: py_dict_def)

lemma map_of_py_dict: "map_of (py_dict kvs) = map_of (rev kvs)"
proof (induction kvs rule: rev_induct)
  case Nil
  show ?case by (simp add: py_dict_def)
next
  case (snoc kv kvs)
  then show ?case by (cases kv) (simp add: update_conv')
qed

lemma distinct_py_dict: "distinct (map fst (py_dict kvs))"
proof (induction kvs rule: rev_induct)
  case Nil
  show ?case by (simp add: py_dict_def)
next
  case (snoc kv kvs)
  then show ?case by (cases kv) (simp add: distinct_update)
qed

lemma keys_py_dict: "fst ` set (py_dict kvs) = fst ` set kvs"
proof (induction kvs rule: rev_induct)
  case Nil
  show ?case by (simp add: py_dict_def)
next
  case (snoc kv kvs)
  then show ?case by (cases kv) (simp add: dom_update)
qed

lemma py_get_Some: "map_of d k = Some v \<Longrightarrow> py_get d k dflt = v"
  by (simp add: py_get_def)

lemma py_get_None: "k \<notin> fst ` set d \<Longrightarrow> py_get d k dflt = dflt"
proof -
  assume "k \<notin> fst ` set d"
  then have "map_of d k = None" by (simp add: map_of_eq_None_iff)
  then show ?thesis by (simp add: py_get_def)
qed

text \<open>Inverting a dictionary, as \<open>{v: k for k, v in d.items()}\<close> does, gives back
  each key from its value when no two keys share a value.\<close>

lemma map_of_py_dict_swap:
  assumes "distinct (map snd d)" and "map_of d k = Some v"
  shows "map_of (py_dict (map (\<lambda>(a, b). (b, a)) d)) v = Some k"
proof -
  have "distinct (map fst (rev (map (\<lambda>(a, b). (b, a)) d)))"
    using assms(1) by (simp add: rev_map [symmetric] case_prod_beta comp_def)
  moreover have "(v, k) \<in> set (rev (map (\<lambda>(a, b). (b, a)) d))"
    using map_of_SomeD [OF assms(2)] by force
  ultimately show ?thesis by (simp add: map_of_py_dict)
qed

lemma py_split_ne [simp]: "py_split d s \<noteq> []"
  by (induction s) (auto split: list.split)

lemma py_index_Inr [simp]: "py_index xs i = Inr x \<longleftrightarrow> i < length xs \<and> xs ! i = x"
  by (auto simp: py_index_def)

lemma py_index_Inl [simp]: "py_index xs i = Inl e \<longleftrightarrow> length xs \<le> i \<and> e = IndexError"
  by (auto simp: py_index_def)

lemma py_collect_mem:
  "py_collect g i xs = Inr ys \<Longrightarrow> y \<in> set ys \<Longrightarrow>
   \<exists>j < length xs. g (i + j) (xs ! j) = Inr (Some y)"
proof (induction xs arbitrary: i ys)
  case Nil
  then show ?case by simp
next
  case (Cons x xs)
  then obtain r ys' where g: "g i x = Inr r" and rest: "py_collect g (Suc i) xs = Inr ys'"
    and ys: "ys = (case r of None \<Rightarrow> ys' | Some z \<Rightarrow> z # ys')"
    by (auto split: sum.splits)
  show ?case
  proof (cases "r = Some y")
    case True
    with g show ?thesis by force
  next
    case False
    with ys Cons.prems(2) have "y \<in> set ys'" by (auto split: option.splits)
    from Cons.IH [OF rest this] obtain j where "j < length xs"
      and "g (Suc i + j) (xs ! j) = Inr (Some y)" by blast
    then show ?thesis by (intro exI [of _ "Suc j"]) simp
  qed
qed

lemma py_collect_complete:
  "py_collect g i xs = Inr ys \<Longrightarrow> j < length xs \<Longrightarrow> g (i + j) (xs ! j) = Inr (Some y) \<Longrightarrow>
   y \<in> set ys"
proof (induction xs arbitrary: i j ys)
  case Nil
  then show ?case by simp
next
  case (Cons x xs)
  then obtain r ys' where g: "g i x = Inr r" and rest: "py_collect g (Suc i) xs = Inr ys'"
    and ys: "ys = (case r of None \<Rightarrow> ys' | Some z \<Rightarrow> z # ys')"
    by (auto split: sum.splits)
  show ?case
  proof (cases j)
    case 0
    with Cons.prems g ys show ?thesis by simp
  next
    case (Suc j')
    with Cons.prems have "y \<in> set ys'"
      by (intro Cons.IH [OF rest, of j']) simp_all
    with ys show ?thesis by (auto split: option.splits)
  qed
qed

lemma py_collect_rows_Inr:
  "py_collect g i xs = Inr ys \<Longrightarrow> j < length xs \<Longrightarrow> \<exists>r. g (i + j) (xs ! j) = Inr r"
proof (induction xs arbitrary: i j ys)
  case Nil
  then show ?case by simp
next
  case (Cons x xs)
  then obtain r ys' where g: "g i x = Inr r" and rest: "py_collect g (Suc i) xs = Inr ys'"
    by (auto split: sum.splits)
  show ?case
  proof (cases j)
    case 0
    with g show ?thesis by simp
  next
    case (Suc j')
    with Cons.prems(2) Cons.IH [OF rest, of j'] show ?thesis by simp
  qed
qed

lemma py_collect_Inr:
  "(\<And>j. j < length xs \<Longrightarrow> \<exists>r. g (i + j) (xs ! j) = Inr r) \<Longrightarrow> \<exists>ys. py_collect g i xs = Inr ys"
proof (induction xs arbitrary: i)
  case Nil
  then show ?case by simp
next
  case (Cons x xs)
  from Cons.prems [of 0] obtain r where "g i x = Inr r" by auto
  moreover have "\<exists>ys. py_collect g (Suc i) xs = Inr ys"
    using Cons.prems [of "Suc _"] by (intro Cons.IH) auto
  ultimately show ?case by auto
qed

lemma py_collect_Inl:
  "py_collect g i xs = Inl e \<Longrightarrow> \<exists>j < length xs. g (i + j) (xs ! j) = Inl e"
proof (induction xs arbitrary: i)
  case Nil
  then show ?case by simp
next
  case (Cons x xs)
  show ?case
  proof (cases "g i x")
    case (Inl e')
    with Cons.prems show ?thesis by force
  next
    case (Inr r)
    with Cons.prems have "py_collect g (Suc i) xs = Inl e" by (auto split: sum.splits)
    from Cons.IH [OF this] obtain j where "j < length xs" "g (Suc i + j) (xs ! j) = Inl e"
      by blast
    then show ?thesis by (intro exI [of _ "Suc j"]) simp
  qed
qed

lemma in_set_map_filter: "y \<in> set (List.map_filter f xs) \<longleftrightarrow> (\<exists>x \<in> set xs. f x = Some y)"
  by (induction xs) (auto split: option.splits)

lemma py_in_take_drop: "py_in p s \<longleftrightarrow> (\<exists>i \<le> length s. take (length p) (drop i s) = p)"
proof
  assume "py_in p s"
  then obtain u v where s: "s = u @ p @ v" by (auto simp: py_in_iff)
  then have "take (length p) (drop (length u) s) = p" by simp
  moreover have "length u \<le> length s" using s by simp
  ultimately show "\<exists>i \<le> length s. take (length p) (drop i s) = p" by blast
next
  assume "\<exists>i \<le> length s. take (length p) (drop i s) = p"
  then obtain i where "take (length p) (drop i s) = p" by blast
  then have "s = take i s @ p @ drop (length p) (drop i s)"
    by (metis append_take_drop_id)
  then show "py_in p s" by (auto simp: py_in_iff)
qed

lemma of_char_lt_256: "of_char (c::char) < (256::nat)"
  using of_char_mod_256 [of c] by (metis mod_less_divisor zero_less_numeral)

lemma lower_upper_char [simp]: "lower_char (upper_char c) = lower_char c"
  using of_char_lt_256 [of c]
  by (auto simp: lower_char_def upper_char_def is_upper_def is_lower_def less_eq_char_def)

lemma upper_lower_char [simp]: "upper_char (lower_char c) = upper_char c"
  using of_char_lt_256 [of c]
  by (auto simp: lower_char_def upper_char_def is_upper_def is_lower_def less_eq_char_def)

lemma lower_lower_char [simp]: "lower_char (lower_char c) = lower_char c"
  using of_char_lt_256 [of c]
  by (auto simp: lower_char_def is_upper_def less_eq_char_def)

lemma lower_char_eq_iff: "lower_char c = lower_char d \<longleftrightarrow> upper_char c = upper_char d"
  by (metis lower_upper_char upper_lower_char)

lemma py_lower_py_upper [simp]: "py_lower (py_upper s) = py_lower s"
  by (simp add: py_lower_def py_upper_def)

lemma py_lower_idem [simp]: "py_lower (py_lower s) = py_lower s"
  by (simp add: py_lower_def)

lemma map_eq_transfer:
  "(\<And>c d. f c = f d \<longleftrightarrow> g c = g d) \<Longrightarrow> map f xs = map f ys \<longleftrightarrow> map g xs = map g ys"
proof (induction xs arbitrary: ys)
  case Nil
  then show ?case by simp
next
  case (Cons x xs)
  then show ?case by (cases ys) auto
qed

lemma py_in_fold_transfer:
  assumes "\<And>c d. f c = f d \<longleftrightarrow> g c = g d"
  shows "py_in (map f p) (map f s) \<longleftrightarrow> py_in (map g p) (map g s)"
proof -
  have "take (length p) (drop i (map f s)) = map f p \<longleftrightarrow> take (length p) (drop i (map g s)) = map g p" for i
    using map_eq_transfer [of f g, OF assms] by (simp add: take_map drop_map)
  then show ?thesis by (simp add: py_in_take_drop)
qed

lemma py_in_upper_lower: "py_in (py_upper p) (py_upper s) \<longleftrightarrow> py_in (py_lower p) (py_lower s)"
  unfolding py_upper_def py_lower_def
  by (rule py_in_fold_transfer) (simp add: lower_char_eq_iff)

lemma set_py_step_slice: "set (py_step_slice k xs) \<subseteq> set xs"
  by (induction k xs rule: py_step_slice.induct) (auto dest: in_set_dropD)

subsection \<open>Lists of results, sums and descending order\<close>

lemma those_eq_Some: "those xs = Some ys \<longleftrightarrow> xs = map Some ys"
proof (induction xs arbitrary: ys)
  case Nil
  then show ?case by auto
next
  case (Cons x xs)
  then show ?case by (cases x; cases ys) (auto split: option.split)
qed

lemma sorted_wrt_hd_filter:
  fixes f :: "'a \<Rightarrow> 'b::order"
  assumes "sorted_wrt (\<lambda>a b. f b \<le> f a) xs" "x \<in> set xs" "P x"
  shows "f x \<le> f (hd (filter P xs))"
proof -
  have s: "sorted_wrt (\<lambda>a b. f b \<le> f a) (filter P xs)"
    using assms(1) by (rule sorted_wrt_filter)
  obtain y ys where yy: "filter P xs = y # ys"
    using assms(2,3) by (cases "filter P xs") (auto simp: filter_empty_conv)
  have "x \<in> set (filter P xs)" using assms(2,3) by simp
  then have "x = y \<or> x \<in> set ys" using yy by simp
  then show ?thesis using s yy by auto
qed

lemma concat_map_single:
  "(\<And>y. y \<in> set ys \<Longrightarrow> P y) \<Longrightarrow> concat (map (\<lambda>y. if P y then [f y] else []) ys) = map f ys"
  by (induction ys) auto

lemma length_filter_take_le: "length (filter P (take n xs)) \<le> length (filter P xs)"
proof -
  have "filter P xs = filter P (take n xs) @ filter P (drop n xs)"
    by (metis append_take_drop_id filter_append)
  then show ?thesis by (metis le_add1 length_append)
qed

lemma sum_list_take_le:
  fixes xs :: "real list"
  assumes "\<forall>x\<in>set xs. 0 \<le> x"
  shows "0 \<le> sum_list (take k xs) \<and> sum_list (take k xs) \<le> sum_list xs"
proof -
  have "sum_list xs = sum_list (take k xs) + sum_list (drop k xs)"
    by (metis append_take_drop_id sum_list_append)
  moreover have "0 \<le> sum_list (drop k xs)" "0 \<le> sum_list (take k xs)"
    using assms by (auto intro!: sum_list_nonneg dest: in_set_dropD in_set_takeD)
  ultimately show ?thesis by linarith
qed

lemma sorted_rev_map_filter:
  "sorted (rev (map f xs)) \<Longrightarrow> sorted (rev (map f (filter P xs)))"
  by (simp add: rev_map rev_filter sorted_filter)

lemma py_min_Min: "xs \<noteq> [] \<Longrightarrow> py_min xs = Min (set xs)"
proof (cases xs)
  case (Cons a ys)
  then show ?thesis unfolding py_min_def using Min.set_eq_fold [of a ys] by simp
qed simp

lemma py_max_Max: "xs \<noteq> [] \<Longrightarrow> py_max xs = Max (set xs)"
proof (cases xs)
  case (Cons a ys)
  then show ?thesis unfolding py_max_def using Max.set_eq_fold [of a ys] by simp
qed simp

lemma py_min_le_py_max: "xs \<noteq> [] \<Longrightarrow> py_min xs \<le> py_max xs"
  by (simp add: py_min_Min py_max_Max)

lemma hd_sorted_desc_max:
  fixes f :: "'a \<Rightarrow> 'b::linorder"
  assumes "sorted (rev (map f xs))" "x \<in> set xs"
  shows "f x \<le> f (hd xs)"
proof -
  have "sorted_wrt (\<lambda>a b. f b \<le> f a) xs"
    using assms(1) by (simp add: sorted_wrt_rev sorted_wrt_map)
  then show ?thesis using sorted_wrt_hd_filter [of f xs x "\<lambda>_. True"] assms(2) by simp
qed

lemma py_bind_Inr [simp]: "py_bind (Inr x) f = f x"
  and py_bind_Inl [simp]: "py_bind (Inl e) f = Inl e"
  by (simp_all add: py_bind_def)

lemma py_bind_eq_Inr:
  "py_bind r f = Inr y \<longleftrightarrow> (\<exists>x. r = Inr x \<and> f x = Inr y)"
  by (cases r) simp_all

lemma py_col_Some [simp]: "py_col (Some xs) = Inr xs"
  and py_col_None [simp]: "py_col None = Inl KeyError"
  by (simp_all add: py_col_def)

lemma insort_key_map_invariant:
  "(\<And>x. f (g x) = f x) \<Longrightarrow> insort_key f (g x) (map g ys) = map g (insort_key f x ys)"
  by (induction ys) auto

lemma sort_desc_by_map_invariant:
  "(\<And>x. f (g x) = f x) \<Longrightarrow> sort_desc_by f (map g xs) = map g (sort_desc_by f xs)"
proof -
  assume fg: "\<And>x. f (g x) = f x"
  have "sort_key f (map g ys) = map g (sort_key f ys)" for ys
    by (induction ys) (simp_all add: insort_key_map_invariant [where f = f and g = g, OF fg])
  then show ?thesis by (simp add: sort_desc_by_def rev_map)
qed

lemma py_min2_py_max2_Fin:
  "\<exists>r. py_min2 (Fin hi) (py_max2 (Fin lo) x) = Fin r \<and> (lo \<le> hi \<longrightarrow> lo \<le> r \<and> r \<le> hi)"
  by (cases x) (auto simp: py_min2_def py_max2_def)

lemma py_mean_bounds:
  "xs \<noteq> [] \<Longrightarrow> \<forall>x\<in>set xs. 0 \<le> x \<Longrightarrow> 0 \<le> py_mean xs"
  by (simp add: py_mean_def sum_list_nonneg)

lemma hd_filter_first:
  "filter P xs \<noteq> [] \<Longrightarrow>
   \<exists>j<length xs. hd (filter P xs) = xs ! j \<and> P (xs ! j) \<and> (\<forall>i<j. \<not> P (xs ! i))"
proof (induction xs)
  case Nil
  then show ?case by simp
next
  case (Cons x xs)
  show ?case
  proof (cases "P x")
    case True
    then show ?thesis by force
  next
    case False
    then obtain j where "j < length xs" "hd (filter P xs) = xs ! j" "P (xs ! j)"
        "\<forall>i<j. \<not> P (xs ! i)"
      using Cons by auto
    then show ?thesis using False
      by (intro exI [of _ "Suc j"]) (auto simp: less_Suc_eq_0_disj)
  qed
qed

lemma length_filter_disjoint:
  "\<forall>x. \<not> (P x \<and> Q x) \<Longrightarrow> length (filter P xs) + length (filter Q xs) \<le> length xs"
  by (induction xs) auto

lemma sort_key_eq_Nil_iff [simp]: "sort_key f xs = [] \<longleftrightarrow> xs = []"
  by (metis length_0_conv length_sort)

lemma sorted_nth_mono_le:
  "sorted s \<Longrightarrow> i \<le> j \<Longrightarrow> j < length s \<Longrightarrow> s ! i \<le> s ! j"
  by (simp add: sorted_iff_nth_mono)

lemma sorted_distinct_nth_less:
  fixes s :: "'a::linorder list"
  assumes "sorted s" "i < length s" "j < length s" "s ! i < s ! j"
  shows "i < j"
proof (rule ccontr)
  assume "\<not> i < j"
  then have "s ! j \<le> s ! i" using assms(1,2) by (simp add: sorted_iff_nth_mono)
  then show False using assms(4) by simp
qed

lemma rank_pct_last_bounds:
  assumes "xs \<noteq> []"
  shows "0 < rank_pct_last xs \<and> rank_pct_last xs \<le> 1"
proof -
  define v where "v = last xs"
  define less where "less = length (filter (\<lambda>x. x < v) xs)"
  define eq where "eq = length (filter (\<lambda>x. x = v) xs)"
  have "v \<in> set xs" using assms by (simp add: v_def)
  then have eq1: "1 \<le> eq" unfolding eq_def
    by (metis (mono_tags) One_nat_def Suc_leI filter_empty_conv length_greater_0_conv)
  have "less + eq \<le> length xs" unfolding less_def eq_def
    by (rule length_filter_disjoint) auto
  then have "real less + real eq \<le> real (length xs)" "1 \<le> real eq"
    using eq1 by (simp_all only: of_nat_add [symmetric] of_nat_le_iff)
  moreover have "(real eq + 1) / 2 \<le> real eq" using eq1 by simp
  ultimately have le: "real less + (real eq + 1) / 2 \<le> real (length xs)" by linarith
  have r: "rank_pct_last xs = (real less + (real eq + 1) / 2) / real (length xs)"
    by (simp add: rank_pct_last_def Let_def v_def less_def eq_def)
  have n: "0 < real (length xs)" using assms by simp
  have pos: "0 < real less + (real eq + 1) / 2"
    using add_nonneg_pos [of "real less" "(real eq + 1) / 2"] by simp
  have "0 < rank_pct_last xs" unfolding r using pos n by simp
  moreover have "rank_pct_last xs \<le> 1" unfolding r using le n by simp
  ultimately show ?thesis by simp
qed

end
