(* ===== verification/Filing_Index.thy ===== *)
theory Filing_Index
  imports Prelude
begin

text \<open>
  Filtering an institution's filing index to holdings reports (form \<open>13F-HR\<close>).
  The index is the JSON object of the archive's submissions endpoint; its parallel
  arrays \<open>form\<close>, \<open>accessionNumber\<close>, \<open>filingDate\<close> are the record
  \<open>filing_data\<close> (a missing key reads as \<open>[]\<close>, as \<open>.get(key, [])\<close> does).
  \<^item> \<open>process_filing_data\<close> is \<open>InstitutionalTracker._process_filing_data\<close>;
  \<^item> \<open>extract_13f_filings\<close> is \<open>SimplifiedInstitutionalTracker._extract_13f_filings\<close>,
    which also derives the quarter label;
  \<^item> \<open>take_13f\<close>/\<open>get_13f_rows\<close> are the loop of \<open>InstitutionalTracker.get_13f_filings\<close>.
  Every index read and every \<open>int(...)\<close> may raise; those are \<open>Inl\<close> values.
\<close>

section \<open>Data\<close>

record filing_data =
  forms :: "string list"
  accession_numbers :: "string list"
  filing_dates :: "string list"

text \<open>The dictionaries the code builds for one filing: \<open>get_13f_filings\<close> keeps three
  keys, \<open>_process_filing_data\<close> adds the year, \<open>_extract_13f_filings\<close> also the
  quarter label.\<close>

record filing_ref =
  accession_number :: string
  filing_date :: string
  form :: string

record filing = filing_ref +
  filing_year :: int

record filing_q = filing +
  filing_quarter :: string

section \<open>Operations\<close>

definition hr_form :: string where
  "hr_form = ''13F-HR''"

text \<open>\<open>int(filing_date.split('-')[0])\<close>\<close>

definition date_year :: "string \<Rightarrow> int option" where
  "date_year d = py_int (hd (py_split CHR ''-'' d))"

text \<open>One iteration of the loop of \<open>_process_filing_data\<close> (lines 123-133): the date
  is read first, then its year, then the range test, then the accession number.\<close>

definition process_row :: "int \<Rightarrow> int \<Rightarrow> filing_data \<Rightarrow> nat \<Rightarrow> string \<Rightarrow> py_exc + filing option" where
  "process_row start_year end_year fd i f =
     (if f = hr_form then
        (case py_index (filing_dates fd) i of
           Inl e \<Rightarrow> Inl e
         | Inr d \<Rightarrow>
             (case date_year d of
                None \<Rightarrow> Inl ValueError
              | Some y \<Rightarrow>
                  if start_year \<le> y \<and> y \<le> end_year then
                    (case py_index (accession_numbers fd) i of
                       Inl e \<Rightarrow> Inl e
                     | Inr a \<Rightarrow> Inr (Some \<lparr>accession_number = a, filing_date = d, form = f,
                                           filing_year = y\<rparr>))
                  else Inr None))
      else Inr None)"

definition process_filing_data :: "filing_data \<Rightarrow> int \<Rightarrow> int \<Rightarrow> py_exc + filing list" where
  "process_filing_data fd start_year end_year =
     py_collect (process_row start_year end_year fd) 0 (forms fd)"

text \<open>\<open>f"Q{((int(filing_date.split('-')[1]) - 1) // 3) + 1}"\<close>; Python's \<open>//\<close> is
  floor division, HOL's \<open>div\<close> on \<open>int\<close>.\<close>

definition quarter_of_month :: "int \<Rightarrow> int" where
  "quarter_of_month m = (m - 1) div 3 + 1"

definition quarter_label :: "string \<Rightarrow> py_exc + string" where
  "quarter_label d =
     (case py_index (py_split CHR ''-'' d) 1 of
        Inl e \<Rightarrow> Inl e
      | Inr ms \<Rightarrow> (case py_int ms of
                    None \<Rightarrow> Inl ValueError
                  | Some m \<Rightarrow> Inr (''Q'' @ py_str_int (quarter_of_month m))))"

text \<open>One iteration of \<open>_extract_13f_filings\<close> (lines 87-98); the dictionary literal
  evaluates \<open>accession_numbers[i]\<close> before the quarter label.\<close>

definition extract_row :: "int \<Rightarrow> filing_data \<Rightarrow> nat \<Rightarrow> string \<Rightarrow> py_exc + filing_q option" where
  "extract_row cutoff_year fd i f =
     (if f = hr_form then
        (case py_index (filing_dates fd) i of
           Inl e \<Rightarrow> Inl e
         | Inr d \<Rightarrow>
             (case date_year d of
                None \<Rightarrow> Inl ValueError
              | Some y \<Rightarrow>
                  if cutoff_year \<le> y then
                    (case py_index (accession_numbers fd) i of
                       Inl e \<Rightarrow> Inl e
                     | Inr a \<Rightarrow>
                         (case quarter_label d of
                            Inl e \<Rightarrow> Inl e
                          | Inr q \<Rightarrow> Inr (Some \<lparr>accession_number = a, filing_date = d, form = f,
                                                filing_year = y, filing_quarter = q\<rparr>)))
                  else Inr None))
      else Inr None)"

text \<open>\<open>cutoff_year = datetime.now().year - years_back\<close>; the current year is a
  parameter.\<close>

definition extract_13f_filings :: "int \<Rightarrow> filing_data \<Rightarrow> int \<Rightarrow> py_exc + filing_q list" where
  "extract_13f_filings now_year fd years_back =
     py_collect (extract_row (now_year - years_back) fd) 0 (forms fd)"

text \<open>The loop of \<open>get_13f_filings\<close> (lines 155-162): rows are appended while
  fewer than \<open>limit\<close> are kept; the loop runs on to the end of \<open>forms\<close>.\<close>

fun take_13f :: "nat \<Rightarrow> filing_data \<Rightarrow> nat \<Rightarrow> string list \<Rightarrow> filing_ref list \<Rightarrow> py_exc + filing_ref list" where
  "take_13f limit fd i [] acc = Inr acc"
| "take_13f limit fd i (f # fs) acc =
     (if f = hr_form \<and> length acc < limit then
        (case py_index (accession_numbers fd) i of
           Inl e \<Rightarrow> Inl e
         | Inr a \<Rightarrow> (case py_index (filing_dates fd) i of
                      Inl e \<Rightarrow> Inl e
                    | Inr d \<Rightarrow> take_13f limit fd (Suc i) fs
                                 (acc @ [\<lparr>accession_number = a, filing_date = d, form = f\<rparr>])))
      else take_13f limit fd (Suc i) fs acc)"

definition get_13f_rows :: "nat \<Rightarrow> filing_data \<Rightarrow> py_exc + filing_ref list" where
  "get_13f_rows limit fd = take_13f limit fd 0 (forms fd) []"

text \<open>The reference the loop refines: every holdings-report row, in index order.\<close>

definition row_ref :: "filing_data \<Rightarrow> nat \<Rightarrow> filing_ref" where
  "row_ref fd i = \<lparr>accession_number = accession_numbers fd ! i, filing_date = filing_dates fd ! i,
                   form = forms fd ! i\<rparr>"

definition all_13f_rows :: "filing_data \<Rightarrow> filing_ref list" where
  "all_13f_rows fd = [row_ref fd i. i \<leftarrow> [0..<length (forms fd)], forms fd ! i = hr_form]"

section \<open>Lemmas\<close>

lemma process_row_Some:
  assumes "process_row start_year end_year fd i f = Inr (Some x)"
  shows "f = hr_form \<and> i < length (filing_dates fd) \<and> i < length (accession_numbers fd)
    \<and> filing_date x = filing_dates fd ! i \<and> accession_number x = accession_numbers fd ! i
    \<and> form x = f \<and> date_year (filing_date x) = Some (filing_year x)
    \<and> start_year \<le> filing_year x \<and> filing_year x \<le> end_year"
  using assms by (auto simp: process_row_def split: if_splits sum.splits option.splits)

lemma process_row_hit:
  assumes "process_row start_year end_year fd i hr_form = Inr r"
    and "date_year (filing_dates fd ! i) = Some y" and "start_year \<le> y" and "y \<le> end_year"
  shows "r = Some \<lparr>accession_number = accession_numbers fd ! i, filing_date = filing_dates fd ! i,
                   form = hr_form, filing_year = y\<rparr>"
  using assms by (auto simp: process_row_def py_index_def split: if_splits sum.splits option.splits)

lemma process_row_Inl: "process_row start_year end_year fd i f = Inl e \<Longrightarrow> e = IndexError \<or> e = ValueError"
  by (auto simp: process_row_def split: if_splits sum.splits option.splits)

lemma process_row_total:
  assumes "i < length (filing_dates fd)" and "i < length (accession_numbers fd)"
    and "f = hr_form \<Longrightarrow> date_year (filing_dates fd ! i) \<noteq> None"
  shows "\<exists>r. process_row start_year end_year fd i f = Inr r"
  using assms by (auto simp: process_row_def py_index_def split: option.splits)

lemma extract_row_Some:
  assumes "extract_row cutoff fd i f = Inr (Some x)"
  shows "f = hr_form \<and> i < length (filing_dates fd) \<and> i < length (accession_numbers fd)
    \<and> filing_date x = filing_dates fd ! i \<and> accession_number x = accession_numbers fd ! i
    \<and> date_year (filing_date x) = Some (filing_year x) \<and> cutoff \<le> filing_year x
    \<and> quarter_label (filing_date x) = Inr (filing_quarter x)"
  using assms by (auto simp: extract_row_def split: if_splits sum.splits option.splits)

lemma quarter_of_month_range: "1 \<le> m \<Longrightarrow> m \<le> 12 \<Longrightarrow> 1 \<le> quarter_of_month m \<and> quarter_of_month m \<le> 4"
  by (simp add: quarter_of_month_def) linarith

lemma quarter_of_month_cases:
  "1 \<le> m \<Longrightarrow> m \<le> 12 \<Longrightarrow> quarter_of_month m \<in> {1, 2, 3, 4}"
  using quarter_of_month_range [of m] by auto

lemma quarter_label_month:
  assumes "quarter_label d = Inr q"
  shows "\<exists>m. py_int (py_split CHR ''-'' d ! 1) = Some m \<and> q = ''Q'' @ py_str_int (quarter_of_month m)"
  using assms by (auto simp: quarter_label_def py_index_def split: if_splits option.splits)

lemma py_str_int_small: "py_str_int 1 = ''1'' \<and> py_str_int 2 = ''2'' \<and> py_str_int 3 = ''3'' \<and> py_str_int 4 = ''4''"
  by code_simp

lemma take_13f_eq:
  assumes "\<And>j. j < length fs \<Longrightarrow> i + j < length (accession_numbers fd) \<and> i + j < length (filing_dates fd)
             \<and> forms fd ! (i + j) = fs ! j"
    and "length acc \<le> limit"
  shows "take_13f limit fd i fs acc =
           Inr (acc @ take (limit - length acc)
                 [row_ref fd j. j \<leftarrow> [i..<i + length fs], forms fd ! j = hr_form])"
  using assms
proof (induction fs arbitrary: i acc)
  case Nil
  then show ?case by simp
next
  case (Cons f fs)
  from Cons.prems(1) [of 0] have i: "i < length (accession_numbers fd)" "i < length (filing_dates fd)"
    and f: "forms fd ! i = f" by simp_all
  have rest: "\<And>j. j < length fs \<Longrightarrow> Suc i + j < length (accession_numbers fd)
      \<and> Suc i + j < length (filing_dates fd) \<and> forms fd ! (Suc i + j) = fs ! j"
    using Cons.prems(1) [of "Suc _"] by simp
  have upt: "[i..<Suc (i + length fs)] = i # [Suc i..<Suc (i + length fs)]"
    by (rule upt_conv_Cons) simp
  show ?case
  proof (cases "f = hr_form")
    case True
    show ?thesis
    proof (cases "length acc < limit")
      case lt: True
      have row: "\<lparr>accession_number = accession_numbers fd ! i, filing_date = filing_dates fd ! i,
                  form = f\<rparr> = row_ref fd i"
        using f by (simp add: row_ref_def)
      from lt have "length (acc @ [row_ref fd i]) \<le> limit" by simp
      note IH = Cons.IH [OF rest this]
      from lt have "limit - length acc = Suc (limit - length (acc @ [row_ref fd i]))" by simp
      with True lt i f IH row show ?thesis by (simp add: upt py_index_def del: upt_Suc)
    next
      case False
      with Cons.prems(2) have eq: "length acc = limit" by simp
      with True Cons.IH [OF rest Cons.prems(2)] show ?thesis by (simp add: upt del: upt_Suc)
    qed
  next
    case False
    with f Cons.IH [OF rest Cons.prems(2)] show ?thesis by (simp add: upt del: upt_Suc)
  qed
qed

section \<open>Properties\<close>

text \<open>C6: every entry \<open>_process_filing_data\<close> returns comes from one row of the index:
  its form is \<open>13F-HR\<close>, its date and accession number are that row's, its year is
  \<open>int(date.split('-')[0])\<close> and lies in the requested range.\<close>

theorem process_filing_data_sound:
  assumes "process_filing_data fd start_year end_year = Inr fs" and "x \<in> set fs"
  shows "form x = hr_form \<and> date_year (filing_date x) = Some (filing_year x)
    \<and> start_year \<le> filing_year x \<and> filing_year x \<le> end_year
    \<and> (\<exists>i < length (forms fd). forms fd ! i = hr_form \<and> filing_dates fd ! i = filing_date x
         \<and> accession_numbers fd ! i = accession_number x)"
proof -
  from py_collect_mem [OF assms [unfolded process_filing_data_def]]
  obtain i where i: "i < length (forms fd)"
    and row: "process_row start_year end_year fd i (forms fd ! i) = Inr (Some x)" by auto
  from process_row_Some [OF row] i show ?thesis by auto
qed

theorem process_filing_data_sound_witness:
  "form \<lparr>accession_number = ''a1'', filing_date = ''2021-11-15'', form = ''13F-HR'', filing_year = 2021\<rparr> = hr_form
   \<and> date_year ''2021-11-15'' = Some 2021"
proof -
  have ev: "process_filing_data
      \<lparr>forms = [''13F-HR'', ''10-K''], accession_numbers = [''a1'', ''a2''],
       filing_dates = [''2021-11-15'', ''2020-01-01'']\<rparr> 2020 2025
    = Inr [\<lparr>accession_number = ''a1'', filing_date = ''2021-11-15'', form = ''13F-HR'', filing_year = 2021\<rparr>]"
    by code_simp
  from process_filing_data_sound [OF ev] show ?thesis by simp
qed

text \<open>C37: conversely, when \<open>_process_filing_data\<close> returns, it keeps every
  holdings-report row whose year lies in the range.\<close>

theorem process_filing_data_complete:
  assumes "process_filing_data fd start_year end_year = Inr fs"
    and "i < length (forms fd)" and "forms fd ! i = hr_form"
    and "date_year (filing_dates fd ! i) = Some y" and "start_year \<le> y" and "y \<le> end_year"
  shows "\<lparr>accession_number = accession_numbers fd ! i, filing_date = filing_dates fd ! i,
          form = hr_form, filing_year = y\<rparr> \<in> set fs"
proof -
  have ok: "py_collect (process_row start_year end_year fd) 0 (forms fd) = Inr fs"
    using assms(1) by (simp add: process_filing_data_def)
  from py_collect_rows_Inr [OF ok assms(2)] assms(3)
  obtain r where "process_row start_year end_year fd i hr_form = Inr r" by auto
  with assms(4-6) have "process_row start_year end_year fd (0 + i) (forms fd ! i) = Inr (Some
      \<lparr>accession_number = accession_numbers fd ! i, filing_date = filing_dates fd ! i,
       form = hr_form, filing_year = y\<rparr>)"
    using process_row_hit assms(3) by simp
  from py_collect_complete [OF ok assms(2) this] show ?thesis .
qed

theorem process_filing_data_complete_witness:
  "\<lparr>accession_number = ''a1'', filing_date = ''2021-11-15'', form = hr_form, filing_year = 2021\<rparr>
   \<in> set [\<lparr>accession_number = ''a1'', filing_date = ''2021-11-15'', form = ''13F-HR'', filing_year = 2021\<rparr>]"
proof -
  let ?fd = "\<lparr>forms = [''13F-HR'', ''10-K''], accession_numbers = [''a1'', ''a2''],
             filing_dates = [''2021-11-15'', ''2020-01-01'']\<rparr>"
  have ev: "process_filing_data ?fd 2020 2025
    = Inr [\<lparr>accession_number = ''a1'', filing_date = ''2021-11-15'', form = ''13F-HR'', filing_year = 2021\<rparr>]"
    by code_simp
  have "0 < length (forms ?fd)" "forms ?fd ! 0 = hr_form" by (simp_all add: hr_form_def)
  moreover have "date_year (filing_dates ?fd ! 0) = Some 2021" by code_simp
  ultimately show ?thesis
    using process_filing_data_complete [OF ev, of 0 2021] by simp
qed

text \<open>Every entry of \<open>_extract_13f_filings\<close> carries the quarter label
  \<open>Q((month - 1) // 3 + 1)\<close> of its own date; when the month is 1 to 12 the label
  is one of Q1 to Q4.\<close>

theorem extract_13f_quarter:
  assumes "extract_13f_filings now_year fd years_back = Inr fs" and "x \<in> set fs"
    and "py_int (py_split CHR ''-'' (filing_date x) ! 1) = Some m" and "1 \<le> m" and "m \<le> 12"
  shows "filing_quarter x = ''Q'' @ py_str_int ((m - 1) div 3 + 1)
    \<and> filing_quarter x \<in> {''Q1'', ''Q2'', ''Q3'', ''Q4''}
    \<and> date_year (filing_date x) = Some (filing_year x)"
proof -
  from py_collect_mem [OF assms(1) [unfolded extract_13f_filings_def] assms(2)]
  obtain i where "extract_row (now_year - years_back) fd i (forms fd ! i) = Inr (Some x)" by auto
  from extract_row_Some [OF this]
  have yr: "date_year (filing_date x) = Some (filing_year x)"
    and q: "quarter_label (filing_date x) = Inr (filing_quarter x)" by auto
  from quarter_label_month [OF q] assms(3)
  have fq: "filing_quarter x = ''Q'' @ py_str_int (quarter_of_month m)" by auto
  from quarter_of_month_cases [OF assms(4,5)] py_str_int_small
  have "''Q'' @ py_str_int (quarter_of_month m) \<in> {''Q1'', ''Q2'', ''Q3'', ''Q4''}" by auto
  with fq yr show ?thesis by (simp add: quarter_of_month_def)
qed

theorem extract_13f_quarter_witness:
  "filing_quarter \<lparr>accession_number = ''a1'', filing_date = ''2021-11-15'', form = ''13F-HR'',
     filing_year = 2021, filing_quarter = ''Q4''\<rparr> = ''Q'' @ py_str_int ((11 - 1) div 3 + 1)"
proof -
  have ev: "extract_13f_filings 2025
      \<lparr>forms = [''13F-HR''], accession_numbers = [''a1''], filing_dates = [''2021-11-15'']\<rparr> 20
    = Inr [\<lparr>accession_number = ''a1'', filing_date = ''2021-11-15'', form = ''13F-HR'',
            filing_year = 2021, filing_quarter = ''Q4''\<rparr>]"
    by code_simp
  have m: "py_int (py_split CHR ''-'' ''2021-11-15'' ! 1) = Some 11" by code_simp
  from extract_13f_quarter [OF ev _ _ , of _ 11] m show ?thesis by simp
qed

text \<open>The quarter label is computed from whatever month the date carries; a
  month outside 1 to 12 gives a label outside Q1 to Q4 (here \<open>2021-13-01\<close> gives
  Q5 and \<open>2021-00-10\<close> gives Q0) instead of an error.\<close>

theorem quarter_label_unchecked:
  "quarter_label ''2021-13-01'' = Inr ''Q5'' \<and> quarter_label ''2021-00-10'' = Inr ''Q0''"
  by code_simp

text \<open>C38: the loop of \<open>get_13f_filings\<close> returns the first \<open>limit\<close> holdings-report
  rows of the index in index order, whenever the parallel arrays are long enough.\<close>

theorem get_13f_rows_refines:
  assumes "length (forms fd) \<le> length (accession_numbers fd)"
    and "length (forms fd) \<le> length (filing_dates fd)"
  shows "get_13f_rows limit fd = Inr (take limit (all_13f_rows fd))"
proof -
  have "take_13f limit fd 0 (forms fd) [] =
          Inr ([] @ take (limit - length ([] :: filing_ref list))
                 [row_ref fd j. j \<leftarrow> [0..<0 + length (forms fd)], forms fd ! j = hr_form])"
    using assms by (intro take_13f_eq) auto
  then show ?thesis by (simp add: get_13f_rows_def all_13f_rows_def)
qed

theorem get_13f_rows_refines_witness:
  "get_13f_rows 1 \<lparr>forms = [''13F-HR'', ''10-K'', ''13F-HR''], accession_numbers = [''a1'', ''a2'', ''a3''],
      filing_dates = [''2021-11-15'', ''2020-01-01'', ''2019-02-14'']\<rparr>
   = Inr [\<lparr>accession_number = ''a1'', filing_date = ''2021-11-15'', form = ''13F-HR''\<rparr>]"
proof -
  let ?fd = "\<lparr>forms = [''13F-HR'', ''10-K'', ''13F-HR''], accession_numbers = [''a1'', ''a2'', ''a3''],
      filing_dates = [''2021-11-15'', ''2020-01-01'', ''2019-02-14'']\<rparr>"
  have "get_13f_rows 1 ?fd = Inr (take 1 (all_13f_rows ?fd))"
    by (rule get_13f_rows_refines) simp_all
  then show ?thesis by (simp add: all_13f_rows_def row_ref_def hr_form_def)
qed

end
