(* ===== verification/Archive.thy ===== *)
theory Archive
  imports Filing_Index
begin

text \<open>
  The interface between the tracker and the SEC archive host
  (\<open>https://data.sec.gov\<close>). \<open>requests.get(url, ...)\<close> either raises (connection
  error, timeout: \<open>Raised\<close>) or returns a status code and a body; the host is a
  function of the URL (\<open>host\<close>). \<open>response.json()\<close> followed by the code's
  \<open>.get\<close> accesses is a decoding of the body that may fail (\<open>None\<close>, a raised
  \<open>JSONDecodeError\<close>): \<open>json_submissions\<close> for the submissions index
  (\<open>{filings: {recent: {...}, files: [{name}]}}\<close>) and \<open>json_filing_data\<close> for an
  archived shard, whose top level holds the \<open>form\<close>/\<open>accessionNumber\<close>/\<open>filingDate\<close>
  arrays. A shard reference without a \<open>name\<close> key is \<open>None\<close> in \<open>files\<close>; an
  empty or missing \<open>recent\<close> object is \<open>recent = None\<close>.

  Every operation that talks to the host also returns its request trace: \<open>Get url\<close>
  for each \<open>requests.get\<close>, \<open>Sleep ms\<close> for each \<open>time.sleep\<close>. The rate-limit
  policy of the spec (a minimum delay between requests) is the predicate
  \<open>throttled\<close>: no two requests are adjacent in the trace.
\<close>

section \<open>Host, responses and traces\<close>

datatype 'b response = Raised | Response nat 'b

record submissions =
  recent :: "filing_data option"
  files :: "string option list"

record archive =
  host :: "string \<Rightarrow> string response"
  json_submissions :: "string \<Rightarrow> submissions option"
  json_filing_data :: "string \<Rightarrow> filing_data option"

datatype event = Get string | Sleep nat

definition base_url :: string where
  "base_url = ''https://data.sec.gov''"

text \<open>\<open>f"{self.base_url}/submissions/CIK{formatted_cik}.json"\<close> with
  \<open>formatted_cik = str(cik).zfill(10)\<close>.\<close>

definition submissions_url :: "string \<Rightarrow> string" where
  "submissions_url cik = base_url @ ''/submissions/CIK'' @ py_zfill 10 cik @ ''.json''"

definition shard_url :: "string \<Rightarrow> string" where
  "shard_url name = base_url @ ''/submissions/'' @ name"

text \<open>\<open>f"{base_url}/Archives/edgar/data/{formatted_cik}/{accession_clean}/{doc}"\<close> with
  \<open>accession_clean = accession_number.replace('-', '')\<close>.\<close>

definition doc_url :: "string \<Rightarrow> string \<Rightarrow> string \<Rightarrow> string" where
  "doc_url cik accession doc =
     base_url @ ''/Archives/edgar/data/'' @ py_zfill 10 cik @ ''/''
       @ filter (\<lambda>c. c \<noteq> CHR ''-'') accession @ ''/'' @ doc"

fun throttled :: "event list \<Rightarrow> bool" where
  "throttled (Get u # Get v # es) = False"
| "throttled (e # es) = throttled es"
| "throttled [] = True"

definition no_filing_data :: filing_data where
  "no_filing_data = \<lparr>forms = [], accession_numbers = [], filing_dates = []\<rparr>"

section \<open>Trace lemmas\<close>

lemma throttled_Sleep_Cons [simp]: "throttled (Sleep n # es) = throttled es"
  by simp

lemma throttled_pairs:
  "(\<And>t. t \<in> set ts \<Longrightarrow> \<exists>u. t = [Get u, Sleep n]) \<Longrightarrow> throttled (concat ts)"
proof (induction ts)
  case Nil
  then show ?case by simp
next
  case (Cons t ts)
  then obtain u where "t = [Get u, Sleep n]" by auto
  with Cons show ?case by simp
qed

lemma throttled_two_gets: "\<not> throttled (Get u # Get v # es)"
  by simp

end
