(* ===== verification/Crawler.thy ===== *)
theory Crawler
  imports Archive
begin

text \<open>
  The filing-index crawler: \<open>InstitutionalTracker.get_historical_13f_filings\<close>
  (lines 62-112) and \<open>SimplifiedInstitutionalTracker.get_comprehensive_13f_history\<close>
  (lines 32-75) share one shape, \<open>crawl_history\<close>, over the function that filters
  one page of the index (\<open>process_filing_data\<close> or \<open>extract_13f_filings\<close>) and
  the sort key. The recent page is filtered first; then every shard named in
  \<open>files\<close> is fetched (\<open>fetch_shard\<close>, one iteration of the \<open>for file_info\<close> loop
  with its own \<open>try\<close>) and \<open>time.sleep(0.2)\<close> follows a shard request only when
  nothing in that iteration raised. An exception in an iteration skips that shard;
  a shard entry without \<open>name\<close> raises \<open>KeyError\<close> again inside the handler
  (\<open>file_info['name']\<close> in the message), which the outer \<open>try\<close> turns into an
  empty result. The union is sorted newest first by \<open>filing_date\<close>.
  \<open>get_13f_filings\<close> reads the recent page only.
\<close>

section \<open>Operations\<close>

definition fetch_shard ::
  "archive \<Rightarrow> (filing_data \<Rightarrow> py_exc + 'e list) \<Rightarrow> string \<Rightarrow> (py_exc + 'e list) \<times> event list" where
  "fetch_shard A proc name =
     (let url = shard_url name in
      case host A url of
        Raised \<Rightarrow> (Inl RequestException, [Get url])
      | Response status body \<Rightarrow>
          if status = 200 then
            (case json_filing_data A body of
               None \<Rightarrow> (Inl JSONDecodeError, [Get url])
             | Some d \<Rightarrow> (case proc d of
                           Inl e \<Rightarrow> (Inl e, [Get url])
                         | Inr fs \<Rightarrow> (Inr fs, [Get url, Sleep 200])))
          else (Inr [], [Get url, Sleep 200]))"

fun crawl_shards ::
  "archive \<Rightarrow> (filing_data \<Rightarrow> py_exc + 'e list) \<Rightarrow> string option list \<Rightarrow> (py_exc + 'e list) \<times> event list" where
  "crawl_shards A proc [] = (Inr [], [])"
| "crawl_shards A proc (None # fis) = (Inl KeyError, [])"
| "crawl_shards A proc (Some name # fis) =
     (let (r, t1) = fetch_shard A proc name;
          (rest, t2) = crawl_shards A proc fis
      in (case rest of
            Inl e \<Rightarrow> Inl e
          | Inr fs \<Rightarrow> Inr ((case r of Inl _ \<Rightarrow> [] | Inr x \<Rightarrow> x) @ fs), t1 @ t2))"

definition crawl_history ::
  "archive \<Rightarrow> (filing_data \<Rightarrow> py_exc + 'e list) \<Rightarrow> ('e \<Rightarrow> string) \<Rightarrow> string \<Rightarrow> 'e list \<times> event list" where
  "crawl_history A proc key cik =
     (let url = submissions_url cik in
      case host A url of
        Raised \<Rightarrow> ([], [Get url])
      | Response status body \<Rightarrow>
          if status \<noteq> 200 then ([], [Get url])
          else (case json_submissions A body of
                  None \<Rightarrow> ([], [Get url])
                | Some data \<Rightarrow>
                    (case (case recent data of None \<Rightarrow> Inr [] | Some rf \<Rightarrow> proc rf) of
                       Inl e \<Rightarrow> ([], [Get url])
                     | Inr rs \<Rightarrow>
                         (let (r, t) = crawl_shards A proc (files data)
                          in ((case r of Inl e \<Rightarrow> [] | Inr fs \<Rightarrow> sort_desc_by key (rs @ fs)),
                              Get url # t)))))"

text \<open>\<open>end_year=None\<close> defaults to the current year.\<close>

definition get_historical_13f_filings ::
  "archive \<Rightarrow> int \<Rightarrow> string \<Rightarrow> int \<Rightarrow> int option \<Rightarrow> filing list \<times> event list" where
  "get_historical_13f_filings A now_year cik start_year end_year =
     (let ey = (case end_year of None \<Rightarrow> now_year | Some y \<Rightarrow> y)
      in crawl_history A (\<lambda>fd. process_filing_data fd start_year ey) filing_date cik)"

definition get_comprehensive_13f_history ::
  "archive \<Rightarrow> int \<Rightarrow> string \<Rightarrow> int \<Rightarrow> filing_q list \<times> event list" where
  "get_comprehensive_13f_history A now_year cik years_back =
     crawl_history A (\<lambda>fd. extract_13f_filings now_year fd years_back) filing_date cik"

definition get_13f_filings :: "archive \<Rightarrow> string \<Rightarrow> nat \<Rightarrow> filing_ref list \<times> event list" where
  "get_13f_filings A cik limit =
     (let url = submissions_url cik in
      case host A url of
        Raised \<Rightarrow> ([], [Get url])
      | Response status body \<Rightarrow>
          if status \<noteq> 200 then ([], [Get url])
          else (case json_submissions A body of
                  None \<Rightarrow> ([], [Get url])
                | Some data \<Rightarrow>
                    (case get_13f_rows limit
                            (case recent data of None \<Rightarrow> no_filing_data | Some fd \<Rightarrow> fd) of
                       Inl e \<Rightarrow> ([], [Get url])
                     | Inr rows \<Rightarrow> (rows, [Get url]))))"

section \<open>An example archive\<close>

text \<open>A host whose index lists one holdings report in its recent page and the given
  shard references; the shard \<open>s1\<close> raises, every other shard returns one
  holdings report of 2020.\<close>

definition ex_index :: filing_data where
  "ex_index = \<lparr>forms = [''13F-HR'', ''4''],
                accession_numbers = [''0000950123-25-005701'', ''0000950123-25-000002''],
                filing_dates = [''2025-05-15'', ''2025-05-01'']\<rparr>"

definition ex_shard :: filing_data where
  "ex_shard = \<lparr>forms = [''13F-HR''], accession_numbers = [''0000950123-20-000001''],
                filing_dates = [''2020-02-14'']\<rparr>"

definition ex_archive :: "string option list \<Rightarrow> archive" where
  "ex_archive shards =
     \<lparr>host = (\<lambda>u. if u = shard_url ''s1'' then Raised else Response 200 u),
      json_submissions = (\<lambda>b. Some \<lparr>recent = Some ex_index, files = shards\<rparr>),
      json_filing_data = (\<lambda>b. Some ex_shard)\<rparr>"

section \<open>Lemmas\<close>

lemma fetch_shard_trace:
  "snd (fetch_shard A proc name) =
     (case fst (fetch_shard A proc name) of
        Inl e \<Rightarrow> [Get (shard_url name)]
      | Inr fs \<Rightarrow> [Get (shard_url name), Sleep 200])"
  by (auto simp: fetch_shard_def Let_def split: response.split option.split sum.split)

lemma crawl_shards_named:
  "None \<notin> set fis \<Longrightarrow>
   crawl_shards A proc fis =
     (Inr (concat (map (\<lambda>fi. case fst (fetch_shard A proc (the fi)) of Inl _ \<Rightarrow> [] | Inr x \<Rightarrow> x) fis)),
      concat (map (\<lambda>fi. snd (fetch_shard A proc (the fi))) fis))"
proof (induction fis)
  case Nil
  then show ?case by simp
next
  case (Cons fi fis)
  then obtain name where "fi = Some name" by (cases fi) auto
  with Cons show ?case by (simp add: split_beta)
qed

lemma crawl_shards_unnamed: "None \<in> set fis \<Longrightarrow> fst (crawl_shards A proc fis) = Inl KeyError"
proof (induction fis)
  case Nil
  then show ?case by simp
next
  case (Cons fi fis)
  show ?case
  proof (cases fi)
    case None
    then show ?thesis by simp
  next
    case (Some name)
    with Cons have "fst (crawl_shards A proc fis) = Inl KeyError" by simp
    with Some show ?thesis by (simp add: split_beta split: sum.split)
  qed
qed

lemma crawl_history_index_ok:
  assumes "host A (submissions_url cik) = Response 200 b" and "json_submissions A b = Some data"
    and "(case recent data of None \<Rightarrow> Inr [] | Some rf \<Rightarrow> proc rf) = Inr rs"
  shows "crawl_history A proc key cik =
           ((case fst (crawl_shards A proc (files data)) of
               Inl e \<Rightarrow> [] | Inr fs \<Rightarrow> sort_desc_by key (rs @ fs)),
            Get (submissions_url cik) # snd (crawl_shards A proc (files data)))"
  using assms by (simp add: crawl_history_def split_beta)

lemma crawl_history_sorted: "sorted (rev (map key (fst (crawl_history A proc key cik))))"
  by (auto simp: crawl_history_def Let_def split_beta sorted_sort_desc_by
           split: response.split option.split sum.split)

lemma crawl_history_keeps_recent:
  assumes "host A (submissions_url cik) = Response 200 b" and "json_submissions A b = Some data"
    and "(case recent data of None \<Rightarrow> Inr [] | Some rf \<Rightarrow> proc rf) = Inr rs"
    and "None \<notin> set (files data)"
  shows "mset rs \<subseteq># mset (fst (crawl_history A proc key cik))"
  using assms by (simp add: crawl_history_index_ok crawl_shards_named)

lemma crawl_history_trace_ok:
  assumes "host A (submissions_url cik) = Response 200 b" and "json_submissions A b = Some data"
    and "(case recent data of None \<Rightarrow> Inr [] | Some rf \<Rightarrow> proc rf) = Inr rs"
    and "\<forall>fi \<in> set (files data). \<exists>name x. fi = Some name \<and> fst (fetch_shard A proc name) = Inr x"
  shows "snd (crawl_history A proc key cik) =
           Get (submissions_url cik) # concat (map (\<lambda>fi. [Get (shard_url (the fi)), Sleep 200]) (files data))"
proof -
  from assms(4) have named: "None \<notin> set (files data)" by force
  have eq: "map (\<lambda>fi. snd (fetch_shard A proc (the fi))) (files data)
        = map (\<lambda>fi. [Get (shard_url (the fi)), Sleep 200]) (files data)"
  proof (rule map_cong [OF refl])
    fix fi assume "fi \<in> set (files data)"
    with assms(4) obtain name x where "fi = Some name" "fst (fetch_shard A proc name) = Inr x" by blast
    then show "snd (fetch_shard A proc (the fi)) = [Get (shard_url (the fi)), Sleep 200]"
      by (simp add: fetch_shard_trace)
  qed
  have "snd (crawl_history A proc key cik) =
          Get (submissions_url cik) # concat (map (\<lambda>fi. snd (fetch_shard A proc (the fi))) (files data))"
    using assms(1-3) named by (simp add: crawl_history_index_ok crawl_shards_named)
  then show ?thesis by (simp only: eq)
qed

section \<open>Properties\<close>

text \<open>Whatever the host answers, \<open>get_historical_13f_filings\<close> returns its entries
  newest first by \<open>filing_date\<close> (string order, as Python compares the ISO dates).\<close>

theorem get_historical_13f_filings_sorted:
  "sorted (rev (map filing_date (fst (get_historical_13f_filings A now_year cik start_year end_year))))"
  by (simp add: get_historical_13f_filings_def crawl_history_sorted)

text \<open>C5: a failing shard never costs the recent page: once the index has been read and
  its recent page filtered, every recent entry is in the result, whatever each shard
  request does (raise, error status, undecodable body, rows that raise), provided
  every shard reference has a name.\<close>

theorem get_historical_13f_filings_keeps_recent:
  assumes "host A (submissions_url cik) = Response 200 b" and "json_submissions A b = Some data"
    and "(case recent data of None \<Rightarrow> Inr []
          | Some rf \<Rightarrow> process_filing_data rf start_year
                        (case end_year of None \<Rightarrow> now_year | Some y \<Rightarrow> y)) = Inr rs"
    and "None \<notin> set (files data)"
  shows "set rs \<subseteq> set (fst (get_historical_13f_filings A now_year cik start_year end_year))"
proof -
  have "mset rs \<subseteq># mset (fst (get_historical_13f_filings A now_year cik start_year end_year))"
    unfolding get_historical_13f_filings_def Let_def using assms by (rule crawl_history_keeps_recent)
  then show ?thesis by (metis mset_subset_eqD set_mset_mset subsetI)
qed

theorem get_historical_13f_filings_keeps_recent_witness:
  "set [\<lparr>accession_number = ''0000950123-25-005701'', filing_date = ''2025-05-15'', form = ''13F-HR'',
         filing_year = 2025\<rparr>]
   \<subseteq> set (fst (get_historical_13f_filings (ex_archive [Some ''s1'', Some ''s2'']) 2025 ''0001067983'' 2005 None))"
proof (rule get_historical_13f_filings_keeps_recent)
  show "host (ex_archive [Some ''s1'', Some ''s2'']) (submissions_url ''0001067983'')
        = Response 200 (submissions_url ''0001067983'')" by code_simp
  show "json_submissions (ex_archive [Some ''s1'', Some ''s2'']) (submissions_url ''0001067983'')
        = Some \<lparr>recent = Some ex_index, files = [Some ''s1'', Some ''s2'']\<rparr>"
    by (simp add: ex_archive_def)
  show "(case recent \<lparr>recent = Some ex_index, files = [Some ''s1'', Some ''s2'']\<rparr> of None \<Rightarrow> Inr []
         | Some rf \<Rightarrow> process_filing_data rf 2005 (case None of None \<Rightarrow> 2025 | Some y \<Rightarrow> y))
        = Inr [\<lparr>accession_number = ''0000950123-25-005701'', filing_date = ''2025-05-15'', form = ''13F-HR'',
                filing_year = 2025\<rparr>]"
    by (simp add: ex_index_def) code_simp
qed simp

text \<open>C34: when every shard request succeeds, the crawler's requests are
  \<open>GET index, GET shard1, sleep 200ms, GET shard2, sleep 200ms, ...\<close>: the shard
  requests are separated by the delay, but the first shard is requested right
  after the index, with no delay between them.\<close>

theorem get_historical_13f_filings_trace:
  assumes "host A (submissions_url cik) = Response 200 b" and "json_submissions A b = Some data"
    and "(case recent data of None \<Rightarrow> Inr []
          | Some rf \<Rightarrow> process_filing_data rf start_year
                        (case end_year of None \<Rightarrow> now_year | Some y \<Rightarrow> y)) = Inr rs"
    and "\<forall>fi \<in> set (files data). \<exists>name x. fi = Some name \<and>
           fst (fetch_shard A (\<lambda>fd. process_filing_data fd start_year
                                    (case end_year of None \<Rightarrow> now_year | Some y \<Rightarrow> y)) name) = Inr x"
  shows "snd (get_historical_13f_filings A now_year cik start_year end_year) =
           Get (submissions_url cik) # concat (map (\<lambda>fi. [Get (shard_url (the fi)), Sleep 200]) (files data))
    \<and> throttled (tl (snd (get_historical_13f_filings A now_year cik start_year end_year)))
    \<and> (files data \<noteq> [] \<longrightarrow> \<not> throttled (snd (get_historical_13f_filings A now_year cik start_year end_year)))"
proof -
  have tr: "snd (get_historical_13f_filings A now_year cik start_year end_year) =
      Get (submissions_url cik) # concat (map (\<lambda>fi. [Get (shard_url (the fi)), Sleep 200]) (files data))"
    unfolding get_historical_13f_filings_def Let_def using assms by (rule crawl_history_trace_ok)
  have "throttled (concat (map (\<lambda>fi. [Get (shard_url (the fi)), Sleep 200]) (files data)))"
    by (rule throttled_pairs) auto
  moreover have "files data \<noteq> [] \<Longrightarrow>
      \<not> throttled (Get (submissions_url cik) # concat (map (\<lambda>fi. [Get (shard_url (the fi)), Sleep 200]) (files data)))"
    by (cases "files data") simp_all
  ultimately show ?thesis using tr by simp
qed

theorem get_historical_13f_filings_trace_witness:
  "throttled (tl (snd (get_historical_13f_filings (ex_archive [Some ''s2'', Some ''s3'']) 2025 ''0001067983'' 2005 None)))
   \<and> \<not> throttled (snd (get_historical_13f_filings (ex_archive [Some ''s2'', Some ''s3'']) 2025 ''0001067983'' 2005 None))"
proof -
  let ?A = "ex_archive [Some ''s2'', Some ''s3'']"
  let ?data = "\<lparr>recent = Some ex_index, files = [Some ''s2'', Some ''s3'']\<rparr>"
  have h: "host ?A (submissions_url ''0001067983'') = Response 200 (submissions_url ''0001067983'')"
    by code_simp
  have j: "json_submissions ?A (submissions_url ''0001067983'') = Some ?data"
    by (simp add: ex_archive_def)
  have r: "(case recent ?data of None \<Rightarrow> Inr []
          | Some rf \<Rightarrow> process_filing_data rf 2005 (case None of None \<Rightarrow> 2025 | Some y \<Rightarrow> y))
        = Inr [\<lparr>accession_number = ''0000950123-25-005701'', filing_date = ''2025-05-15'', form = ''13F-HR'',
                filing_year = 2025\<rparr>]"
    by (simp add: ex_index_def) code_simp
  have s: "\<forall>fi \<in> set (files ?data). \<exists>name x. fi = Some name \<and>
      fst (fetch_shard ?A (\<lambda>fd. process_filing_data fd 2005 (case None of None \<Rightarrow> 2025 | Some y \<Rightarrow> y)) name) = Inr x"
  proof -
    let ?P = "\<lambda>fd. process_filing_data fd 2005 (case None of None \<Rightarrow> 2025 | Some y \<Rightarrow> (y::int))"
    let ?row = "[\<lparr>accession_number = ''0000950123-20-000001'', filing_date = ''2020-02-14'', form = ''13F-HR'',
                 filing_year = 2020\<rparr>]"
    have "fst (fetch_shard ?A ?P ''s2'') = Inr ?row" "fst (fetch_shard ?A ?P ''s3'') = Inr ?row"
      by code_simp+
    then show ?thesis by auto
  qed
  from get_historical_13f_filings_trace [OF h j r s] show ?thesis by simp
qed

text \<open>A shard request that raises skips the \<open>time.sleep(0.2)\<close> of its iteration,
  so the next shard is requested immediately: the example archive's shard \<open>s1\<close>
  raises and the trace has two adjacent requests.\<close>

theorem get_historical_13f_filings_failed_shard_no_delay:
  "snd (get_historical_13f_filings (ex_archive [Some ''s1'', Some ''s2'']) 2025 ''0001067983'' 2005 None)
     = [Get (submissions_url ''0001067983''), Get (shard_url ''s1''), Get (shard_url ''s2''), Sleep 200]
   \<and> \<not> throttled (tl (snd (get_historical_13f_filings (ex_archive [Some ''s1'', Some ''s2'']) 2025 ''0001067983'' 2005 None)))"
  by code_simp

text \<open>A shard reference without a \<open>name\<close> key aborts the whole crawl: the
  \<open>except\<close> handler reads \<open>file_info['name']\<close> again, the new \<open>KeyError\<close>
  reaches the outer handler, and the institution yields no filings at all, the
  recent page included.\<close>

theorem get_historical_13f_filings_unnamed_shard:
  assumes "host A (submissions_url cik) = Response 200 b" and "json_submissions A b = Some data"
    and "(case recent data of None \<Rightarrow> Inr []
          | Some rf \<Rightarrow> process_filing_data rf start_year
                        (case end_year of None \<Rightarrow> now_year | Some y \<Rightarrow> y)) = Inr rs"
    and "None \<in> set (files data)"
  shows "fst (get_historical_13f_filings A now_year cik start_year end_year) = []"
proof -
  let ?proc = "\<lambda>fd. process_filing_data fd start_year (case end_year of None \<Rightarrow> now_year | Some y \<Rightarrow> y)"
  have "fst (crawl_shards A ?proc (files data)) = Inl KeyError"
    by (rule crawl_shards_unnamed [OF assms(4)])
  with assms(1-3) show ?thesis
    by (simp add: get_historical_13f_filings_def crawl_history_index_ok)
qed

theorem get_historical_13f_filings_unnamed_shard_witness:
  "fst (get_historical_13f_filings (ex_archive [Some ''s2'', None]) 2025 ''0001067983'' 2005 None) = []"
proof (rule get_historical_13f_filings_unnamed_shard)
  show "host (ex_archive [Some ''s2'', None]) (submissions_url ''0001067983'')
        = Response 200 (submissions_url ''0001067983'')" by code_simp
  show "json_submissions (ex_archive [Some ''s2'', None]) (submissions_url ''0001067983'')
        = Some \<lparr>recent = Some ex_index, files = [Some ''s2'', None]\<rparr>"
    by (simp add: ex_archive_def)
  show "(case recent \<lparr>recent = Some ex_index, files = [Some ''s2'', None]\<rparr> of None \<Rightarrow> Inr []
         | Some rf \<Rightarrow> process_filing_data rf 2005 (case None of None \<Rightarrow> 2025 | Some y \<Rightarrow> y))
        = Inr [\<lparr>accession_number = ''0000950123-25-005701'', filing_date = ''2025-05-15'', form = ''13F-HR'',
                filing_year = 2025\<rparr>]"
    by (simp add: ex_index_def) code_simp
qed simp

end
