(* ===== verification/Identifiers.thy ===== *)
theory Identifiers
  imports Prelude
begin

text \<open>
  Identifier resolution and the static rosters of
  \<open>src/datafetcher/institutional_tracker.py\<close> (\<open>InstitutionalTracker.__init__\<close>,
  \<open>get_major_institutions\<close>, \<open>_cusip_to_ticker\<close>) and the roster of
  \<open>SimplifiedInstitutionalTracker.__init__\<close>. The dictionary literals are kept as
  written (\<open>*_literal\<close>) and turned into dictionaries by \<open>py_dict\<close>, so the
  duplicated Vanguard entry of \<open>get_major_institutions\<close> collapses as it does in
  Python.
\<close>

section \<open>Definitions\<close>

definition target_tickers :: "string list" where
  "target_tickers = [''NVDA'', ''AMZN'', ''GOOGL'', ''MSFT'', ''AAPL'', ''TSLA'']"

definition ticker_to_cusip :: "(string \<times> string) list" where
  "ticker_to_cusip = py_dict
     [(''NVDA'', ''67066G104''), (''AMZN'', ''023135106''), (''GOOGL'', ''02079K305''),
      (''MSFT'', ''594918104''), (''AAPL'', ''037833100''), (''TSLA'', ''88160R101'')]"

text \<open>\<open>self.ticker_to_cusip.get(ticker, '')\<close>, as the text fallback parser uses it.\<close>

definition ticker_cusip :: "string \<Rightarrow> string" where
  "ticker_cusip t = py_get ticker_to_cusip t ''''"

text \<open>\<open>_cusip_to_ticker\<close>: invert the map by a comprehension, then look up with
  default \<open>''\<close>.\<close>

definition cusip_to_ticker :: "string \<Rightarrow> string" where
  "cusip_to_ticker c = py_get (py_dict (map (\<lambda>(k, v). (v, k)) ticker_to_cusip)) c ''''"

definition major_institutions_literal :: "(string \<times> string) list" where
  "major_institutions_literal =
     [(''0001067983'', ''Berkshire Hathaway Inc''),
      (''0001364742'', ''Vanguard Group Inc''),
      (''0000950123'', ''BlackRock Inc''),
      (''0001418814'', ''State Street Corp''),
      (''0000315066'', ''Fidelity Management & Research''),
      (''0001364742'', ''Vanguard Group Inc''),
      (''0001159556'', ''T. Rowe Price Associates Inc''),
      (''0000820932'', ''Capital Research Global Investors''),
      (''0001011006'', ''Northern Trust Corp''),
      (''0000929351'', ''Goldman Sachs Group Inc''),
      (''0000886982'', ''Invesco Ltd''),
      (''0001019687'', ''Wellington Management Co''),
      (''0000902165'', ''Dimensional Fund Advisors''),
      (''0001166559'', ''Ark Investment Management LLC'')]"

definition get_major_institutions :: "(string \<times> string) list" where
  "get_major_institutions = py_dict major_institutions_literal"

definition simplified_major_institutions :: "(string \<times> string) list" where
  "simplified_major_institutions = py_dict
     [(''0001067983'', ''Berkshire Hathaway Inc''),
      (''0001364742'', ''Vanguard Group Inc''),
      (''0000950123'', ''BlackRock Inc''),
      (''0001418814'', ''State Street Corp''),
      (''0000315066'', ''Fidelity Management & Research'')]"

section \<open>Resolver lemmas\<close>

lemma ticker_to_cusip_eval:
  "ticker_to_cusip =
     [(''NVDA'', ''67066G104''), (''AMZN'', ''023135106''), (''GOOGL'', ''02079K305''),
      (''MSFT'', ''594918104''), (''AAPL'', ''037833100''), (''TSLA'', ''88160R101'')]"
  by (simp add: ticker_to_cusip_def py_dict_def)

lemma ticker_to_cusip_values_distinct: "distinct (map snd ticker_to_cusip)"
  by (simp add: ticker_to_cusip_eval)

lemma ticker_to_cusip_keys: "fst ` set ticker_to_cusip = set target_tickers"
  by (simp add: ticker_to_cusip_eval target_tickers_def)

text \<open>The CUSIP of every tracked ticker resolves back to that ticker:
  \<open>_cusip_to_ticker(self.ticker_to_cusip.get(t, ''))\<close> is \<open>t\<close>.\<close>

theorem cusip_to_ticker_ticker_cusip:
  "t \<in> set target_tickers \<Longrightarrow> cusip_to_ticker (ticker_cusip t) = t"
proof -
  assume "t \<in> set target_tickers"
  then obtain c where c: "map_of ticker_to_cusip t = Some c"
    using ticker_to_cusip_keys by (metis map_of_eq_None_iff not_None_eq)
  then have "ticker_cusip t = c" by (simp add: ticker_cusip_def py_get_Some)
  moreover have "map_of (py_dict (map (\<lambda>(k, v). (v, k)) ticker_to_cusip)) c = Some t"
    by (rule map_of_py_dict_swap [OF ticker_to_cusip_values_distinct c])
  ultimately show ?thesis by (simp add: cusip_to_ticker_def py_get_Some)
qed

lemma cusip_to_ticker_unknown:
  "c \<notin> snd ` set ticker_to_cusip \<Longrightarrow> cusip_to_ticker c = ''''"
proof -
  assume c: "c \<notin> snd ` set ticker_to_cusip"
  have "fst ` set (py_dict (map (\<lambda>(k, v). (v, k)) ticker_to_cusip)) = snd ` set ticker_to_cusip"
    by (force simp: keys_py_dict)
  with c show ?thesis by (simp add: cusip_to_ticker_def py_get_None)
qed

text \<open>The literal of \<open>get_major_institutions\<close> lists 14 pairs but Vanguard
  twice, so the dictionary holds 13 distinct institutions.\<close>

theorem get_major_institutions_size:
  "length major_institutions_literal = 14 \<and> length get_major_institutions = 13
   \<and> distinct (map fst get_major_institutions)"
  by (simp add: get_major_institutions_def major_institutions_literal_def py_dict_def)

theorem cusip_to_ticker_ticker_cusip_witness: "cusip_to_ticker (ticker_cusip ''NVDA'') = ''NVDA''"
  by (rule cusip_to_ticker_ticker_cusip) (simp add: target_tickers_def)

end
