(* ===== verification/Xml_Parser.thy ===== *)
theory Xml_Parser
  imports Identifiers
begin

text \<open>
  \<open>InstitutionalTracker._parse_xml_info_table\<close> (lines 217-275). The document is
  first repaired: every \<open>&\<close> not starting one of the five predefined entity
  references is replaced by \<open>&amp;\<close> (\<open>escape_amp\<close>, the \<open>re.sub\<close> of line 223).
  The repaired text is parsed by BeautifulSoup's XML builder, which is a library the
  code only calls: it is the parameter \<open>xml\<close>, giving the document's top-level
  nodes or \<open>None\<close> when it raises. Nodes are \<open>xnode\<close>s: text, or an element with its
  namespace prefix (\<open>[]\<close> for none), local name and children.
  The search rules are BeautifulSoup's: \<open>find_all\<close> visits the descendants in
  document order; a name in a list matches the local name or \<open>prefix:name\<close>; a
  compiled regular expression is searched in the local name, then in
  \<open>prefix:name\<close>. The patterns used here are alternations of literal words with
  \<open>re.I\<close>, so a search is a case-insensitive substring test (\<open>re_search_ci\<close>).
  \<open>get_text(strip=True)\<close> joins the stripped, non-empty text descendants.
  Numbers are \<open>float(re.sub(r'[^\d.-]', '', s))\<close> (\<open>keep_numeric\<close>,
  \<open>py_float_numeric\<close>), read as exact decimals; the value is scaled by 1000.
  An empty \<open>target_tickers\<close> list stands for both \<open>None\<close> and \<open>[]\<close>, which the
  code treats alike.
\<close>

section \<open>Data\<close>

record holding =
  security_name :: string
  cusip :: string
  ticker :: string
  shares :: real
  market_value :: real
  raw_line :: "string option"

datatype xnode = XText string | XElem string string "xnode list"

section \<open>Ampersand repair\<close>

definition entity_names :: "string list" where
  "entity_names = [''amp'', ''lt'', ''gt'', ''quot'', ''apos'']"

text \<open>The lookahead \<open>(?!(?:amp|lt|gt|quot|apos);)\<close> at the text after an \<open>&\<close>.\<close>

definition entity_at :: "string \<Rightarrow> bool" where
  "entity_at s \<longleftrightarrow> list_ex (\<lambda>n. take (Suc (length n)) s = n @ '';'') entity_names"

fun escape_amp :: "string \<Rightarrow> string" where
  "escape_amp [] = []"
| "escape_amp (c # s) =
     (if c = CHR ''&'' \<and> \<not> entity_at s then ''&amp;'' @ escape_amp s else c # escape_amp s)"

text \<open>Every \<open>&\<close> starts an entity reference.\<close>

fun amp_ok :: "string \<Rightarrow> bool" where
  "amp_ok [] = True"
| "amp_ok (c # s) \<longleftrightarrow> (c = CHR ''&'' \<longrightarrow> entity_at s) \<and> amp_ok s"

section \<open>Tree search\<close>

text \<open>The elements among the descendants of a node list, in document order.\<close>

fun elems :: "xnode list \<Rightarrow> xnode list" where
  "elems [] = []"
| "elems (XText t # ns) = elems ns"
| "elems (XElem p n cs # ns) = XElem p n cs # elems cs @ elems ns"

fun texts :: "xnode list \<Rightarrow> string list" where
  "texts [] = []"
| "texts (XText t # ns) = t # texts ns"
| "texts (XElem p n cs # ns) = texts cs @ texts ns"

definition children :: "xnode \<Rightarrow> xnode list" where
  "children e = (case e of XText t \<Rightarrow> [] | XElem p n cs \<Rightarrow> cs)"

definition get_text_strip :: "xnode \<Rightarrow> string" where
  "get_text_strip e =
     (case e of XText t \<Rightarrow> py_strip t
      | XElem p n cs \<Rightarrow> concat (filter (\<lambda>t. t \<noteq> []) (map py_strip (texts cs))))"

definition re_search_ci :: "string list \<Rightarrow> string \<Rightarrow> bool" where
  "re_search_ci alts s \<longleftrightarrow> list_ex (\<lambda>a. py_in (py_lower a) (py_lower s)) alts"

definition matches_names :: "string list \<Rightarrow> xnode \<Rightarrow> bool" where
  "matches_names names e \<longleftrightarrow>
     (case e of XText t \<Rightarrow> False
      | XElem p n cs \<Rightarrow> n \<in> set names \<or> (p \<noteq> [] \<and> p @ '':'' @ n \<in> set names))"

definition matches_re :: "string list \<Rightarrow> xnode \<Rightarrow> bool" where
  "matches_re alts e \<longleftrightarrow>
     (case e of XText t \<Rightarrow> False
      | XElem p n cs \<Rightarrow> re_search_ci alts n \<or> (p \<noteq> [] \<and> re_search_ci alts (p @ '':'' @ n)))"

text \<open>\<open>tag.find(pattern)\<close>: the first matching descendant.\<close>

definition find_re :: "string list \<Rightarrow> xnode \<Rightarrow> xnode option" where
  "find_re alts e = find (matches_re alts) (elems (children e))"

section \<open>Numbers\<close>

definition keep_numeric :: "string \<Rightarrow> string" where
  "keep_numeric s = filter (\<lambda>c. is_digit c \<or> c = CHR ''.'' \<or> c = CHR ''-'') s"

text \<open>\<open>float(s)\<close> on a string of digits, dots and minus signs: an optional leading
  minus, digits with at most one dot, at least one digit.\<close>

definition parse_decimal :: "string \<Rightarrow> real option" where
  "parse_decimal s =
     (let ip = takeWhile is_digit s; r = dropWhile is_digit s
      in if r = [] then (if ip = [] then None else Some (of_nat (digits_val ip)))
         else if hd r = CHR ''.'' \<and> list_all is_digit (tl r) \<and> (ip \<noteq> [] \<or> tl r \<noteq> [])
         then Some (of_nat (digits_val (ip @ tl r)) / 10 ^ length (tl r))
         else None)"

definition py_float_numeric :: "string \<Rightarrow> real option" where
  "py_float_numeric s =
     (if s \<noteq> [] \<and> hd s = CHR ''-'' then map_option uminus (parse_decimal (tl s))
      else parse_decimal s)"

text \<open>Lines 250-255: both conversions in one \<open>try\<close>; either failure zeroes both.\<close>

definition xml_numbers :: "string \<Rightarrow> string \<Rightarrow> real \<times> real" where
  "xml_numbers shares_txt value_txt =
     (case py_float_numeric (keep_numeric shares_txt) of
        None \<Rightarrow> (0, 0)
      | Some sh \<Rightarrow> (case py_float_numeric (keep_numeric value_txt) of
                     None \<Rightarrow> (0, 0)
                   | Some v \<Rightarrow> (sh, v * 1000)))"

section \<open>The parser\<close>

definition holding_tag_names :: "string list" where
  "holding_tag_names = [''infoTable'', ''holdings'', ''holding'', ''ns1:infoTable'']"

definition holding_re :: "string list" where
  "holding_re = [''holding'', ''position'', ''security'']"

definition name_re :: "string list" where
  "name_re = [''nameOfIssuer'', ''issuer'', ''security'']"

definition cusip_re :: "string list" where
  "cusip_re = [''cusip'']"

definition shares_re :: "string list" where
  "shares_re = [''sshPrnamt'', ''shares'', ''amount'']"

definition value_re :: "string list" where
  "value_re = [''value'', ''marketValue'']"

text \<open>Line 260: no target list, or the resolved ticker is a target, or some target
  occurs in the security name, ignoring case.\<close>

definition wanted :: "string list \<Rightarrow> string \<Rightarrow> string \<Rightarrow> bool" where
  "wanted targets tick name \<longleftrightarrow>
     targets = [] \<or> tick \<in> set targets \<or> list_ex (\<lambda>t. py_in (py_lower t) (py_lower name)) targets"

text \<open>One iteration of the loop over holding tags (lines 236-267).\<close>

definition holding_of_tag :: "string list \<Rightarrow> xnode \<Rightarrow> holding option" where
  "holding_of_tag targets tag =
     (case (find_re name_re tag, find_re cusip_re tag) of
        (Some name_elem, Some cusip_elem) \<Rightarrow>
          (let name = get_text_strip name_elem;
               c = get_text_strip cusip_elem;
               sh_txt = (case find_re shares_re tag of None \<Rightarrow> ''0'' | Some e \<Rightarrow> get_text_strip e);
               v_txt = (case find_re value_re tag of None \<Rightarrow> ''0'' | Some e \<Rightarrow> get_text_strip e);
               nums = xml_numbers sh_txt v_txt;
               tick = cusip_to_ticker c
           in if wanted targets tick name
              then Some \<lparr>security_name = name, cusip = c, ticker = tick, shares = fst nums,
                         market_value = snd nums, raw_line = None\<rparr>
              else None)
      | _ \<Rightarrow> None)"

definition holding_tags :: "xnode list \<Rightarrow> xnode list" where
  "holding_tags doc =
     (let tags = filter (matches_names holding_tag_names) (elems doc)
      in if tags = [] then filter (matches_re holding_re) (elems doc) else tags)"

definition parse_xml_info_table ::
  "(string \<Rightarrow> xnode list option) \<Rightarrow> string \<Rightarrow> string list \<Rightarrow> holding list" where
  "parse_xml_info_table xml content targets =
     (case xml (escape_amp content) of
        None \<Rightarrow> []
      | Some doc \<Rightarrow> List.map_filter (holding_of_tag targets) (holding_tags doc))"

section \<open>Test-side printing\<close>

text \<open>Thousands separators as a filing prints them: \<open>1234567\<close> as \<open>1,234,567\<close>.\<close>

function thousands :: "string \<Rightarrow> string" where
  "thousands s = (if length s \<le> 3 then s else thousands (take (length s - 3) s) @ '','' @ drop (length s - 3) s)"
  by pat_completeness auto
termination
  by (relation "measure length") auto

declare thousands.simps [simp del]

text \<open>A one-row information table as the archive's XML builder returns it.\<close>

definition info_row :: "string \<Rightarrow> string \<Rightarrow> string \<Rightarrow> string \<Rightarrow> string \<Rightarrow> xnode" where
  "info_row tag issuer c val sh =
     XElem ''ns1'' tag
       [XElem [] ''nameOfIssuer'' [XText issuer], XElem [] ''titleOfClass'' [XText ''COM''],
        XElem [] ''cusip'' [XText c], XElem [] ''value'' [XText val],
        XElem [] ''shrsOrPrnAmt'' [XElem [] ''sshPrnamt'' [XText sh], XElem [] ''sshPrnamtType'' [XText ''SH'']]]"

section \<open>Lemmas\<close>

lemmas xml_parser_simps = entity_at_def entity_names_def children_def get_text_strip_def re_search_ci_def
  matches_names_def matches_re_def find_re_def keep_numeric_def parse_decimal_def py_float_numeric_def
  xml_numbers_def holding_tag_names_def holding_re_def name_re_def cusip_re_def shares_re_def
  value_re_def wanted_def holding_of_tag_def holding_tags_def parse_xml_info_table_def info_row_def
  cusip_to_ticker_def ticker_to_cusip_def

lemma amp_not_in_entity: "n \<in> set entity_names \<Longrightarrow> CHR ''&'' \<notin> set (n @ '';'')"
  by (auto simp: entity_names_def)

lemma escape_amp_append: "CHR ''&'' \<notin> set xs \<Longrightarrow> escape_amp (xs @ ys) = xs @ escape_amp ys"
  by (induction xs) auto

lemma entity_at_escape_amp: "entity_at s \<Longrightarrow> entity_at (escape_amp s)"
proof -
  assume "entity_at s"
  then obtain n where n: "n \<in> set entity_names" and pre: "take (Suc (length n)) s = n @ '';''"
    by (auto simp: entity_at_def list_ex_iff)
  then have "s = (n @ '';'') @ drop (Suc (length n)) s"
    by (metis append_take_drop_id)
  then have "escape_amp s = (n @ '';'') @ escape_amp (drop (Suc (length n)) s)"
    using escape_amp_append [OF amp_not_in_entity [OF n]] by metis
  then have "take (Suc (length n)) (escape_amp s) = n @ '';''" by simp
  with n show ?thesis unfolding entity_at_def list_ex_iff by blast
qed

lemma amp_ok_escape_amp: "amp_ok (escape_amp s)"
proof (induction s)
  case Nil
  then show ?case by simp
next
  case (Cons c s)
  show ?case
  proof (cases "c = CHR ''&'' \<and> \<not> entity_at s")
    case True
    have "entity_at (''amp;'' @ escape_amp s)" by (simp add: entity_at_def entity_names_def)
    with True Cons.IH show ?thesis by simp
  next
    case False
    with Cons.IH entity_at_escape_amp show ?thesis by auto
  qed
qed

lemma escape_amp_amp_ok: "amp_ok s \<Longrightarrow> escape_amp s = s"
  by (induction s) auto

lemma parse_decimal_digits:
  "s \<noteq> [] \<Longrightarrow> list_all is_digit s \<Longrightarrow> parse_decimal s = Some (of_nat (digits_val s))"
proof -
  assume "s \<noteq> []" "list_all is_digit s"
  then have tw: "takeWhile is_digit s = s" and dw: "dropWhile is_digit s = []"
    by (simp_all add: list_all_iff)
  from \<open>s \<noteq> []\<close> show ?thesis by (simp add: parse_decimal_def Let_def tw dw)
qed

lemma keep_numeric_digits: "list_all is_digit s \<Longrightarrow> keep_numeric s = s"
  by (simp add: keep_numeric_def list_all_iff)

lemma keep_numeric_thousands: "keep_numeric (thousands s) = keep_numeric s"
proof (induction s rule: thousands.induct)
  case (1 s)
  show ?case
  proof (cases "length s \<le> 3")
    case True
    then show ?thesis by (simp add: thousands.simps [of s])
  next
    case False
    then have "keep_numeric (thousands s)
        = keep_numeric (take (length s - 3) s) @ keep_numeric (drop (length s - 3) s)"
      using "1.IH" by (simp add: thousands.simps [of s] keep_numeric_def is_digit_def)
    also have "\<dots> = keep_numeric s"
      by (metis append_take_drop_id filter_append keep_numeric_def)
    finally show ?thesis .
  qed
qed

lemma hd_show_nat_digit: "\<not> (hd (show_nat n) = CHR ''-'')"
  using show_nat_digits [of n] show_nat_ne [of n]
  by (cases "show_nat n") (auto simp: is_digit_def)

lemma py_float_numeric_show_nat: "py_float_numeric (show_nat n) = Some (real n)"
  using hd_show_nat_digit [of n] parse_decimal_digits [OF show_nat_ne show_nat_digits]
  by (simp add: py_float_numeric_def)

lemma keep_numeric_dollar: "keep_numeric (CHR ''$'' # s) = keep_numeric s"
  by (simp add: keep_numeric_def is_digit_def)


section \<open>Properties\<close>

text \<open>C9: the ampersand repair leaves no bare \<open>&\<close>: afterwards every \<open>&\<close> starts one
  of \<open>&amp; &lt; &gt; &quot; &apos;\<close>, and repairing again changes nothing.\<close>

theorem escape_amp_repairs: "amp_ok (escape_amp s) \<and> escape_amp (escape_amp s) = escape_amp s"
  using amp_ok_escape_amp escape_amp_amp_ok by blast

text \<open>The repair knows only the five named entities, so a numeric character
  reference such as \<open>&#38;\<close> is escaped as if it were a bare ampersand and its
  meaning changes from \<open>&\<close> to the literal text \<open>&#38;\<close>.\<close>

theorem escape_amp_numeric_reference:
  "escape_amp ''AT&T'' = ''AT&amp;T'' \<and> escape_amp ''AT&amp;T'' = ''AT&amp;T''
   \<and> escape_amp ''AT&#38;T'' = ''AT&amp;#38;T''"
  by code_simp

text \<open>C10: the numeric coercion inverts the way filings print numbers: a share count with
  thousands separators and a dollar value with separators read back as the numbers,
  the value scaled by 1000 from thousands of dollars.\<close>

theorem xml_numbers_roundtrip:
  "xml_numbers (thousands (show_nat n)) (''$'' @ thousands (show_nat m)) = (real n, 1000 * real m)"
proof -
  have "keep_numeric (thousands (show_nat k)) = show_nat k" for k
    by (simp add: keep_numeric_thousands keep_numeric_digits show_nat_digits)
  then show ?thesis
    by (simp add: xml_numbers_def keep_numeric_dollar py_float_numeric_show_nat)
qed

text \<open>The two conversions share one \<open>try\<close>: when the value does not parse, the
  share count is zeroed too, even when it parsed.\<close>

theorem xml_numbers_value_failure:
  "py_float_numeric (keep_numeric v) = None \<Longrightarrow> xml_numbers sh v = (0, 0)"
  by (simp add: xml_numbers_def split: option.split)

theorem xml_numbers_value_failure_witness: "xml_numbers ''1,000'' ''N/A'' = (0, 0)"
proof (rule xml_numbers_value_failure)
  show "py_float_numeric (keep_numeric ''N/A'') = None" by code_simp
qed

text \<open>The coercion on the spec's examples: \<open>1,234.5\<close> is 1234.5 and \<open>$1,000\<close> is 1000
  (scaled to 1000000 as a value), the empty string zeroes both; but \<open>(1)\<close> reads as 1
  rather than 0, and \<open>-1,000\<close> gives a negative share count.\<close>

theorem xml_numbers_examples:
  "xml_numbers ''1,234.5'' ''$1,000'' = (1234.5, 1000000) \<and> xml_numbers [] ''500'' = (0, 0)
   \<and> xml_numbers ''(1)'' ''500'' = (1, 500000) \<and> xml_numbers ''-1,000'' ''5'' = (-1000, 5000)"
  by (simp add: xml_parser_simps py_simps)



text \<open>A structured-table holding reported with value \<open>500\<close> (thousands of dollars)
  comes out with market value 500000; the namespaced \<open>ns1:infoTable\<close> row is found
  and its CUSIP resolved to NVDA.\<close>

theorem parse_xml_info_table_scales_value:
  "parse_xml_info_table (\<lambda>s. Some [XElem [] ''informationTable''
       [info_row ''infoTable'' ''NVIDIA CORP'' ''67066G104'' ''500'' ''1,234'']]) ''<informationTable/>'' [''NVDA'']
   = [\<lparr>security_name = ''NVIDIA CORP'', cusip = ''67066G104'', ticker = ''NVDA'', shares = 1234,
        market_value = 500000, raw_line = None\<rparr>]"
  by (simp add: xml_parser_simps py_simps)

text \<open>Both \<open>holdings\<close> and \<open>holding\<close> are listed tag names and \<open>find_all\<close>
  returns nested matches too, so a \<open>holding\<close> inside a \<open>holdings\<close> container is
  reported twice (once through the container's first descendants).\<close>

theorem parse_xml_info_table_nested_duplicate:
  "parse_xml_info_table (\<lambda>s. Some [XElem [] ''holdings''
       [info_row ''holding'' ''NVIDIA CORP'' ''67066G104'' ''500'' ''1,234'']]) ''<holdings/>'' [''NVDA'']
   = [\<lparr>security_name = ''NVIDIA CORP'', cusip = ''67066G104'', ticker = ''NVDA'', shares = 1234,
        market_value = 500000, raw_line = None\<rparr>,
      \<lparr>security_name = ''NVIDIA CORP'', cusip = ''67066G104'', ticker = ''NVDA'', shares = 1234,
        market_value = 500000, raw_line = None\<rparr>]"
  by (simp add: xml_parser_simps py_simps)

text \<open>The tag-name list is matched case-sensitively: a table whose rows are
  \<open>INFOTABLE\<close> elements matches neither the list nor the fallback pattern, and
  yields no holdings.\<close>

theorem parse_xml_info_table_case_sensitive_tags:
  "parse_xml_info_table (\<lambda>s. Some [XElem [] ''INFORMATIONTABLE''
       [info_row ''INFOTABLE'' ''NVIDIA CORP'' ''67066G104'' ''500'' ''1,234'']]) ''<INFORMATIONTABLE/>'' [''NVDA'']
   = []"
  by code_simp

end
