(* ===== verification/Text_Parser.thy ===== *)
theory Text_Parser
  imports Xml_Parser
begin

text \<open>
  The full-text fallback \<open>InstitutionalTracker._extract_holdings_from_text\<close>
  (lines 277-316) and the older scanner \<open>extract_holdings_from_filing\<close> (lines
  323-346). A line is a candidate for a ticker when one of the three patterns
  \<open>\bT\b\<close>, \<open>t\<close>, \<open>T\<close> is found with \<open>re.IGNORECASE\<close> (\<open>ticker_patterns\<close>); the
  patterns are literal for tickers of letters and digits, which the model assumes.
  Numbers are the matches of \<open>re.findall(r'\d+(?:,\d{3})*(?:\.\d+)?', line)\<close>:
  the pattern has no choice after its greedy \<open>\d+\<close>, so \<open>findall\<close> is the
  deterministic scan \<open>find_numbers\<close>. The first number is the share count, the
  last (when there are two or more) the value, multiplied by 1000.
\<close>

section \<open>Definitions\<close>

text \<open>\<open>\bT\b\<close> with \<open>re.IGNORECASE\<close>: an occurrence not preceded or followed by a
  word character.\<close>

definition word_search_ci :: "string \<Rightarrow> string \<Rightarrow> bool" where
  "word_search_ci t line \<longleftrightarrow>
     (let p = py_lower t; l = py_lower line
      in list_ex (\<lambda>i. take (length p) (drop i l) = p
                      \<and> (i = 0 \<or> \<not> is_word_char (l ! (i - 1)))
                      \<and> (length l \<le> i + length p \<or> \<not> is_word_char (l ! (i + length p))))
           [0..<Suc (length l)])"

text \<open>\<open>[rf'\b{ticker}\b', rf'{ticker.lower()}', rf'{ticker.upper()}']\<close>, each searched
  with \<open>re.IGNORECASE\<close>.\<close>

definition ticker_patterns :: "string \<Rightarrow> (string \<Rightarrow> bool) list" where
  "ticker_patterns t = [word_search_ci t, re_search_ci [py_lower t], re_search_ci [py_upper t]]"

text \<open>\<open>,\d{3}\<close> repeated, then an optional \<open>\.\d+\<close>.\<close>

fun comma_groups :: "string \<Rightarrow> string" where
  "comma_groups (c # d1 # d2 # d3 # r) =
     (if c = CHR '','' \<and> is_digit d1 \<and> is_digit d2 \<and> is_digit d3
      then c # d1 # d2 # d3 # comma_groups r else [])"
| "comma_groups _ = []"

definition fraction_part :: "string \<Rightarrow> string" where
  "fraction_part s =
     (case s of c # d # r \<Rightarrow> if c = CHR ''.'' \<and> is_digit d then c # takeWhile is_digit (d # r) else []
      | _ \<Rightarrow> [])"

text \<open>The match starting at a digit.\<close>

definition match_number :: "string \<Rightarrow> string" where
  "match_number s =
     (let ds = takeWhile is_digit s;
          gs = comma_groups (drop (length ds) s);
          fr = fraction_part (drop (length ds + length gs) s)
      in ds @ gs @ fr)"

fun find_numbers :: "string \<Rightarrow> string list" where
  "find_numbers [] = []"
| "find_numbers (c # r) =
     (if is_digit c then match_number (c # r) # find_numbers (drop (length (match_number (c # r)) - 1) r)
      else find_numbers r)"

text \<open>\<open>float(n.replace(',', ''))\<close>; every match of the pattern converts, so the \<open>0\<close>
  default (which would be the raised \<open>ValueError\<close>) is never taken
  (\<open>number_value_parses\<close>).\<close>

definition number_value :: "string \<Rightarrow> real" where
  "number_value n =
     (case py_float_numeric (filter (\<lambda>c. c \<noteq> CHR '','') n) of None \<Rightarrow> 0 | Some x \<Rightarrow> x)"

text \<open>The inner loop over the patterns for one stripped line and one ticker (lines
  297-311): the first pattern found decides, and \<open>break\<close> leaves the loop whether or
  not the line has numbers.\<close>

fun first_pattern :: "(string \<Rightarrow> bool) list \<Rightarrow> string \<Rightarrow> bool" where
  "first_pattern [] line = False"
| "first_pattern (p # ps) line = (if p line then True else first_pattern ps line)"

definition text_holding :: "string \<Rightarrow> string \<Rightarrow> holding option" where
  "text_holding line t =
     (if first_pattern (ticker_patterns t) line then
        (let numbers = find_numbers line
         in if numbers = [] then None
            else Some \<lparr>security_name = line, cusip = ticker_cusip t, ticker = t,
                       shares = number_value (hd numbers),
                       market_value = (if 1 < length numbers then number_value (last numbers) * 1000 else 0),
                       raw_line = Some line\<rparr>)
      else None)"

text \<open>\<open>filing_text.split('\n')\<close>, each line stripped, empty lines skipped.\<close>

definition text_lines :: "string \<Rightarrow> string list" where
  "text_lines txt = filter (\<lambda>l. l \<noteq> []) (map py_strip (py_split CHR ''\<newline>'' txt))"

definition extract_holdings_from_text :: "string \<Rightarrow> string list \<Rightarrow> holding list" where
  "extract_holdings_from_text txt targets =
     (let tks = (if targets = [] then target_tickers else targets)
      in concat (map (\<lambda>line. List.map_filter (text_holding line) tks) (text_lines txt)))"

record line_hit =
  hit_ticker :: string
  line_content :: string
  found :: bool

definition extract_holdings_from_filing :: "string \<Rightarrow> string list \<Rightarrow> line_hit list" where
  "extract_holdings_from_filing txt targets =
     concat (map (\<lambda>line. if targets = [] then []
                         else map (\<lambda>t. \<lparr>hit_ticker = t, line_content = py_strip line, found = True\<rparr>)
                                (filter (\<lambda>t. py_in (py_upper t) (py_upper line)) targets))
       (py_split CHR ''\<newline>'' txt))"

section \<open>Lemmas\<close>

lemmas text_parser_simps = extract_holdings_from_text_def text_lines_def text_holding_def
  ticker_patterns_def word_search_ci_def re_search_ci_def number_value_def py_float_numeric_def
  parse_decimal_def ticker_cusip_def ticker_to_cusip_def match_number_def fraction_part_def
  extract_holdings_from_filing_def

lemma first_pattern_iff: "first_pattern ps line \<longleftrightarrow> list_ex (\<lambda>p. p line) ps"
  by (induction ps) auto

lemma word_search_ci_substring: "word_search_ci t line \<Longrightarrow> py_in (py_lower t) (py_lower line)"
proof -
  assume "word_search_ci t line"
  then obtain i where i: "i \<in> set [0..<Suc (length (py_lower line))]"
    and tk: "take (length (py_lower t)) (drop i (py_lower line)) = py_lower t"
    unfolding word_search_ci_def Let_def list_ex_iff by blast
  from i have "i \<le> length (py_lower line)" by (simp only: set_upt atLeastLessThan_iff less_Suc_eq_le)
  with tk show ?thesis unfolding py_in_take_drop by blast
qed

lemma ticker_patterns_substring:
  "first_pattern (ticker_patterns t) line \<longleftrightarrow> py_in (py_lower t) (py_lower line)"
  using word_search_ci_substring [of t line]
  by (auto simp: first_pattern_iff ticker_patterns_def re_search_ci_def)

lemma takeWhile_digits_all: "list_all is_digit (takeWhile is_digit s)"
  by (induction s) auto

lemma comma_groups_digits: "list_all is_digit (filter (\<lambda>c. c \<noteq> CHR '','') (comma_groups s))"
  by (induction s rule: comma_groups.induct) (auto simp: is_digit_def)

lemma comma_groups_prefix: "\<exists>r. s = comma_groups s @ r"
  by (induction s rule: comma_groups.induct) auto

lemma fraction_part_cases:
  "fraction_part s = [] \<or> (\<exists>ds. fraction_part s = CHR ''.'' # ds \<and> ds \<noteq> [] \<and> list_all is_digit ds)"
  by (auto simp: fraction_part_def takeWhile_digits_all split: list.split)

lemma no_comma_fraction: "CHR '','' \<notin> set (fraction_part s)"
  by (auto simp: fraction_part_def is_digit_def dest: set_takeWhileD split: list.split)

lemma not_digit_punct [simp]:
  "\<not> is_digit CHR ''.''" "\<not> is_digit CHR '',''" "\<not> is_digit CHR ''-''"
  by (simp_all add: is_digit_def)

lemma filter_no_comma: "CHR '','' \<notin> set xs \<Longrightarrow> filter (\<lambda>c. c \<noteq> CHR '','') xs = xs"
  by (induction xs) auto

lemma digits_no_comma: "list_all is_digit xs \<Longrightarrow> CHR '','' \<notin> set xs"
  by (auto simp: list_all_iff)

lemma parse_decimal_number:
  assumes D: "list_all is_digit D" "D \<noteq> []"
    and fr: "fr = [] \<or> (\<exists>ds. fr = CHR ''.'' # ds \<and> ds \<noteq> [] \<and> list_all is_digit ds)"
  shows "\<exists>x. parse_decimal (D @ fr) = Some x \<and> 0 \<le> x"
  using fr
proof
  assume "fr = []"
  with D show ?thesis by (simp add: parse_decimal_digits)
next
  assume "\<exists>ds. fr = CHR ''.'' # ds \<and> ds \<noteq> [] \<and> list_all is_digit ds"
  then obtain ds where f: "fr = CHR ''.'' # ds" and ds: "list_all is_digit ds" by blast
  have "takeWhile is_digit (D @ fr) = D" using D(1) f
    by (simp add: takeWhile_append2 list_all_iff)
  moreover have "dropWhile is_digit (D @ fr) = fr" using D(1) f
    by (simp add: dropWhile_append2 list_all_iff)
  ultimately show ?thesis using D(2) f ds by (simp add: parse_decimal_def Let_def)
qed

lemma match_number_split:
  "match_number s = takeWhile is_digit s @ comma_groups (drop (length (takeWhile is_digit s)) s)
     @ fraction_part (drop (length (takeWhile is_digit s)
                             + length (comma_groups (drop (length (takeWhile is_digit s)) s))) s)"
  by (simp add: match_number_def Let_def)

lemma match_number_value:
  assumes "is_digit c"
  shows "\<exists>x. py_float_numeric (filter (\<lambda>c. c \<noteq> CHR '','') (match_number (c # r))) = Some x \<and> 0 \<le> x"
proof -
  let ?s = "c # r"
  obtain gs fr where m: "match_number ?s = takeWhile is_digit ?s @ gs @ fr"
    and gs: "gs = comma_groups (drop (length (takeWhile is_digit ?s)) ?s)"
    and fr: "fr = [] \<or> (\<exists>ds. fr = CHR ''.'' # ds \<and> ds \<noteq> [] \<and> list_all is_digit ds)"
    using match_number_split [of ?s] fraction_part_cases by metis
  define D where "D = takeWhile is_digit ?s @ filter (\<lambda>c. c \<noteq> CHR '','') gs"
  have D_digits: "list_all is_digit D"
    using takeWhile_digits_all [of ?s] comma_groups_digits gs by (simp add: D_def)
  have D_hd: "D \<noteq> [] \<and> hd D = c" using assms by (simp add: D_def)
  have fr_nc: "CHR '','' \<notin> set fr" using fr by (auto dest: digits_no_comma)
  have "filter (\<lambda>c. c \<noteq> CHR '','') (match_number ?s) = D @ fr"
    using m filter_no_comma [OF digits_no_comma [OF takeWhile_digits_all [of ?s]]]
      filter_no_comma [OF fr_nc] by (simp add: D_def)
  moreover have "hd (D @ fr) \<noteq> CHR ''-''"
    using D_hd assms by auto
  moreover obtain x where "parse_decimal (D @ fr) = Some x \<and> 0 \<le> x"
    using parse_decimal_number [OF D_digits conjunct1 [OF D_hd] fr] by blast
  ultimately show ?thesis by (simp add: py_float_numeric_def)
qed

lemma find_numbers_mem: "n \<in> set (find_numbers s) \<Longrightarrow> \<exists>c r. is_digit c \<and> n = match_number (c # r)"
  by (induction s rule: find_numbers.induct) (auto split: if_splits)

lemma number_value_parses:
  assumes "n \<in> set (find_numbers s)"
  shows "\<exists>x. py_float_numeric (filter (\<lambda>c. c \<noteq> CHR '','') n) = Some x \<and> number_value n = x \<and> 0 \<le> x"
proof -
  from find_numbers_mem [OF assms] obtain c r where "is_digit c" "n = match_number (c # r)" by blast
  then obtain x where "py_float_numeric (filter (\<lambda>c. c \<noteq> CHR '','') n) = Some x" "0 \<le> x"
    using match_number_value by blast
  then show ?thesis by (simp add: number_value_def)
qed

lemma number_value_nonneg: "n \<in> set (find_numbers s) \<Longrightarrow> 0 \<le> number_value n"
  using number_value_parses by blast

lemma text_holding_Some:
  assumes "text_holding line t = Some h"
  shows "security_name h = line \<and> raw_line h = Some line \<and> ticker h = t \<and> cusip h = ticker_cusip t
    \<and> py_in (py_lower t) (py_lower line) \<and> 0 \<le> shares h \<and> 0 \<le> market_value h"
proof -
  let ?ns = "find_numbers line"
  from assms have m: "first_pattern (ticker_patterns t) line" and ne: "?ns \<noteq> []"
    by (auto simp: text_holding_def Let_def split: if_splits)
  with assms have h: "h = \<lparr>security_name = line, cusip = ticker_cusip t, ticker = t,
      shares = number_value (hd ?ns),
      market_value = (if 1 < length ?ns then number_value (last ?ns) * 1000 else 0),
      raw_line = Some line\<rparr>"
    by (simp add: text_holding_def Let_def)
  have "0 \<le> number_value (hd ?ns)" by (rule number_value_nonneg [OF hd_in_set [OF ne]])
  moreover have "0 \<le> number_value (last ?ns)" by (rule number_value_nonneg [OF last_in_set [OF ne]])
  ultimately show ?thesis using h m by (simp add: ticker_patterns_substring)
qed

lemma length_map_filter_le: "length (List.map_filter f xs) \<le> length xs"
  by (induction xs) (auto split: option.split)

section \<open>Properties\<close>

text \<open>C36: every holding of the full-text fallback is one stripped, non-empty line of the
  filing in which the ticker occurs (ignoring case), for a ticker of the target list
  (the tracked tickers when the list is empty); it carries that line as \<open>raw_line\<close>,
  the roster CUSIP of the ticker, and a share count and value that are not negative.\<close>

theorem extract_holdings_from_text_sound:
  assumes "h \<in> set (extract_holdings_from_text txt targets)"
  shows "ticker h \<in> set (if targets = [] then target_tickers else targets)
    \<and> security_name h \<in> set (text_lines txt) \<and> raw_line h = Some (security_name h)
    \<and> cusip h = ticker_cusip (ticker h) \<and> py_in (py_lower (ticker h)) (py_lower (security_name h))
    \<and> 0 \<le> shares h \<and> 0 \<le> market_value h"
proof -
  from assms obtain line t where "line \<in> set (text_lines txt)"
    and "t \<in> set (if targets = [] then target_tickers else targets)"
    and "text_holding line t = Some h"
    by (auto simp: extract_holdings_from_text_def Let_def in_set_map_filter)
  with text_holding_Some [of line t h] show ?thesis by auto
qed

theorem extract_holdings_from_text_sound_witness:
  "''NVIDIA CORP NVDA 500 250'' \<in> set (text_lines ''header\<newline>  NVIDIA CORP NVDA 500 250 \<newline>'')"
proof -
  let ?h = "\<lparr>security_name = ''NVIDIA CORP NVDA 500 250'', cusip = ''67066G104'', ticker = ''NVDA'',
             shares = 500, market_value = 250000, raw_line = Some ''NVIDIA CORP NVDA 500 250''\<rparr>"
  have "extract_holdings_from_text ''header\<newline>  NVIDIA CORP NVDA 500 250 \<newline>'' [''NVDA''] = [?h]"
    by (simp add: text_parser_simps py_simps)
  then have "?h \<in> set (extract_holdings_from_text ''header\<newline>  NVIDIA CORP NVDA 500 250 \<newline>'' [''NVDA''])"
    by simp
  then have "security_name ?h \<in> set (text_lines ''header\<newline>  NVIDIA CORP NVDA 500 250 \<newline>'')"
    using extract_holdings_from_text_sound by blast
  then show ?thesis by simp
qed

text \<open>The fallback reports at most one holding per line and ticker: its result is
  no longer than the number of non-empty lines times the number of tickers.\<close>

theorem extract_holdings_from_text_bound:
  "length (extract_holdings_from_text txt targets)
     \<le> length (text_lines txt) * length (if targets = [] then target_tickers else targets)"
proof -
  let ?tks = "if targets = [] then target_tickers else targets"
  have "length (extract_holdings_from_text txt targets)
        = sum_list (map (\<lambda>line. length (List.map_filter (text_holding line) ?tks)) (text_lines txt))"
    by (simp add: extract_holdings_from_text_def length_concat comp_def)
  also have "\<dots> \<le> sum_list (map (\<lambda>line. length ?tks) (text_lines txt))"
    by (rule sum_list_mono) (rule length_map_filter_le)
  also have "\<dots> = length (text_lines txt) * length ?tks"
    by (simp add: sum_list_triv)
  finally show ?thesis .
qed

text \<open>The pattern loop of the fallback accepts a line for a ticker exactly when the
  ticker occurs in it ignoring case, with or without word boundaries; this is also
  the test of the older scanner \<open>extract_holdings_from_filing\<close>
  (\<open>ticker.upper() in line.upper()\<close>).\<close>

theorem ticker_match_is_substring:
  "(first_pattern (ticker_patterns t) line \<longleftrightarrow> py_in (py_lower t) (py_lower line))
   \<and> (py_in (py_upper t) (py_upper line) \<longleftrightarrow> first_pattern (ticker_patterns t) line)"
  using ticker_patterns_substring py_in_upper_lower by blast

text \<open>The spec asks for a word-boundary match of the ticker, but a line where the
  ticker is only part of a longer word is taken: \<open>XNVDAX 1,000 2,000\<close> gives an NVDA
  holding of 1000 shares.\<close>

theorem extract_holdings_from_text_no_word_boundary:
  "extract_holdings_from_text ''XNVDAX 1,000 2,000'' [''NVDA''] =
     [\<lparr>security_name = ''XNVDAX 1,000 2,000'', cusip = ''67066G104'', ticker = ''NVDA'',
       shares = 1000, market_value = 2000000, raw_line = Some ''XNVDAX 1,000 2,000''\<rparr>]
   \<and> \<not> word_search_ci ''NVDA'' ''XNVDAX 1,000 2,000''"
proof
  show "extract_holdings_from_text ''XNVDAX 1,000 2,000'' [''NVDA''] =
     [\<lparr>security_name = ''XNVDAX 1,000 2,000'', cusip = ''67066G104'', ticker = ''NVDA'',
       shares = 1000, market_value = 2000000, raw_line = Some ''XNVDAX 1,000 2,000''\<rparr>]"
    by (simp add: text_parser_simps py_simps)
  show "\<not> word_search_ci ''NVDA'' ''XNVDAX 1,000 2,000''" by code_simp
qed

text \<open>The full-text fallback scales the last number by 1000 like the structured
  table does: a line \<open>NVIDIA CORP NVDA 500 250\<close> gives value 250000, where the spec
  says fallback values are not scaled (250).\<close>

theorem extract_holdings_from_text_scales_value:
  "map market_value (extract_holdings_from_text ''NVIDIA CORP NVDA 500 250'' [''NVDA'']) = [250000]"
  by (simp add: text_parser_simps py_simps)

end
