(* ===== verification/Cascade.thy ===== *)
theory Cascade
  imports Archive Text_Parser
begin

text \<open>
  The document resolver of \<open>InstitutionalTracker.parse_13f_holdings\<close>
  (\<open>institutional_tracker.py\<close>, lines 174-215). The source writes three blocks in
  sequence, each a \<open>requests.get\<close> of one document of the filing followed, on status
  200, by a parser and an early return when the parser found holdings; the
  \<open>holdings\<close> variable carries over from block to block, and one \<open>try\<close> around all
  three sends any exception to the final \<open>return holdings\<close>. One block is
  \<open>strategy\<close>, with the three outcomes of a block (fall through, return, raise);
  the blocks in sequence are \<open>run_strategies\<close> over the ordered list
  \<open>strategies\<close>: the information table and the primary document with
  \<open>_parse_xml_info_table\<close>, then the filing text with \<open>_extract_holdings_from_text\<close>.
  The two parsers catch their own exceptions, so only \<open>requests.get\<close> raises here.

  The contract of the spec (section 4.3) is the abstract \<open>first_nonempty\<close> over the
  strategies' results, where a failed fetch (\<open>attempt\<close>) is an empty result, and
  the documents requested are those up to the first success (\<open>attempted\<close>).
\<close>

section \<open>One strategy and the cascade\<close>

datatype 'a outcome = Continue 'a | Return 'a | Except

definition strategy ::
  "archive \<Rightarrow> (string \<Rightarrow> 'a list) \<Rightarrow> string \<Rightarrow> 'a list \<Rightarrow> 'a list outcome \<times> event list" where
  "strategy A parse url holdings =
     (case host A url of
        Raised \<Rightarrow> (Except, [Get url])
      | Response status body \<Rightarrow>
          if status = 200 then
            (let h = parse body in
             if h \<noteq> [] then (Return h, [Get url]) else (Continue h, [Get url]))
          else (Continue holdings, [Get url]))"

fun run_strategies ::
  "archive \<Rightarrow> 'a list \<Rightarrow> (string \<times> (string \<Rightarrow> 'a list)) list \<Rightarrow> 'a list \<times> event list" where
  "run_strategies A holdings [] = (holdings, [])"
| "run_strategies A holdings ((url, parse) # ss) =
     (case strategy A parse url holdings of
        (Except, t) \<Rightarrow> (holdings, t)
      | (Return h, t) \<Rightarrow> (h, t)
      | (Continue h, t) \<Rightarrow> (let (r, t') = run_strategies A h ss in (r, t @ t')))"

definition strategies ::
  "(string \<Rightarrow> xnode list option) \<Rightarrow> string \<Rightarrow> string \<Rightarrow> string list
     \<Rightarrow> (string \<times> (string \<Rightarrow> holding list)) list" where
  "strategies xml cik acc targets =
     [(doc_url cik acc ''infotable.xml'', \<lambda>b. parse_xml_info_table xml b targets),
      (doc_url cik acc ''primary_doc.xml'', \<lambda>b. parse_xml_info_table xml b targets),
      (doc_url cik acc (acc @ ''.txt''), \<lambda>b. extract_holdings_from_text b targets)]"

definition parse_13f_holdings ::
  "archive \<Rightarrow> (string \<Rightarrow> xnode list option) \<Rightarrow> string \<Rightarrow> string \<Rightarrow> string list
     \<Rightarrow> holding list \<times> event list" where
  "parse_13f_holdings A xml cik acc targets = run_strategies A [] (strategies xml cik acc targets)"

section \<open>The contract\<close>

definition attempt :: "archive \<Rightarrow> string \<times> (string \<Rightarrow> 'a list) \<Rightarrow> 'a list" where
  "attempt A s =
     (case host A (fst s) of
        Raised \<Rightarrow> []
      | Response status body \<Rightarrow> if status = 200 then snd s body else [])"

definition first_nonempty :: "'a list list \<Rightarrow> 'a list" where
  "first_nonempty rs = (case find (\<lambda>r. r \<noteq> []) rs of None \<Rightarrow> [] | Some r \<Rightarrow> r)"

definition attempted ::
  "archive \<Rightarrow> (string \<times> (string \<Rightarrow> 'a list)) list \<Rightarrow> (string \<times> (string \<Rightarrow> 'a list)) list" where
  "attempted A ss = take (Suc (length (takeWhile (\<lambda>s. attempt A s = []) ss))) ss"

section \<open>Fixture\<close>

text \<open>A filing of CIK 1045810 whose information table is the response given, whose
  primary document is missing (404) and whose text names NVDA.\<close>

definition ex_acc :: string where
  "ex_acc = ''0001-23-000001''"

definition ex_xml :: "string \<Rightarrow> xnode list option" where
  "ex_xml b = (if b = ''<informationTable/>'' then Some []
               else Some [info_row ''infoTable'' ''NVIDIA CORP'' ''67066G104'' ''500'' ''1,234''])"

definition ex_cascade :: "string response \<Rightarrow> archive" where
  "ex_cascade infotable =
     \<lparr>host = (\<lambda>u. if u = doc_url ''1045810'' ex_acc ''infotable.xml'' then infotable
                 else if u = doc_url ''1045810'' ex_acc ''primary_doc.xml'' then Response 404 []
                 else if u = doc_url ''1045810'' ex_acc (ex_acc @ ''.txt'')
                   then Response 200 ''NVIDIA CORP NVDA 500 250''
                 else Raised),
      json_submissions = (\<lambda>_. None), json_filing_data = (\<lambda>_. None)\<rparr>"

section \<open>Lemmas\<close>

lemma run_strategies_raise:
  "host A url = Raised \<Longrightarrow> run_strategies A h ((url, p) # ss) = (h, [Get url])"
  by (simp add: strategy_def)

lemma run_strategies_continue:
  assumes "host A url = Response status b" "status = 200 \<longrightarrow> p b = []"
  shows "run_strategies A [] ((url, p) # ss)
           = (fst (run_strategies A [] ss), Get url # snd (run_strategies A [] ss))"
  using assms by (simp add: strategy_def split: prod.split)

lemma run_strategies_no_raise:
  "(\<forall>s\<in>set ss. host A (fst s) \<noteq> Raised) \<Longrightarrow>
     run_strategies A [] ss = (first_nonempty (map (attempt A) ss), map (Get \<circ> fst) (attempted A ss))"
proof (induction ss)
  case Nil
  then show ?case by (simp add: first_nonempty_def attempted_def)
next
  case (Cons s ss)
  obtain url p where s: "s = (url, p)" by (cases s)
  from Cons.prems s obtain status b where r: "host A url = Response status b"
    by (cases "host A url") auto
  show ?case
  proof (cases "status = 200 \<and> p b \<noteq> []")
    case True
    then show ?thesis
      using r by (simp add: s strategy_def attempt_def first_nonempty_def attempted_def)
  next
    case False
    then have "attempt A (url, p) = []" using r by (auto simp: attempt_def)
    moreover have "run_strategies A [] ((url, p) # ss)
        = (fst (run_strategies A [] ss), Get url # snd (run_strategies A [] ss))"
      using False r by (intro run_strategies_continue) auto
    ultimately show ?thesis
      using Cons by (simp add: s first_nonempty_def attempted_def)
  qed
qed

lemma run_strategies_trace:
  "ss \<noteq> [] \<Longrightarrow> \<exists>k. 1 \<le> k \<and> k \<le> length ss \<and> snd (run_strategies A h ss) = map (Get \<circ> fst) (take k ss)"
proof (induction A h ss rule: run_strategies.induct)
  case (1 A holdings)
  then show ?case by simp
next
  case (2 A holdings url parse ss)
  show ?case
  proof (cases "strategy A parse url holdings")
    case (Pair out t)
    have t: "t = [Get url]"
      using Pair by (auto simp: strategy_def Let_def split: response.splits if_splits)
    show ?thesis
    proof (cases out)
      case (Continue h)
      show ?thesis
      proof (cases "ss = []")
        case True
        then show ?thesis using Pair Continue t by (intro exI [of _ 1]) simp
      next
        case False
        then obtain k where k: "1 \<le> k" "k \<le> length ss"
            "snd (run_strategies A h ss) = map (Get \<circ> fst) (take k ss)"
          using "2.IH" [OF Pair [symmetric] Continue] by blast
        then show ?thesis using Pair Continue t
          by (intro exI [of _ "Suc k"]) (simp add: split_beta)
      qed
    qed (use Pair t in \<open>auto intro: exI [of _ 1]\<close>)
  qed
qed

lemma run_strategies_result:
  "fst (run_strategies A [] ss) = [] \<or>
     (\<exists>s\<in>set ss. \<exists>b. host A (fst s) = Response 200 b \<and> fst (run_strategies A [] ss) = snd s b)"
proof (induction ss)
  case Nil
  then show ?case by simp
next
  case (Cons s ss)
  obtain url p where s: "s = (url, p)" by (cases s)
  show ?case
  proof (cases "host A url")
    case Raised
    then show ?thesis by (simp add: s strategy_def)
  next
    case (Response status b)
    show ?thesis
    proof (cases "status = 200 \<and> p b \<noteq> []")
      case True
      then show ?thesis using Response by (auto simp: s strategy_def)
    next
      case False
      then have "run_strategies A [] ((url, p) # ss)
          = (fst (run_strategies A [] ss), Get url # snd (run_strategies A [] ss))"
        using Response by (intro run_strategies_continue) auto
      then show ?thesis using Cons by (auto simp: s)
    qed
  qed
qed

lemma ex_urls:
  "doc_url ''1045810'' ex_acc ''primary_doc.xml'' \<noteq> doc_url ''1045810'' ex_acc ''infotable.xml''"
  "doc_url ''1045810'' ex_acc (ex_acc @ ''.txt'') \<noteq> doc_url ''1045810'' ex_acc ''infotable.xml''"
  "doc_url ''1045810'' ex_acc (ex_acc @ ''.txt'') \<noteq> doc_url ''1045810'' ex_acc ''primary_doc.xml''"
  by (simp_all add: doc_url_def ex_acc_def)

lemma ex_host:
  "host (ex_cascade r) (doc_url ''1045810'' ex_acc ''infotable.xml'') = r"
  "host (ex_cascade r) (doc_url ''1045810'' ex_acc ''primary_doc.xml'') = Response 404 []"
  "host (ex_cascade r) (doc_url ''1045810'' ex_acc (ex_acc @ ''.txt'')) = Response 200 ''NVIDIA CORP NVDA 500 250''"
  using ex_urls by (simp_all add: ex_cascade_def)

lemma ex_text_holding:
  "extract_holdings_from_text ''NVIDIA CORP NVDA 500 250'' [''NVDA''] =
     [\<lparr>security_name = ''NVIDIA CORP NVDA 500 250'', cusip = ''67066G104'', ticker = ''NVDA'',
       shares = 500, market_value = 250000, raw_line = Some ''NVIDIA CORP NVDA 500 250''\<rparr>]"
  by (simp add: text_parser_simps py_simps)

lemma ex_xml_holding:
  "parse_xml_info_table ex_xml ''<x/>'' [''NVDA''] =
     [\<lparr>security_name = ''NVIDIA CORP'', cusip = ''67066G104'', ticker = ''NVDA'', shares = 1234,
       market_value = 500000, raw_line = None\<rparr>]"
  by (simp add: ex_xml_def xml_parser_simps py_simps)


section \<open>The cascade\<close>

text \<open>C2: the short circuit of the spec (section 7): when the information table is
  fetched and yields a holding, those holdings are returned and no other document of
  the filing is requested.\<close>

theorem parse_13f_holdings_short_circuit:
  assumes "host A (doc_url cik acc ''infotable.xml'') = Response 200 b"
    and "parse_xml_info_table xml b targets \<noteq> []"
  shows "parse_13f_holdings A xml cik acc targets
           = (parse_xml_info_table xml b targets, [Get (doc_url cik acc ''infotable.xml'')])"
  using assms by (simp add: parse_13f_holdings_def strategies_def strategy_def)

theorem parse_13f_holdings_short_circuit_witness:
  "parse_13f_holdings (ex_cascade (Response 200 ''<x/>'')) ex_xml ''1045810'' ex_acc [''NVDA'']
     = (parse_xml_info_table ex_xml ''<x/>'' [''NVDA''],
        [Get (doc_url ''1045810'' ex_acc ''infotable.xml'')])"
  by (rule parse_13f_holdings_short_circuit) (simp_all add: ex_host ex_xml_holding)

text \<open>C1: refinement of the spec's contract. When no request of the cascade raises,
  \<open>parse_13f_holdings\<close> returns the first non-empty result of the three strategies in
  order (a non-200 response counting as empty), and requests exactly the documents
  up to that strategy.\<close>

theorem parse_13f_holdings_refines:
  assumes "\<forall>s\<in>set (strategies xml cik acc targets). host A (fst s) \<noteq> Raised"
  shows "parse_13f_holdings A xml cik acc targets
           = (first_nonempty (map (attempt A) (strategies xml cik acc targets)),
              map (Get \<circ> fst) (attempted A (strategies xml cik acc targets)))"
  using assms unfolding parse_13f_holdings_def by (rule run_strategies_no_raise)

theorem parse_13f_holdings_refines_witness:
  "fst (parse_13f_holdings (ex_cascade (Response 200 ''<informationTable/>'')) ex_xml ''1045810'' ex_acc [''NVDA''])
     = first_nonempty (map (attempt (ex_cascade (Response 200 ''<informationTable/>'')))
         (strategies ex_xml ''1045810'' ex_acc [''NVDA'']))"
proof -
  have "\<forall>s\<in>set (strategies ex_xml ''1045810'' ex_acc [''NVDA'']).
          host (ex_cascade (Response 200 ''<informationTable/>'')) (fst s) \<noteq> Raised"
    by (simp add: strategies_def ex_host)
  then show ?thesis using parse_13f_holdings_refines by simp
qed

text \<open>Whatever happens, the cascade returns either no holding or exactly the output
  of one strategy's parser on a document fetched with status 200.\<close>

theorem parse_13f_holdings_result:
  "fst (parse_13f_holdings A xml cik acc targets) = [] \<or>
     (\<exists>s\<in>set (strategies xml cik acc targets). \<exists>b. host A (fst s) = Response 200 b
        \<and> fst (parse_13f_holdings A xml cik acc targets) = snd s b)"
  unfolding parse_13f_holdings_def by (rule run_strategies_result)

text \<open>C35: the requests of one cascade are the first one, two or three of the documents
  information table, primary document, filing text, in that order: no document is
  requested twice or out of order, and nothing is retried.\<close>

theorem parse_13f_holdings_trace:
  "\<exists>k. 1 \<le> k \<and> k \<le> 3 \<and> snd (parse_13f_holdings A xml cik acc targets)
     = map Get (take k [doc_url cik acc ''infotable.xml'', doc_url cik acc ''primary_doc.xml'',
                        doc_url cik acc (acc @ ''.txt'')])"
proof -
  obtain k where "1 \<le> k" "k \<le> length (strategies xml cik acc targets)"
      "snd (run_strategies A [] (strategies xml cik acc targets))
         = map (Get \<circ> fst) (take k (strategies xml cik acc targets))"
    using run_strategies_trace [of "strategies xml cik acc targets" A "[]"]
    by (auto simp: strategies_def)
  moreover have "map (Get \<circ> fst) (take k (strategies xml cik acc targets))
      = map Get (take k [doc_url cik acc ''infotable.xml'', doc_url cik acc ''primary_doc.xml'',
                         doc_url cik acc (acc @ ''.txt'')])"
    by (simp add: strategies_def take_map [symmetric] map_map [symmetric] del: map_map)
  ultimately show ?thesis
    by (intro exI [of _ k]) (simp add: parse_13f_holdings_def strategies_def)
qed

text \<open>C33: a network exception on the first request ends the cascade with no holdings:
  the primary document and the filing text are not tried, although in the fixture
  the filing text would give a holding. The spec says each strategy swallows its own
  fetch errors and falls through.\<close>

theorem parse_13f_holdings_network_abort:
  assumes "host A (doc_url cik acc ''infotable.xml'') = Raised"
  shows "parse_13f_holdings A xml cik acc targets = ([], [Get (doc_url cik acc ''infotable.xml'')])"
  using assms by (simp add: parse_13f_holdings_def strategies_def strategy_def)

theorem parse_13f_holdings_network_abort_witness:
  "parse_13f_holdings (ex_cascade Raised) ex_xml ''1045810'' ex_acc [''NVDA'']
     = ([], [Get (doc_url ''1045810'' ex_acc ''infotable.xml'')])
   \<and> first_nonempty (map (attempt (ex_cascade Raised)) (strategies ex_xml ''1045810'' ex_acc [''NVDA''])) \<noteq> []"
proof
  show "parse_13f_holdings (ex_cascade Raised) ex_xml ''1045810'' ex_acc [''NVDA'']
     = ([], [Get (doc_url ''1045810'' ex_acc ''infotable.xml'')])"
    by (rule parse_13f_holdings_network_abort) (simp add: ex_host)
  show "first_nonempty (map (attempt (ex_cascade Raised)) (strategies ex_xml ''1045810'' ex_acc [''NVDA''])) \<noteq> []"
    by (simp add: first_nonempty_def attempt_def strategies_def ex_host ex_text_holding)
qed

text \<open>When the information table is answered without holdings, the primary
  document is requested right after it with no delay: the cascade's requests are
  not throttled, although the spec asks a minimum delay before every request to the
  archive host.\<close>

theorem parse_13f_holdings_unthrottled:
  assumes "host A (doc_url cik acc ''infotable.xml'') = Response status b"
    and "status = 200 \<longrightarrow> parse_xml_info_table xml b targets = []"
  shows "\<not> throttled (snd (parse_13f_holdings A xml cik acc targets))"
proof -
  have "snd (parse_13f_holdings A xml cik acc targets)
      = Get (doc_url cik acc ''infotable.xml'') # snd (run_strategies A [] (tl (strategies xml cik acc targets)))"
    using run_strategies_continue [of A "doc_url cik acc ''infotable.xml''" status b
        "\<lambda>b. parse_xml_info_table xml b targets", OF assms]
    by (simp add: parse_13f_holdings_def strategies_def)
  moreover obtain k where "1 \<le> k"
      "snd (run_strategies A [] (tl (strategies xml cik acc targets)))
         = map (Get \<circ> fst) (take k (tl (strategies xml cik acc targets)))"
    using run_strategies_trace [of "tl (strategies xml cik acc targets)" A "[]"]
    by (auto simp: strategies_def)
  ultimately show ?thesis
    by (cases k) (auto simp: strategies_def)
qed

theorem parse_13f_holdings_unthrottled_witness:
  "\<not> throttled (snd (parse_13f_holdings (ex_cascade (Response 404 [])) ex_xml ''1045810'' ex_acc [''NVDA'']))"
  by (rule parse_13f_holdings_unthrottled) (simp add: ex_host)+

end
