(* ===== verification/Aggregator.thy ===== *)
theory Aggregator
  imports Crawler Cascade
begin

text \<open>
  The historical aggregation of \<open>institutional_tracker.py\<close>.
  \<^item> \<open>get_historical_holdings_for_ticker\<close> (lines 454-509): for the first three
    institutions of the roster, the crawl of \<open>get_historical_13f_filings\<close>, the
    selection of at most 20 filings from 2020 on and every fourth older filing
    (\<open>select_filings\<close>, at most 50 in all), the cascade of \<open>parse_13f_holdings\<close> on
    each selected filing and the provenance added to each holding
    (\<open>with_provenance\<close>), with the sleeps of the loop in the trace. The two
    \<open>except\<close> clauses of the loop catch nothing in the model: the crawl and the
    cascade catch their own exceptions.
  \<^item> \<open>_create_historical_summary\<close> (lines 581-619): the filing year read from the
    date (\<open>row_year\<close>; one unparsable date makes the whole summary empty, as the
    outer \<open>except\<close> does), the years newest first, per year the first row of each
    institution in the order of the input with the groups in name order
    (\<open>latest_per_institution\<close>, \<open>groupby(...).first()\<close>), and the row of
    statistics (\<open>year_summary\<close>): totals, average, the first holder of the maximal
    share count (\<open>idxmax\<close>), and the top-three concentration guarded against a zero
    total.
  \<^item> \<open>track_ticker\<close> is the part of \<open>track_major_institutions\<close> (lines 511-541) that
    turns one ticker's holdings into its two tables: the holdings sorted by filing
    date, newest first, and the summary of that sorted table. pandas'
    \<open>sort_values\<close> is not stable; the stable \<open>sort_desc_by\<close> is one of the orders
    it may produce, and the lemmas on the summary assume only that its input is
    sorted by date.
\<close>

section \<open>Data\<close>

text \<open>A holding after \<open>holding.update(...)\<close>: the parsed fields and the provenance
  keys \<open>institution_name\<close>, \<open>institution_cik\<close>, \<open>filing_date\<close>, \<open>filing_year\<close>,
  \<open>accession_number\<close> (the last three renamed \<open>from_*\<close>, the filing's own fields
  having those names).\<close>

record hist_holding = holding +
  institution_name :: string
  institution_cik :: string
  from_date :: string
  from_year :: int
  from_accession :: string

record hist_summary =
  year :: int
  summary_ticker :: string
  total_institutional_shares :: real
  total_market_value :: real
  num_major_institutions :: nat
  avg_holding_size :: real
  largest_holder :: string
  largest_holding_shares :: real
  concentration_top3 :: real

section \<open>Historical holdings of one ticker\<close>

definition select_filings :: "filing list \<Rightarrow> filing list" where
  "select_filings fs =
     take 50 (take 20 (filter (\<lambda>f. 2020 \<le> filing_year f) fs)
              @ py_step_slice 4 (filter (\<lambda>f. filing_year f < 2020) fs))"

definition with_provenance :: "string \<Rightarrow> string \<Rightarrow> filing \<Rightarrow> holding \<Rightarrow> hist_holding" where
  "with_provenance name cik f h =
     \<lparr>security_name = security_name h, cusip = cusip h, ticker = ticker h, shares = shares h,
      market_value = market_value h, raw_line = raw_line h,
      institution_name = name, institution_cik = cik, from_date = filing_date f,
      from_year = filing_year f, from_accession = accession_number f\<rparr>"

fun process_filings ::
  "archive \<Rightarrow> (string \<Rightarrow> xnode list option) \<Rightarrow> string \<Rightarrow> string \<Rightarrow> string \<Rightarrow> filing list
     \<Rightarrow> hist_holding list \<times> event list" where
  "process_filings A xml tk cik name [] = ([], [])"
| "process_filings A xml tk cik name (f # fs) =
     (let (hs, t) = parse_13f_holdings A xml cik (accession_number f) [tk];
          (rest, t') = process_filings A xml tk cik name fs
      in (map (with_provenance name cik f) hs @ rest, t @ [Sleep 300] @ t'))"

definition historical_for_institution ::
  "archive \<Rightarrow> (string \<Rightarrow> xnode list option) \<Rightarrow> int \<Rightarrow> string \<Rightarrow> int \<Rightarrow> string \<times> string
     \<Rightarrow> hist_holding list \<times> event list" where
  "historical_for_institution A xml now_year tk start_year inst =
     (let (cik, name) = inst;
          (fs, t1) = get_historical_13f_filings A now_year cik start_year None;
          (hs, t2) = process_filings A xml tk cik name (select_filings fs)
      in (hs, t1 @ t2 @ [Sleep 1000]))"

definition get_historical_holdings_for_ticker ::
  "archive \<Rightarrow> (string \<Rightarrow> xnode list option) \<Rightarrow> int \<Rightarrow> string \<Rightarrow> int
     \<Rightarrow> hist_holding list \<times> event list" where
  "get_historical_holdings_for_ticker A xml now_year tk start_year =
     (let rs = map (historical_for_institution A xml now_year tk start_year)
                 (take 3 get_major_institutions)
      in (concat (map fst rs), concat (map snd rs)))"

section \<open>Summary\<close>

definition row_year :: "hist_holding \<Rightarrow> int option" where
  "row_year h = date_year (from_date h)"

definition latest_per_institution :: "hist_holding list \<Rightarrow> hist_holding list" where
  "latest_per_institution rs =
     map (\<lambda>n. hd (filter (\<lambda>r. institution_name r = n) rs)) (sort (remdups (map institution_name rs)))"

definition list_max :: "real list \<Rightarrow> real" where
  "list_max xs = fold max (tl xs) (hd xs)"

definition idxmax_name :: "hist_holding list \<Rightarrow> string" where
  "idxmax_name rs = institution_name (hd (filter (\<lambda>r. shares r = list_max (map shares rs)) rs))"

definition nlargest_sum :: "nat \<Rightarrow> real list \<Rightarrow> real" where
  "nlargest_sum k xs = sum_list (take k (rev (sort xs)))"

definition year_summary :: "string \<Rightarrow> int \<Rightarrow> hist_holding list \<Rightarrow> hist_summary" where
  "year_summary tk y rs =
     (let total = sum_list (map shares rs); n = length rs
      in \<lparr>year = y, summary_ticker = tk, total_institutional_shares = total,
          total_market_value = sum_list (map market_value rs), num_major_institutions = n,
          avg_holding_size = (if 0 < n then total / real n else 0),
          largest_holder = idxmax_name rs, largest_holding_shares = list_max (map shares rs),
          concentration_top3 = (if 0 < total then nlargest_sum 3 (map shares rs) / total * 100 else 0)\<rparr>)"

definition year_rows :: "int \<Rightarrow> (hist_holding \<times> int) list \<Rightarrow> hist_holding list" where
  "year_rows y rows = map fst (filter (\<lambda>p. snd p = y) rows)"

definition create_historical_summary :: "hist_holding list \<Rightarrow> string \<Rightarrow> hist_summary list" where
  "create_historical_summary hs tk =
     (if hs = [] then []
      else case those (map row_year hs) of
        None \<Rightarrow> []
      | Some ys \<Rightarrow>
          concat (map (\<lambda>y. let rs = latest_per_institution (year_rows y (zip hs ys))
                            in if rs \<noteq> [] then [year_summary tk y rs] else [])
                   (rev (sort (remdups ys)))))"

definition track_ticker ::
  "archive \<Rightarrow> (string \<Rightarrow> xnode list option) \<Rightarrow> int \<Rightarrow> string
     \<Rightarrow> (hist_holding list \<times> hist_summary list) \<times> event list" where
  "track_ticker A xml now_year tk =
     (let (hs, t) = get_historical_holdings_for_ticker A xml now_year tk 2005;
          table = sort_desc_by from_date hs
      in (if hs \<noteq> [] then (table, create_historical_summary table tk) else ([], []), t))"

section \<open>Fixtures\<close>

text \<open>\<open>ex_hist\<close> answers every request with status 200; its submissions index is the
  one of \<open>ex_index\<close> (one holdings report of 2025) and every information table parses
  to one NVDA row (\<open>ex_xml\<close>). \<open>ex_scenario\<close> is the spec's end-to-end example: one
  institution, filings of 2019, 2020 and 2020 with 100, 200 and 300 shares.\<close>

definition ex_f :: filing where
  "ex_f = \<lparr>accession_number = ''0000950123-25-005701'', filing_date = ''2025-05-15'', form = ''13F-HR'',
           filing_year = 2025\<rparr>"

definition ex_nvda :: holding where
  "ex_nvda = \<lparr>security_name = ''NVIDIA CORP'', cusip = ''67066G104'', ticker = ''NVDA'', shares = 1234,
       market_value = 500000, raw_line = None\<rparr>"

definition ex_hist :: archive where
  "ex_hist = \<lparr>host = (\<lambda>u. Response 200 ''<x/>''),
              json_submissions = (\<lambda>b. Some \<lparr>recent = Some ex_index, files = []\<rparr>),
              json_filing_data = (\<lambda>b. None)\<rparr>"

definition ex_row :: "string \<Rightarrow> string \<Rightarrow> int \<Rightarrow> real \<Rightarrow> hist_holding" where
  "ex_row name date y sh =
     \<lparr>security_name = ''NVIDIA CORP'', cusip = ''67066G104'', ticker = ''NVDA'', shares = sh,
      market_value = sh * 100, raw_line = None, institution_name = name, institution_cik = ''0001067983'',
      from_date = date, from_year = y, from_accession = ''0001067983-'' @ date\<rparr>"

definition ex_scenario :: "hist_holding list" where
  "ex_scenario = [ex_row ''Berkshire Hathaway Inc'' ''2019-11-14'' 2019 100,
                  ex_row ''Berkshire Hathaway Inc'' ''2020-05-15'' 2020 200,
                  ex_row ''Berkshire Hathaway Inc'' ''2020-11-16'' 2020 300]"

section \<open>Lemmas\<close>

lemma year_rows_filter:
  "map row_year hs = map Some ys \<Longrightarrow> year_rows y (zip hs ys) = filter (\<lambda>h. row_year h = Some y) hs"
proof (induction hs arbitrary: ys)
  case Nil
  then show ?case by (simp add: year_rows_def)
next
  case (Cons h hs)
  then obtain z zs where "ys = z # zs" by (cases ys) auto
  with Cons show ?case by (auto simp: year_rows_def)
qed

lemma latest_per_institution_names:
  "map institution_name (latest_per_institution rs) = sort (remdups (map institution_name rs))"
proof -
  have "n \<in> set (map institution_name rs) \<Longrightarrow>
      institution_name (hd (filter (\<lambda>r. institution_name r = n) rs)) = n" for n
  proof -
    assume "n \<in> set (map institution_name rs)"
    then have "filter (\<lambda>r. institution_name r = n) rs \<noteq> []" by (auto simp: filter_empty_conv)
    then show ?thesis using hd_in_set [of "filter (\<lambda>r. institution_name r = n) rs"] by auto
  qed
  then show ?thesis by (auto simp: latest_per_institution_def intro!: map_idI)
qed

lemma latest_per_institution_mem:
  "l \<in> set (latest_per_institution rs) \<Longrightarrow>
     l \<in> set rs \<and> l = hd (filter (\<lambda>r. institution_name r = institution_name l) rs)"
proof -
  assume "l \<in> set (latest_per_institution rs)"
  then obtain n where n: "n \<in> set (map institution_name rs)"
      and l: "l = hd (filter (\<lambda>r. institution_name r = n) rs)"
    by (auto simp: latest_per_institution_def)
  then have ne: "filter (\<lambda>r. institution_name r = n) rs \<noteq> []" by (auto simp: filter_empty_conv)
  then have "l \<in> set (filter (\<lambda>r. institution_name r = n) rs)" using l hd_in_set by blast
  then show ?thesis using l by auto
qed

lemma latest_per_institution_latest:
  assumes "sorted (rev (map from_date rs))" "l \<in> set (latest_per_institution rs)"
    "h \<in> set rs" "institution_name h = institution_name l"
  shows "from_date h \<le> from_date l"
proof -
  have "sorted_wrt (\<lambda>a b. from_date b \<le> from_date a) rs"
    using assms(1) by (simp add: sorted_wrt_rev sorted_wrt_map)
  then show ?thesis
    using latest_per_institution_mem [OF assms(2)] sorted_wrt_hd_filter [of from_date rs h] assms(3,4)
    by metis
qed

lemma create_historical_summary_eq:
  assumes "hs \<noteq> []" "map row_year hs = map Some ys"
  shows "create_historical_summary hs tk =
     map (\<lambda>y. year_summary tk y (latest_per_institution (filter (\<lambda>h. row_year h = Some y) hs)))
       (rev (sort (remdups ys)))"
proof -
  have ne: "latest_per_institution (filter (\<lambda>h. row_year h = Some y) hs) \<noteq> []" if "y \<in> set ys" for y
  proof -
    have "Some y \<in> set (map row_year hs)" using that by (simp add: assms(2))
    then obtain h where "h \<in> set hs" "row_year h = Some y" by auto
    then have "institution_name h \<in> set (map institution_name (latest_per_institution
        (filter (\<lambda>h. row_year h = Some y) hs)))"
      by (simp only: latest_per_institution_names) simp
    then show ?thesis by auto
  qed
  have th: "those (map row_year hs) = Some ys"
    using assms(2) by (simp add: those_eq_Some)
  have "create_historical_summary hs tk =
     concat (map (\<lambda>y. if latest_per_institution (filter (\<lambda>h. row_year h = Some y) hs) \<noteq> []
                       then [year_summary tk y (latest_per_institution (filter (\<lambda>h. row_year h = Some y) hs))]
                       else []) (rev (sort (remdups ys))))"
    using assms(1) by (simp add: create_historical_summary_def th year_rows_filter [OF assms(2)] Let_def)
  also have "\<dots> = map (\<lambda>y. year_summary tk y (latest_per_institution (filter (\<lambda>h. row_year h = Some y) hs)))
       (rev (sort (remdups ys)))"
    by (rule concat_map_single) (use ne in simp)
  finally show ?thesis .
qed

lemma select_filings_subset: "set (select_filings fs) \<subseteq> set fs"
  using set_py_step_slice [of 4 "filter (\<lambda>f. filing_year f < 2020) fs"]
  by (auto simp: select_filings_def dest: in_set_takeD)

lemma select_filings_recent:
  "length (filter (\<lambda>f. 2020 \<le> filing_year f) (select_filings fs)) \<le> 20"
proof -
  let ?P = "\<lambda>f::filing. 2020 \<le> filing_year f"
  let ?A = "take 20 (filter ?P fs)" and ?B = "py_step_slice 4 (filter (\<lambda>f. filing_year f < 2020) fs)"
  have "filter ?P ?A = ?A" by (rule filter_True) (auto dest: in_set_takeD)
  moreover have "filter ?P ?B = []"
    using set_py_step_slice [of 4 "filter (\<lambda>f. filing_year f < 2020) fs"]
    by (force simp: filter_empty_conv)
  ultimately have "length (filter ?P (?A @ ?B)) \<le> 20" by simp
  then show ?thesis
    using length_filter_take_le [of ?P 50 "?A @ ?B"] by (simp add: select_filings_def)
qed

lemma process_filings_mem:
  "h \<in> set (fst (process_filings A xml tk cik name fs)) \<Longrightarrow>
     \<exists>f\<in>set fs. \<exists>h0\<in>set (fst (parse_13f_holdings A xml cik (accession_number f) [tk])).
       h = with_provenance name cik f h0"
  by (induction fs) (auto simp: split_beta)

lemma with_provenance_fields [simp]:
  "institution_name (with_provenance name cik f h) = name"
  "institution_cik (with_provenance name cik f h) = cik"
  "from_date (with_provenance name cik f h) = filing_date f"
  "from_year (with_provenance name cik f h) = filing_year f"
  "from_accession (with_provenance name cik f h) = accession_number f"
  "shares (with_provenance name cik f h) = shares h"
  by (simp_all add: with_provenance_def)

lemma historical_for_institution_mem:
  assumes "h \<in> set (fst (historical_for_institution A xml now_year tk start_year (cik, name)))"
  shows "institution_cik h = cik \<and> institution_name h = name
    \<and> (\<exists>f\<in>set (select_filings (fst (get_historical_13f_filings A now_year cik start_year None))).
         \<exists>h0\<in>set (fst (parse_13f_holdings A xml cik (accession_number f) [tk])).
           h = with_provenance name cik f h0)"
proof -
  have "h \<in> set (fst (process_filings A xml tk cik name
      (select_filings (fst (get_historical_13f_filings A now_year cik start_year None)))))"
    using assms by (simp add: historical_for_institution_def split_beta)
  then show ?thesis by (auto dest!: process_filings_mem)
qed



lemma create_historical_summary_cases:
  assumes "r \<in> set (create_historical_summary hs tk)"
  obtains ys y where "map row_year hs = map Some ys" "y \<in> set ys"
    "r = year_summary tk y (latest_per_institution (filter (\<lambda>h. row_year h = Some y) hs))"
proof -
  have ne: "hs \<noteq> []" using assms by (auto simp: create_historical_summary_def)
  obtain ys where ys: "those (map row_year hs) = Some ys"
    using assms by (auto simp: create_historical_summary_def split: option.splits if_splits)
  then have m: "map row_year hs = map Some ys" by (simp add: those_eq_Some)
  then show ?thesis
    using that assms create_historical_summary_eq [OF ne m] by auto
qed

lemma year_summary_year [simp]: "year (year_summary tk y rs) = y"
  by (simp add: year_summary_def Let_def)

lemma ex_index_processed:
  "process_filing_data ex_index 2005 2025 = Inr [ex_f]"
  unfolding ex_f_def by (simp add: ex_index_def) code_simp

lemma ex_hist_filings:
  "get_historical_13f_filings ex_hist 2025 cik 2005 None = ([ex_f], [Get (submissions_url cik)])"
  by (simp add: get_historical_13f_filings_def crawl_history_def ex_hist_def ex_index_processed sort_desc_by_def)

lemma ex_hist_cascade:
  "parse_13f_holdings ex_hist ex_xml cik acc [''NVDA''] = ([ex_nvda], [Get (doc_url cik acc ''infotable.xml'')])"
  using ex_xml_holding by (simp add: parse_13f_holdings_def strategies_def strategy_def ex_hist_def ex_nvda_def)

lemma ex_hist_select: "select_filings [ex_f] = [ex_f]"
  by (simp add: select_filings_def ex_f_def)

lemma ex_major3:
  "take 3 get_major_institutions = [(''0001067983'', ''Berkshire Hathaway Inc''),
     (''0001364742'', ''Vanguard Group Inc''), (''0000950123'', ''BlackRock Inc'')]"
  by (simp add: get_major_institutions_def major_institutions_literal_def py_dict_def)

lemma ex_hist_holdings:
  "fst (get_historical_holdings_for_ticker ex_hist ex_xml 2025 ''NVDA'' 2005) =
     [with_provenance ''Berkshire Hathaway Inc'' ''0001067983'' ex_f ex_nvda,
      with_provenance ''Vanguard Group Inc'' ''0001364742'' ex_f ex_nvda,
      with_provenance ''BlackRock Inc'' ''0000950123'' ex_f ex_nvda]"
  by (simp add: get_historical_holdings_for_ticker_def historical_for_institution_def ex_major3
      ex_hist_filings ex_hist_select ex_hist_cascade)

section \<open>Properties\<close>

text \<open>The filing selection of \<open>get_historical_holdings_for_ticker\<close> parses at most 50
  filings per institution, at most 20 of them from 2020 on, all taken from the crawled
  list.\<close>

theorem select_filings_bounds:
  "length (select_filings fs) \<le> 50
   \<and> length (filter (\<lambda>f. 2020 \<le> filing_year f) (select_filings fs)) \<le> 20
   \<and> set (select_filings fs) \<subseteq> set fs"
  using select_filings_recent select_filings_subset by (simp add: select_filings_def)

text \<open>C8: provenance. Every historical holding comes from one of the first three
  institutions of the roster, from a selected filing of that institution's crawl, and is
  a holding the cascade parsed from that filing, tagged with the institution and the
  filing's date, year and accession number.\<close>

theorem get_historical_holdings_for_ticker_provenance:
  assumes "h \<in> set (fst (get_historical_holdings_for_ticker A xml now_year tk start_year))"
  shows "(institution_cik h, institution_name h) \<in> set (take 3 get_major_institutions)
    \<and> (\<exists>f\<in>set (select_filings (fst (get_historical_13f_filings A now_year (institution_cik h) start_year None))).
         \<exists>h0\<in>set (fst (parse_13f_holdings A xml (institution_cik h) (accession_number f) [tk])).
           h = with_provenance (institution_name h) (institution_cik h) f h0)"
proof -
  obtain cik name where inst: "(cik, name) \<in> set (take 3 get_major_institutions)"
    and h: "h \<in> set (fst (historical_for_institution A xml now_year tk start_year (cik, name)))"
    using assms by (auto simp: get_historical_holdings_for_ticker_def)
  show ?thesis using historical_for_institution_mem [OF h] inst by auto
qed

theorem get_historical_holdings_for_ticker_provenance_witness:
  "(institution_cik (with_provenance ''Vanguard Group Inc'' ''0001364742'' ex_f ex_nvda),
    institution_name (with_provenance ''Vanguard Group Inc'' ''0001364742'' ex_f ex_nvda))
      \<in> set (take 3 get_major_institutions)"
proof -
  have "with_provenance ''Vanguard Group Inc'' ''0001364742'' ex_f ex_nvda
      \<in> set (fst (get_historical_holdings_for_ticker ex_hist ex_xml 2025 ''NVDA'' 2005))"
    by (simp add: ex_hist_holdings)
  then show ?thesis using get_historical_holdings_for_ticker_provenance by blast
qed

text \<open>C3: the dedup rule of the spec (sections 4.5 and 8). On a table sorted by filing
  date, newest first, each row of \<open>_create_historical_summary\<close> is the statistics of
  one row per institution active that year, the row of that institution's latest
  filing of the year: older filings of the same year are discarded.\<close>

theorem create_historical_summary_dedup:
  assumes "sorted (rev (map from_date hs))" "r \<in> set (create_historical_summary hs tk)"
  shows "\<exists>rs. r = year_summary tk (year r) rs \<and> distinct (map institution_name rs)
    \<and> institution_name ` set rs = institution_name ` {h \<in> set hs. row_year h = Some (year r)}
    \<and> (\<forall>l\<in>set rs. l \<in> set hs \<and> row_year l = Some (year r)
         \<and> (\<forall>h\<in>set hs. row_year h = Some (year r) \<and> institution_name h = institution_name l
              \<longrightarrow> from_date h \<le> from_date l))"
proof -
  obtain ys y where m: "map row_year hs = map Some ys" and r:
    "r = year_summary tk y (latest_per_institution (filter (\<lambda>h. row_year h = Some y) hs))"
    using assms(2) by (rule create_historical_summary_cases)
  let ?rs = "latest_per_institution (filter (\<lambda>h. row_year h = Some y) hs)"
  have names: "map institution_name ?rs = sort (remdups (map institution_name (filter (\<lambda>h. row_year h = Some y) hs)))"
    by (rule latest_per_institution_names)
  have s: "sorted (rev (map from_date (filter (\<lambda>h. row_year h = Some y) hs)))"
    using assms(1) by (rule sorted_rev_map_filter)
  have "distinct (map institution_name ?rs)" by (simp only: names) simp
  moreover have "institution_name ` set ?rs = institution_name ` {h \<in> set hs. row_year h = Some y}"
    using arg_cong [OF names, of set] by (simp add: image_set [symmetric] del: image_set)
  moreover have "\<forall>l\<in>set ?rs. l \<in> set hs \<and> row_year l = Some y
      \<and> (\<forall>h\<in>set hs. row_year h = Some y \<and> institution_name h = institution_name l \<longrightarrow> from_date h \<le> from_date l)"
  proof
    fix l assume l: "l \<in> set ?rs"
    then have "l \<in> set (filter (\<lambda>h. row_year h = Some y) hs)"
      using latest_per_institution_mem by blast
    moreover have "from_date h \<le> from_date l"
      if "h \<in> set hs" "row_year h = Some y" "institution_name h = institution_name l" for h
      using latest_per_institution_latest [OF s l, of h] that by simp
    ultimately show "l \<in> set hs \<and> row_year l = Some y
      \<and> (\<forall>h\<in>set hs. row_year h = Some y \<and> institution_name h = institution_name l \<longrightarrow> from_date h \<le> from_date l)"
      by auto
  qed
  moreover have yr: "year r = y" using r by simp
  ultimately show ?thesis unfolding yr using r by blast
qed

theorem create_historical_summary_dedup_witness:
  "year (hd (create_historical_summary (sort_desc_by from_date ex_scenario) ''NVDA'')) = 2020
   \<and> (\<exists>rs. hd (create_historical_summary (sort_desc_by from_date ex_scenario) ''NVDA'')
          = year_summary ''NVDA'' 2020 rs \<and> distinct (map institution_name rs)
        \<and> institution_name ` set rs = institution_name ` {h \<in> set (sort_desc_by from_date ex_scenario). row_year h = Some 2020}
        \<and> (\<forall>l\<in>set rs. l \<in> set (sort_desc_by from_date ex_scenario) \<and> row_year l = Some 2020
             \<and> (\<forall>h\<in>set (sort_desc_by from_date ex_scenario). row_year h = Some 2020
                  \<and> institution_name h = institution_name l \<longrightarrow> from_date h \<le> from_date l)))"
proof -
  let ?hs = "sort_desc_by from_date ex_scenario"
  let ?r = "hd (create_historical_summary ?hs ''NVDA'')"
  have y: "year ?r = 2020" by (simp add: ex_scenario_def ex_row_def) code_simp
  have "create_historical_summary ?hs ''NVDA'' \<noteq> []" by (simp add: ex_scenario_def ex_row_def) code_simp
  then have mem: "?r \<in> set (create_historical_summary ?hs ''NVDA'')" by simp
  show ?thesis
    using create_historical_summary_dedup [OF sorted_sort_desc_by mem] unfolding y by blast
qed



text \<open>\<open>groupby('institution_name').first()\<close> keeps one row, not one filing: when a
  filing reports the ticker in two rows (two line items, or the nested duplicate of the
  XML parser), the summary counts only the first row's shares, here 100 of 150.\<close>

theorem create_historical_summary_one_line_item:
  "map (\<lambda>r. (total_institutional_shares r, num_major_institutions r))
     (create_historical_summary [ex_row ''Berkshire Hathaway Inc'' ''2020-11-16'' 2020 100,
                                 ex_row ''Berkshire Hathaway Inc'' ''2020-11-16'' 2020 50] ''NVDA'')
   = [(100, 1)]"
  by (simp add: ex_row_def) code_simp

end
