(* ===== verification/Simplified.thy ===== *)
theory Simplified
  imports Crawler Identifiers
begin

text \<open>
  The summaries of \<open>simplified_institutional.py\<close> built on the filing index alone
  (no holdings are parsed there): \<open>create_institutional_timeline\<close> (lines 102-136),
  \<open>_create_yearly_summary\<close> (lines 220-245), the spec's YearlySummary, and
  \<open>_create_institution_analysis\<close> (lines 247-283). The crawl is
  \<open>get_comprehensive_13f_history\<close> of theory Crawler, which catches its own
  exceptions, so the \<open>try\<close> blocks around these loops catch nothing in the model.
  \<open>value_counts()\<close> orders the names by decreasing count; among equal counts the
  order of first appearance is kept (\<open>value_counts\<close>). Python's true division is
  real division; \<open>min\<close>/\<open>max\<close> of the dates compare the strings.
\<close>

section \<open>Timeline\<close>

text \<open>A timeline row: the filing's fields (\<open>form\<close> is the row's \<open>form_type\<close>) and the
  keys \<open>institution_name\<close>, \<open>institution_cik\<close>, \<open>ticker\<close>.\<close>

record timeline_entry = filing_q +
  inst_name :: string
  inst_cik :: string
  entry_ticker :: string

definition timeline_entry_of :: "string \<Rightarrow> string \<Rightarrow> string \<Rightarrow> filing_q \<Rightarrow> timeline_entry" where
  "timeline_entry_of tk cik name f =
     \<lparr>accession_number = accession_number f, filing_date = filing_date f, form = form f,
      filing_year = filing_year f, filing_quarter = filing_quarter f,
      inst_name = name, inst_cik = cik, entry_ticker = tk\<rparr>"

definition institution_timeline ::
  "archive \<Rightarrow> int \<Rightarrow> string \<Rightarrow> string \<times> string \<Rightarrow> timeline_entry list \<times> event list" where
  "institution_timeline A now_year tk inst =
     (let (cik, name) = inst;
          (fs, t) = get_comprehensive_13f_history A now_year cik 20
      in (map (timeline_entry_of tk cik name) fs, t @ [Sleep 1000]))"

definition create_institutional_timeline ::
  "archive \<Rightarrow> int \<Rightarrow> string \<Rightarrow> timeline_entry list \<times> event list" where
  "create_institutional_timeline A now_year tk =
     (let rs = map (institution_timeline A now_year tk) simplified_major_institutions
      in (concat (map fst rs), concat (map snd rs)))"

section \<open>Yearly summary\<close>

record yearly_row =
  y_year :: int
  y_ticker :: string
  total_filings :: nat
  active_institutions :: nat
  avg_filings_per_institution :: real
  most_active_institution :: string
  quarters_with_activity :: nat

definition value_counts :: "'a list \<Rightarrow> ('a \<times> nat) list" where
  "value_counts xs = sort_desc_by snd (map (\<lambda>x. (x, count_list xs x)) (remdups xs))"

definition yearly_row_of :: "string \<Rightarrow> timeline_entry list \<Rightarrow> int \<Rightarrow> yearly_row" where
  "yearly_row_of tk es y =
     (let yd = filter (\<lambda>e. filing_year e = y) es;
          ic = value_counts (map inst_name yd)
      in \<lparr>y_year = y, y_ticker = tk, total_filings = length yd, active_institutions = length ic,
          avg_filings_per_institution = (if 0 < length ic then real (length yd) / real (length ic) else 0),
          most_active_institution = (if ic \<noteq> [] then fst (hd ic) else []),
          quarters_with_activity = length (remdups (map filing_quarter yd))\<rparr>)"

definition create_yearly_summary :: "timeline_entry list \<Rightarrow> string \<Rightarrow> yearly_row list" where
  "create_yearly_summary es tk = map (yearly_row_of tk es) (rev (sort (remdups (map filing_year es))))"

section \<open>Institution analysis\<close>

datatype consistency = High | Medium | Low

record inst_analysis =
  a_name :: string
  a_cik :: string
  total_filings_20yr :: nat
  years_active :: nat
  avg_filings_per_year :: real
  first_filing_date :: string
  last_filing_date :: string
  filing_consistency :: consistency

definition consistency_of :: "real \<Rightarrow> consistency" where
  "consistency_of a = (if 4 \<le> a then High else if 2 \<le> a then Medium else Low)"

definition analysis_row :: "string \<Rightarrow> string \<Rightarrow> filing_q list \<Rightarrow> inst_analysis" where
  "analysis_row name cik fs =
     (let ya = length (remdups (map filing_year fs));
          avg = (if 0 < ya then real (length fs) / real ya else 0)
      in \<lparr>a_name = name, a_cik = cik, total_filings_20yr = length fs, years_active = ya,
          avg_filings_per_year = avg, first_filing_date = py_min (map filing_date fs),
          last_filing_date = py_max (map filing_date fs), filing_consistency = consistency_of avg\<rparr>)"

definition institution_analysis ::
  "archive \<Rightarrow> int \<Rightarrow> string \<times> string \<Rightarrow> inst_analysis list \<times> event list" where
  "institution_analysis A now_year inst =
     (let (cik, name) = inst;
          (fs, t) = get_comprehensive_13f_history A now_year cik 20
      in (if fs \<noteq> [] then [analysis_row name cik fs] else [], t @ [Sleep 500]))"

definition create_institution_analysis :: "archive \<Rightarrow> int \<Rightarrow> inst_analysis list \<times> event list" where
  "create_institution_analysis A now_year =
     (let rs = map (institution_analysis A now_year) simplified_major_institutions
      in (concat (map fst rs), concat (map snd rs)))"

section \<open>Fixtures\<close>

text \<open>A timeline of one ticker: Berkshire files twice in 2020 and once in 2019,
  Vanguard once in 2020.\<close>

definition ex_entry :: "string \<Rightarrow> string \<Rightarrow> int \<Rightarrow> string \<Rightarrow> timeline_entry" where
  "ex_entry name date y q =
     \<lparr>accession_number = ''0001-'' @ date, filing_date = date, form = ''13F-HR'', filing_year = y,
      filing_quarter = q, inst_name = name, inst_cik = [], entry_ticker = ''NVDA''\<rparr>"

definition ex_timeline :: "timeline_entry list" where
  "ex_timeline = [ex_entry ''Berkshire Hathaway Inc'' ''2020-11-16'' 2020 ''Q4'',
                  ex_entry ''Vanguard Group Inc'' ''2020-08-14'' 2020 ''Q3'',
                  ex_entry ''Berkshire Hathaway Inc'' ''2020-05-15'' 2020 ''Q2'',
                  ex_entry ''Berkshire Hathaway Inc'' ''2019-11-14'' 2019 ''Q4'']"

definition ex_fq :: filing_q where
  "ex_fq = \<lparr>accession_number = ''0000950123-25-005701'', filing_date = ''2025-05-15'', form = ''13F-HR'',
            filing_year = 2025, filing_quarter = ''Q2''\<rparr>"

section \<open>Lemmas\<close>

lemma set_value_counts: "set (value_counts xs) = (\<lambda>x. (x, count_list xs x)) ` set xs"
  by (auto simp: value_counts_def)

lemma length_value_counts: "length (value_counts xs) = card (set xs)"
  by (simp add: value_counts_def length_remdups_card_conv)

lemma value_counts_hd:
  assumes "xs \<noteq> []"
  shows "value_counts xs \<noteq> [] \<and> fst (hd (value_counts xs)) \<in> set xs
    \<and> snd (hd (value_counts xs)) = count_list xs (fst (hd (value_counts xs)))
    \<and> (\<forall>x\<in>set xs. count_list xs x \<le> snd (hd (value_counts xs)))"
proof -
  have "0 < length (value_counts xs)" using assms by (simp add: length_value_counts card_gt_0_iff)
  then have ne: "value_counts xs \<noteq> []" by auto
  then have "hd (value_counts xs) \<in> set (value_counts xs)" by simp
  then have h: "fst (hd (value_counts xs)) \<in> set xs
      \<and> snd (hd (value_counts xs)) = count_list xs (fst (hd (value_counts xs)))"
    by (auto simp: set_value_counts)
  have "count_list xs x \<le> snd (hd (value_counts xs))" if "x \<in> set xs" for x
  proof -
    have "(x, count_list xs x) \<in> set (value_counts xs)" using that by (simp add: set_value_counts)
    then show ?thesis
      using hd_sorted_desc_max [of snd "value_counts xs"] sorted_sort_desc_by
      by (fastforce simp: value_counts_def)
  qed
  with ne h show ?thesis by blast
qed

lemma yearly_row_of_fields:
  assumes "filter (\<lambda>e. filing_year e = y) es \<noteq> []"
  defines "yd \<equiv> filter (\<lambda>e. filing_year e = y) es"
  shows "y_year (yearly_row_of tk es y) = y
    \<and> total_filings (yearly_row_of tk es y) = length yd
    \<and> active_institutions (yearly_row_of tk es y) = card (inst_name ` set yd)
    \<and> most_active_institution (yearly_row_of tk es y) \<in> inst_name ` set yd
    \<and> (\<forall>e\<in>set yd. count_list (map inst_name yd) (inst_name e)
          \<le> count_list (map inst_name yd) (most_active_institution (yearly_row_of tk es y)))
    \<and> real (active_institutions (yearly_row_of tk es y)) * avg_filings_per_institution (yearly_row_of tk es y)
        = real (total_filings (yearly_row_of tk es y))"
proof -
  have ne: "map inst_name yd \<noteq> []" using assms(1) by (simp add: yd_def)
  note vc = value_counts_hd [OF ne]
  have c: "0 < card (inst_name ` set yd)" using ne by (simp add: card_gt_0_iff)
  have mx: "\<forall>e\<in>set yd. count_list (map inst_name yd) (inst_name e)
      \<le> count_list (map inst_name yd) (fst (hd (value_counts (map inst_name yd))))"
    using vc by auto
  show ?thesis
    using vc c mx unfolding yearly_row_of_def Let_def yd_def [symmetric]
    by (simp add: length_value_counts)
qed

lemma consistency_of_cases:
  "(consistency_of a = High \<longleftrightarrow> 4 \<le> a) \<and> (consistency_of a = Medium \<longleftrightarrow> 2 \<le> a \<and> a < 4)
   \<and> (consistency_of a = Low \<longleftrightarrow> a < 2)"
  by (auto simp: consistency_of_def)

lemma analysis_row_bounds:
  assumes "fs \<noteq> []"
  shows "1 \<le> years_active (analysis_row name cik fs)
    \<and> years_active (analysis_row name cik fs) \<le> total_filings_20yr (analysis_row name cik fs)
    \<and> 1 \<le> avg_filings_per_year (analysis_row name cik fs)
    \<and> first_filing_date (analysis_row name cik fs) \<le> last_filing_date (analysis_row name cik fs)
    \<and> filing_consistency (analysis_row name cik fs) = consistency_of (avg_filings_per_year (analysis_row name cik fs))"
proof -
  let ?ya = "length (remdups (map filing_year fs))"
  have ya: "1 \<le> ?ya" "?ya \<le> length fs"
    using assms by (auto simp: Suc_le_eq length_remdups_leq [of "map filing_year fs", simplified])
  then have "1 \<le> real (length fs) / real ?ya" using assms by (simp add: le_divide_eq)
  moreover have "map filing_date fs \<noteq> []" using assms by simp
  ultimately show ?thesis
    using ya assms py_min_le_py_max [of "map filing_date fs"] by (simp add: analysis_row_def Let_def)
qed

lemma ex_extract: "extract_13f_filings 2025 ex_index 20 = Inr [ex_fq]"
  unfolding ex_fq_def by (simp add: ex_index_def) code_simp

lemma ex_comprehensive:
  "get_comprehensive_13f_history (ex_archive []) 2025 cik 20 = ([ex_fq], [Get (submissions_url cik)])"
proof -
  have "submissions_url cik \<noteq> shard_url ''s1''"
    by (simp add: submissions_url_def shard_url_def base_url_def)
  then show ?thesis
    by (simp add: get_comprehensive_13f_history_def crawl_history_def ex_archive_def ex_extract
        sort_desc_by_def)
qed

section \<open>Properties\<close>

text \<open>C12: the yearly summary of \<open>_create_yearly_summary\<close> (the spec's YearlySummary):
  for the year of each row, the row counts the year's filings, the distinct institutions
  active that year, names an institution with the most filings that year, and its
  average times the number of institutions is the number of filings.\<close>

theorem create_yearly_summary_row:
  assumes "r \<in> set (create_yearly_summary es tk)"
  shows "filter (\<lambda>e. filing_year e = y_year r) es \<noteq> []
    \<and> total_filings r = length (filter (\<lambda>e. filing_year e = y_year r) es)
    \<and> active_institutions r = card (inst_name ` {e \<in> set es. filing_year e = y_year r})
    \<and> most_active_institution r \<in> inst_name ` {e \<in> set es. filing_year e = y_year r}
    \<and> (\<forall>e\<in>set es. filing_year e = y_year r \<longrightarrow>
         count_list (map inst_name (filter (\<lambda>e. filing_year e = y_year r) es)) (inst_name e)
         \<le> count_list (map inst_name (filter (\<lambda>e. filing_year e = y_year r) es)) (most_active_institution r))
    \<and> real (active_institutions r) * avg_filings_per_institution r = real (total_filings r)"
proof -
  obtain y where y: "y \<in> set (map filing_year es)" and r: "r = yearly_row_of tk es y"
    using assms by (auto simp: create_yearly_summary_def)
  have ne: "filter (\<lambda>e. filing_year e = y) es \<noteq> []" using y by (auto simp: filter_empty_conv)
  have yr: "y_year r = y" using yearly_row_of_fields [OF ne] r by simp
  show ?thesis using yearly_row_of_fields [OF ne, of tk] ne unfolding r [symmetric] yr by auto
qed

theorem create_yearly_summary_row_witness:
  "most_active_institution (hd (create_yearly_summary ex_timeline ''NVDA'')) \<in>
     inst_name ` {e \<in> set ex_timeline. filing_year e = y_year (hd (create_yearly_summary ex_timeline ''NVDA''))}
   \<and> real (active_institutions (hd (create_yearly_summary ex_timeline ''NVDA'')))
       * avg_filings_per_institution (hd (create_yearly_summary ex_timeline ''NVDA''))
     = real (total_filings (hd (create_yearly_summary ex_timeline ''NVDA'')))"
proof -
  have "create_yearly_summary ex_timeline ''NVDA'' \<noteq> []" by (simp add: ex_timeline_def ex_entry_def) code_simp
  then have "hd (create_yearly_summary ex_timeline ''NVDA'') \<in> set (create_yearly_summary ex_timeline ''NVDA'')"
    by simp
  then show ?thesis using create_yearly_summary_row by blast
qed

text \<open>Every row of \<open>_create_institution_analysis\<close> describes an institution with at
  least one filing: at least one active year and no more years than filings, at least
  one filing per active year on average, the first filing date not after the last, and
  the consistency class that the average gives.\<close>

theorem create_institution_analysis_bounds:
  assumes "r \<in> set (fst (create_institution_analysis A now_year))"
  shows "1 \<le> years_active r \<and> years_active r \<le> total_filings_20yr r \<and> 1 \<le> avg_filings_per_year r
    \<and> first_filing_date r \<le> last_filing_date r \<and> filing_consistency r = consistency_of (avg_filings_per_year r)"
proof -
  obtain cik name fs where "r = analysis_row name cik fs" "fs \<noteq> []"
    using assms by (auto simp: create_institution_analysis_def institution_analysis_def split_beta
        split: if_splits)
  then show ?thesis using analysis_row_bounds by simp
qed

theorem create_institution_analysis_bounds_witness:
  "first_filing_date (analysis_row ''Berkshire Hathaway Inc'' ''0001067983'' [ex_fq])
     \<le> last_filing_date (analysis_row ''Berkshire Hathaway Inc'' ''0001067983'' [ex_fq])
   \<and> filing_consistency (analysis_row ''Berkshire Hathaway Inc'' ''0001067983'' [ex_fq]) = Low"
proof -
  have "analysis_row ''Berkshire Hathaway Inc'' ''0001067983'' [ex_fq]
      \<in> set (fst (create_institution_analysis (ex_archive []) 2025))"
    by (simp add: create_institution_analysis_def institution_analysis_def ex_comprehensive
        simplified_major_institutions_def py_dict_def)
  from create_institution_analysis_bounds [OF this] show ?thesis
    by (simp add: analysis_row_def consistency_of_def)
qed

end
