(* ===== verification/Yahoo.thy ===== *)
theory Yahoo
  imports Archive
begin

text \<open>
  The Yahoo Finance snapshots: \<open>get_institutional_ownership_yahoo\<close> and
  \<open>track_smart_money_flows\<close> (\<open>institutional_tracker.py\<close>, lines 348-401) and
  \<open>get_current_institutional_data\<close> (\<open>simplified_institutional.py\<close>, lines 138-171).
  \<open>yfinance\<close> is a library the code only calls: \<open>yf tk\<close> is what reading
  \<open>stock.institutional_holders\<close> (and \<open>stock.major_holders\<close>) gives, an exception
  (\<open>Inl\<close>), \<open>None\<close>, or a table. A table (\<open>holders_df\<close>) has a number of rows and
  the columns the code reads, each \<open>None\<close> when absent; a present column has one entry
  per row. The \<open>timestamp\<close>/\<open>data_date\<close> columns and keys (\<open>datetime.now()\<close>) are
  not modelled. A division whose divisor is 0 gives NaN or infinity in pandas; in
  \<open>get_current_institutional_data\<close> that value is \<open>None\<close>.
\<close>

section \<open>Tables\<close>

record holders_df =
  df_len :: nat
  holder_col :: "string list option"
  shares_col :: "real list option"
  pct_col :: "real list option"

definition wf_df :: "holders_df \<Rightarrow> bool" where
  "wf_df df = ((case holder_col df of None \<Rightarrow> True | Some c \<Rightarrow> length c = df_len df)
     \<and> (case shares_col df of None \<Rightarrow> True | Some c \<Rightarrow> length c = df_len df)
     \<and> (case pct_col df of None \<Rightarrow> True | Some c \<Rightarrow> length c = df_len df))"

section \<open>Smart money summary\<close>

definition get_institutional_ownership_yahoo ::
  "(string \<Rightarrow> py_exc + holders_df option) \<Rightarrow> string \<Rightarrow> holders_df option" where
  "get_institutional_ownership_yahoo yf tk = (case yf tk of Inl e \<Rightarrow> None | Inr r \<Rightarrow> r)"

record smart_money =
  sm_ticker :: string
  total_institutions :: nat
  total_shares_held :: real
  top_10_concentration :: real
  sm_largest_holder :: "string option"
  largest_holder_shares :: real
  largest_holder_pct :: real

text \<open>The dictionary literal of lines 385-394, its entries evaluated in order: the
  first \<open>KeyError\<close> or \<open>IndexError\<close> ends the summary.\<close>

definition smart_money_of :: "string \<Rightarrow> holders_df \<Rightarrow> py_exc + smart_money" where
  "smart_money_of tk df =
     (let n = df_len df;
          total = (case shares_col df of Some s \<Rightarrow> sum_list s | None \<Rightarrow> 0);
          top = (\<lambda>s::real list. if 10 \<le> n then take 10 s else s)
      in py_bind (if 0 < total then py_bind (py_col (shares_col df)) (\<lambda>s. Inr (sum_list (top s) / total * 100))
                  else Inr 0) (\<lambda>conc.
         py_bind (if n \<noteq> 0 then py_bind (py_col (holder_col df)) (\<lambda>hs. py_bind (py_index hs 0) (\<lambda>h. Inr (Some h)))
                  else Inr None) (\<lambda>lh.
         py_bind (if n \<noteq> 0 then py_bind (py_col (shares_col df)) (\<lambda>s. py_index s 0) else Inr 0) (\<lambda>ls.
         py_bind (case pct_col df of
                    Some p \<Rightarrow> if n \<noteq> 0 then py_index p 0 else Inr 0
                  | None \<Rightarrow> Inr 0) (\<lambda>lp.
         Inr \<lparr>sm_ticker = tk, total_institutions = n, total_shares_held = total,
              top_10_concentration = conc, sm_largest_holder = lh, largest_holder_shares = ls,
              largest_holder_pct = lp\<rparr>)))))"

definition track_smart_money_flows ::
  "(string \<Rightarrow> py_exc + holders_df option) \<Rightarrow> string \<Rightarrow> (smart_money \<times> holders_df) option" where
  "track_smart_money_flows yf tk =
     (case get_institutional_ownership_yahoo yf tk of
        None \<Rightarrow> None
      | Some df \<Rightarrow> (case smart_money_of tk df of Inl e \<Rightarrow> None | Inr sm \<Rightarrow> Some (sm, df)))"

section \<open>Current ownership rows\<close>

record current_row =
  c_ticker :: string
  c_total_institutions :: nat
  c_total_shares :: real
  c_largest_holder :: string
  c_largest_shares :: real
  top_5_concentration :: "real option"

definition py_true_div :: "real \<Rightarrow> real \<Rightarrow> real option" where
  "py_true_div a b = (if b = 0 then None else Some (a / b))"

definition current_row_of :: "string \<Rightarrow> holders_df \<Rightarrow> py_exc + current_row" where
  "current_row_of tk df =
     py_bind (py_col (shares_col df)) (\<lambda>s.
     py_bind (py_col (holder_col df)) (\<lambda>hs.
     py_bind (py_index hs 0) (\<lambda>h.
     py_bind (py_index s 0) (\<lambda>s0.
     Inr \<lparr>c_ticker = tk, c_total_institutions = df_len df, c_total_shares = sum_list s,
          c_largest_holder = h, c_largest_shares = s0,
          top_5_concentration = map_option (\<lambda>q. q * 100) (py_true_div (sum_list (take 5 s)) (sum_list s))\<rparr>))))"

definition current_for_ticker ::
  "(string \<Rightarrow> py_exc + holders_df option) \<Rightarrow> string \<Rightarrow> current_row list \<times> event list" where
  "current_for_ticker yf tk =
     (case yf tk of
        Inl e \<Rightarrow> ([], [])
      | Inr None \<Rightarrow> ([], [Sleep 500])
      | Inr (Some df) \<Rightarrow>
          if df_len df = 0 then ([], [Sleep 500])
          else (case current_row_of tk df of Inl e \<Rightarrow> ([], []) | Inr r \<Rightarrow> ([r], [Sleep 500])))"

definition get_current_institutional_data ::
  "(string \<Rightarrow> py_exc + holders_df option) \<Rightarrow> string list \<Rightarrow> current_row list \<times> event list" where
  "get_current_institutional_data yf tks =
     (let rs = map (current_for_ticker yf) tks in (concat (map fst rs), concat (map snd rs)))"

section \<open>Fixtures\<close>

text \<open>Two holders of 300 and 100 shares (with or without the \<open>Shares\<close> column), and a
  table whose share counts are all 0.\<close>

definition ex_df :: "real list option \<Rightarrow> holders_df" where
  "ex_df s = \<lparr>df_len = 2, holder_col = Some [''Vanguard Group Inc'', ''BlackRock Inc''],
               shares_col = s, pct_col = None\<rparr>"

definition ex_yf :: "real list option \<Rightarrow> string \<Rightarrow> py_exc + holders_df option" where
  "ex_yf s tk = (if tk = ''NVDA'' then Inr (Some (ex_df s)) else Inl RequestException)"

section \<open>Lemmas\<close>

lemma smart_money_of_conc:
  assumes "smart_money_of tk df = Inr sm"
  shows "top_10_concentration sm =
     (case shares_col df of
        None \<Rightarrow> 0
      | Some s \<Rightarrow> if 0 < sum_list s then sum_list (if 10 \<le> df_len df then take 10 s else s) / sum_list s * 100
                  else 0)"
  using assms
  by (auto simp: smart_money_of_def Let_def py_bind_eq_Inr split: option.splits if_splits)

lemma top_le_sum:
  fixes s :: "real list"
  assumes "\<forall>x\<in>set s. 0 \<le> x"
  shows "0 \<le> sum_list (if c then take 10 s else s) \<and> sum_list (if c then take 10 s else s) \<le> sum_list s"
  using sum_list_take_le [OF assms, of 10] assms by (auto intro: sum_list_nonneg)

section \<open>Properties\<close>

text \<open>When every share count of the Yahoo table is non-negative, the top-ten
  concentration of \<open>track_smart_money_flows\<close> lies between 0 and 100 (the guard of
  line 390 gives 0 for a zero total).\<close>

theorem track_smart_money_flows_concentration:
  assumes "track_smart_money_flows yf tk = Some (sm, df)"
    and "\<forall>s. shares_col df = Some s \<longrightarrow> (\<forall>x\<in>set s. 0 \<le> x)"
  shows "0 \<le> top_10_concentration sm \<and> top_10_concentration sm \<le> 100"
proof -
  have sm: "smart_money_of tk df = Inr sm"
    using assms(1) by (auto simp: track_smart_money_flows_def split: option.splits sum.splits)
  show ?thesis
  proof (cases "shares_col df")
    case None
    then show ?thesis using smart_money_of_conc [OF sm] by simp
  next
    case (Some s)
    then have b: "0 \<le> sum_list (if 10 \<le> df_len df then take 10 s else s)"
        "sum_list (if 10 \<le> df_len df then take 10 s else s) \<le> sum_list s"
      using top_le_sum [of s "10 \<le> df_len df"] assms(2) by auto
    then show ?thesis
      using smart_money_of_conc [OF sm] Some by (simp add: divide_le_eq)
  qed
qed

theorem track_smart_money_flows_concentration_witness:
  "0 \<le> top_10_concentration (fst (the (track_smart_money_flows (ex_yf (Some [300, 100])) ''NVDA'')))
   \<and> top_10_concentration (fst (the (track_smart_money_flows (ex_yf (Some [300, 100])) ''NVDA''))) \<le> 100"
proof -
  have e: "track_smart_money_flows (ex_yf (Some [300, 100])) ''NVDA''
      = Some (fst (the (track_smart_money_flows (ex_yf (Some [300, 100])) ''NVDA'')), ex_df (Some [300, 100]))"
    by (simp add: track_smart_money_flows_def get_institutional_ownership_yahoo_def ex_yf_def ex_df_def
        smart_money_of_def Let_def py_index_def)
  show ?thesis
    by (rule track_smart_money_flows_concentration [OF e]) (simp add: ex_df_def)
qed

text \<open>\<open>get_current_institutional_data\<close> divides the top-five sum by the total with
  no zero guard: a table whose share counts are all 0 yields a NaN concentration, where
  the spec asks a concentration of 0 for a zero total.\<close>

theorem get_current_institutional_data_zero_total:
  "map top_5_concentration (fst (get_current_institutional_data (ex_yf (Some [0, 0])) [''NVDA'', ''AMZN'']))
     = [None]"
  by (simp add: get_current_institutional_data_def current_for_ticker_def ex_yf_def ex_df_def
      current_row_of_def py_true_div_def py_index_def)


end
