(* ===== verification/Orchestration.thy ===== *)
theory Orchestration
  imports Aggregator Simplified Yahoo
begin

text \<open>
  The entry points that tie the components together and write the CSV tables. Each is
  modelled as the function from the archive (and the Yahoo source) to the tables it
  writes and the request trace; creating directories, reading back an existing summary
  file to append to it, and the file names are I/O and not modelled.
  \<^item> \<open>track_major_institutions\<close> (\<open>institutional_tracker.py\<close>, lines 511-579): per
    ticker the holdings and summary tables of \<open>track_ticker\<close>; then, for the first
    five roster institutions, one row per filing of \<open>get_13f_filings(cik, limit=10)\<close>.
  \<^item> \<open>fetch_and_save_institutional_data\<close> (lines 403-452): the smart-money summary of
    each ticker with a table, then \<open>track_major_institutions\<close> for NVDA, AMZN, GOOGL,
    MSFT.
  \<^item> \<open>create_comprehensive_institutional_dataset\<close> (\<open>simplified_institutional.py\<close>,
    lines 173-218): the current-ownership rows, per ticker the timeline sorted by
    filing date and its yearly summary, then the institution analysis.
\<close>

section \<open>Tracking of the major institutions\<close>

record inst_record =
  ir_name :: string
  ir_cik :: string
  ir_date :: string
  ir_accession :: string

definition ticker_tables ::
  "archive \<Rightarrow> (string \<Rightarrow> xnode list option) \<Rightarrow> int \<Rightarrow> string
     \<Rightarrow> (string \<times> hist_holding list \<times> hist_summary list) list \<times> event list" where
  "ticker_tables A xml now_year tk =
     (let ((table, summary), t) = track_ticker A xml now_year tk
      in (if table \<noteq> [] then [(tk, table, summary)] else [], t))"

definition compat_records :: "archive \<Rightarrow> string \<times> string \<Rightarrow> inst_record list \<times> event list" where
  "compat_records A inst =
     (let (cik, name) = inst;
          (fs, t) = get_13f_filings A cik 10
      in (map (\<lambda>f. \<lparr>ir_name = name, ir_cik = cik, ir_date = filing_date f,
                     ir_accession = accession_number f\<rparr>) fs, t @ [Sleep 1000]))"

definition track_major_institutions ::
  "archive \<Rightarrow> (string \<Rightarrow> xnode list option) \<Rightarrow> int \<Rightarrow> string list
     \<Rightarrow> ((string \<times> hist_holding list \<times> hist_summary list) list \<times> inst_record list) \<times> event list" where
  "track_major_institutions A xml now_year tks =
     (let ts = map (ticker_tables A xml now_year) tks;
          rs = map (compat_records A) (take 5 get_major_institutions)
      in ((concat (map fst ts), concat (map fst rs)), concat (map snd ts) @ concat (map snd rs)))"

definition fetch_and_save_institutional_data ::
  "(string \<Rightarrow> py_exc + holders_df option) \<Rightarrow> archive \<Rightarrow> (string \<Rightarrow> xnode list option) \<Rightarrow> int
     \<Rightarrow> string list
     \<Rightarrow> (smart_money list \<times> (string \<times> holders_df) list
         \<times> (string \<times> hist_holding list \<times> hist_summary list) list \<times> inst_record list) \<times> event list" where
  "fetch_and_save_institutional_data yf A xml now_year tks =
     (let sms = List.map_filter (\<lambda>tk. map_option (\<lambda>(sm, df). (tk, sm, df)) (track_smart_money_flows yf tk)) tks;
          ((tables, records), t) = track_major_institutions A xml now_year [''NVDA'', ''AMZN'', ''GOOGL'', ''MSFT'']
      in ((map (\<lambda>(tk, sm, df). sm) sms,
           map (\<lambda>(tk, sm, df). (tk, df)) (filter (\<lambda>(tk, sm, df). df_len df \<noteq> 0) sms),
           tables, records),
          concat (map (\<lambda>tk. [Sleep 1000]) tks) @ t))"

section \<open>The comprehensive dataset\<close>

definition timeline_tables ::
  "archive \<Rightarrow> int \<Rightarrow> string \<Rightarrow> (string \<times> timeline_entry list \<times> yearly_row list) list \<times> event list" where
  "timeline_tables A now_year tk =
     (let (tl, t) = create_institutional_timeline A now_year tk;
          sorted_tl = sort_desc_by filing_date tl
      in (if tl \<noteq> [] then [(tk, sorted_tl, create_yearly_summary sorted_tl tk)] else [], t))"

definition create_comprehensive_institutional_dataset ::
  "(string \<Rightarrow> py_exc + holders_df option) \<Rightarrow> archive \<Rightarrow> int \<Rightarrow> string list
     \<Rightarrow> (current_row list \<times> (string \<times> timeline_entry list \<times> yearly_row list) list \<times> inst_analysis list)
        \<times> event list" where
  "create_comprehensive_institutional_dataset yf A now_year tks =
     (let (current, t1) = get_current_institutional_data yf tks;
          ts = map (timeline_tables A now_year) tks;
          (analysis, t3) = create_institution_analysis A now_year
      in ((current, concat (map fst ts), analysis), t1 @ concat (map snd ts) @ t3))"

section \<open>Lemmas\<close>

lemma create_institutional_timeline_relabel:
  "fst (create_institutional_timeline A now_year tk)
     = map (\<lambda>e. e\<lparr>entry_ticker := tk\<rparr>) (fst (create_institutional_timeline A now_year tk'))"
proof -
  have e: "timeline_entry_of tk c n = (\<lambda>e. e\<lparr>entry_ticker := tk\<rparr>) \<circ> timeline_entry_of tk' c n" for c n
    by (rule ext) (simp add: timeline_entry_of_def)
  have "fst (institution_timeline A now_year tk inst)
      = map (\<lambda>e. e\<lparr>entry_ticker := tk\<rparr>) (fst (institution_timeline A now_year tk' inst))" for inst
    by (cases inst) (simp add: institution_timeline_def split_beta e)
  then show ?thesis
    by (simp add: create_institutional_timeline_def map_concat comp_def)
qed

lemma create_yearly_summary_relabel:
  "create_yearly_summary (map (\<lambda>e. e\<lparr>entry_ticker := t\<rparr>) es) tk = create_yearly_summary es tk"
proof -
  have "yearly_row_of tk (map (\<lambda>e. e\<lparr>entry_ticker := t\<rparr>) es) y = yearly_row_of tk es y" for y
    by (simp add: yearly_row_of_def filter_map comp_def Let_def)
  then show ?thesis by (simp add: create_yearly_summary_def comp_def)
qed

lemma create_yearly_summary_ticker:
  "create_yearly_summary es tk = map (\<lambda>r. r\<lparr>y_ticker := tk\<rparr>) (create_yearly_summary es tk')"
  by (simp add: create_yearly_summary_def yearly_row_of_def Let_def)

section \<open>Properties\<close>

text \<open>The timeline and yearly summary that \<open>create_comprehensive_institutional_dataset\<close>
  writes for a ticker do not depend on the ticker: they list every holdings report of
  the five institutions, whatever they hold, so the yearly summaries of any two
  tickers agree in every field but the ticker.\<close>

theorem timeline_tables_ticker_blind:
  "map (\<lambda>(tk, tl, ys). map (\<lambda>r. r\<lparr>y_ticker := []\<rparr>) ys) (fst (timeline_tables A now_year tk1))
   = map (\<lambda>(tk, tl, ys). map (\<lambda>r. r\<lparr>y_ticker := []\<rparr>) ys) (fst (timeline_tables A now_year tk2))"
proof -
  let ?tl = "\<lambda>tk. fst (create_institutional_timeline A now_year tk)"
  let ?blank = "map (\<lambda>r. r\<lparr>y_ticker := []\<rparr>)"
  have f: "fst (timeline_tables A now_year tk) =
      (if ?tl tk \<noteq> [] then [(tk, sort_desc_by filing_date (?tl tk),
          create_yearly_summary (sort_desc_by filing_date (?tl tk)) tk)] else [])" for tk
    by (simp add: timeline_tables_def split_beta Let_def)
  have y: "?blank (create_yearly_summary (sort_desc_by filing_date (?tl tk)) tk)
      = ?blank (create_yearly_summary (sort_desc_by filing_date (?tl tk2)) tk2)" for tk
  proof -
    have "sort_desc_by filing_date (?tl tk)
        = map (\<lambda>e. e\<lparr>entry_ticker := tk\<rparr>) (sort_desc_by filing_date (?tl tk2))"
      unfolding create_institutional_timeline_relabel [of A now_year tk tk2]
      by (rule sort_desc_by_map_invariant) simp
    then have "create_yearly_summary (sort_desc_by filing_date (?tl tk)) tk
        = create_yearly_summary (sort_desc_by filing_date (?tl tk2)) tk"
      by (simp only: create_yearly_summary_relabel)
    also have "\<dots> = map (\<lambda>r. r\<lparr>y_ticker := tk\<rparr>) (create_yearly_summary (sort_desc_by filing_date (?tl tk2)) tk2)"
      by (rule create_yearly_summary_ticker)
    finally show ?thesis by (simp add: comp_def)
  qed
  have ne: "?tl tk1 = [] \<longleftrightarrow> ?tl tk2 = []"
    using create_institutional_timeline_relabel [of A now_year tk1 tk2] by simp
  show ?thesis
  proof (cases "?tl tk2 = []")
    case True
    then show ?thesis using ne by (simp only: f) simp
  next
    case False
    then show ?thesis using ne y [of tk1] by (simp only: f) simp
  qed
qed

end
