(* ===== verification/Scheduler.thy ===== *)
theory Scheduler
  imports Prelude
begin

text \<open>
  The fetch scheduler \<open>scheduler.py\<close>. \<open>run_fetch_script\<close> (lines 17-45) changes
  into the script's directory, runs the script in a subprocess with a ten-minute
  timeout, changes back and reports success when the exit code is 0; the two
  \<open>except\<close> clauses report failure. \<open>run_daily_scripts\<close>/\<open>run_weekly_scripts\<close>
  (lines 47-106) run the scripts of a fixed list that exist and count the successes;
  \<open>main\<close> (lines 108-126) runs the weekly list after the daily one on Fridays at
  20h. The state is the process's working directory (\<open>os.getcwd()\<close>); the file
  system and the subprocess are the environment \<open>sched_env\<close>: which paths exist,
  and how the run of each script ends (an exit code, the timeout, or another
  exception of \<open>subprocess.run\<close>). The log messages are not modelled.
\<close>

section \<open>Environment and one script\<close>

datatype run_result = Exited int | TimedOut | RunRaised

record sched_env =
  path_exists :: "string \<Rightarrow> bool"
  run_script :: "string \<Rightarrow> run_result"

text \<open>\<open>os.path.dirname\<close> (posixpath): the part before the last \<open>/\<close>, with trailing
  slashes removed unless it consists of slashes only.\<close>

definition py_dirname :: "string \<Rightarrow> string" where
  "py_dirname p =
     (let i = length p - length (takeWhile (\<lambda>c. c \<noteq> CHR ''/'') (rev p));
          head = take i p
      in if head \<noteq> [] \<and> \<not> list_all (\<lambda>c. c = CHR ''/'') head
         then rev (dropWhile (\<lambda>c. c = CHR ''/'') (rev head)) else head)"

definition run_fetch_script :: "sched_env \<Rightarrow> string \<Rightarrow> string \<Rightarrow> bool \<times> string" where
  "run_fetch_script E cwd script_path =
     (let script_dir = py_dirname script_path;
          original_cwd = cwd
      in if script_dir = [] then (False, cwd)
         else case run_script E script_path of
           Exited rc \<Rightarrow> (rc = 0, original_cwd)
         | TimedOut \<Rightarrow> (False, script_dir)
         | RunRaised \<Rightarrow> (False, script_dir))"

section \<open>Script lists\<close>

definition base_path :: string where
  "base_path = ''/app''"

definition daily_scripts :: "(string \<times> string) list" where
  "daily_scripts =
     [(base_path @ ''/NVDA/NVDAfetch.py'', ''NVDA Data''),
      (base_path @ ''/NVDA/NVDAinsider.py'', ''NVDA Insider''),
      (base_path @ ''/AMZN/AMZNfetch.py'', ''AMZN Data''),
      (base_path @ ''/AMZN/AMZNinsider.py'', ''AMZN Insider''),
      (base_path @ ''/GOOGL/GOOGLfetch.py'', ''GOOGL Data''),
      (base_path @ ''/GOOGL/GOOGLinsider.py'', ''GOOGL Insider''),
      (base_path @ ''/MSFT/MSFTfetch.py'', ''MSFT Data''),
      (base_path @ ''/MSFT/MSFTinsider.py'', ''MSFT Insider''),
      (base_path @ ''/QQQ/qqqFetch.py'', ''QQQ Data''),
      (base_path @ ''/SPY/spyFetch.py'', ''SPY Data''),
      (base_path @ ''/options_flow.py'', ''Options Flow & Dark Pool''),
      (base_path @ ''/reddit_sentiment.py'', ''Reddit Sentiment'')]"

definition weekly_scripts :: "(string \<times> string) list" where
  "weekly_scripts =
     [(base_path @ ''/vix_fetcher.py'', ''VIX & Volatility Data''),
      (base_path @ ''/simplified_institutional.py'', ''Institutional Holdings''),
      (base_path @ ''/economic_indicators.py'', ''Economic Indicators'')]"

text \<open>A script run that leaves the directory changed: it exists, has a directory, and
  \<open>subprocess.run\<close> raises.\<close>

definition abnormal :: "sched_env \<Rightarrow> string \<Rightarrow> bool" where
  "abnormal E p = (path_exists E p \<and> py_dirname p \<noteq> [] \<and> run_script E p \<in> {TimedOut, RunRaised})"

definition succeeds :: "sched_env \<Rightarrow> string \<Rightarrow> bool" where
  "succeeds E p = (path_exists E p \<and> py_dirname p \<noteq> [] \<and> run_script E p = Exited 0)"

text \<open>The loop of \<open>run_daily_scripts\<close> and \<open>run_weekly_scripts\<close>: the count of successes
  and the working directory, threaded through the scripts in order.\<close>

fun run_scripts :: "sched_env \<Rightarrow> nat \<times> string \<Rightarrow> (string \<times> string) list \<Rightarrow> nat \<times> string" where
  "run_scripts E st [] = st"
| "run_scripts E (n, cwd) ((p, name) # ss) =
     (if path_exists E p then
        (let (ok, cwd') = run_fetch_script E cwd p
         in run_scripts E (if ok then n + 1 else n, cwd') ss)
      else run_scripts E (n, cwd) ss)"

definition run_daily_scripts :: "sched_env \<Rightarrow> string \<Rightarrow> (nat \<times> nat) \<times> string" where
  "run_daily_scripts E cwd =
     (let (n, cwd') = run_scripts E (0, cwd) daily_scripts in ((n, length daily_scripts), cwd'))"

definition run_weekly_scripts :: "sched_env \<Rightarrow> string \<Rightarrow> (nat \<times> nat) \<times> string" where
  "run_weekly_scripts E cwd =
     (let (n, cwd') = run_scripts E (0, cwd) weekly_scripts in ((n, length weekly_scripts), cwd'))"

text \<open>\<open>main\<close>, given \<open>datetime.now().weekday()\<close> and \<open>.hour\<close>: the totals it logs.\<close>

definition sched_main :: "sched_env \<Rightarrow> string \<Rightarrow> nat \<Rightarrow> nat \<Rightarrow> (nat \<times> nat) \<times> string" where
  "sched_main E cwd day_of_week hour =
     (if day_of_week = 4 \<and> hour = 20 then
        (let ((ds, dt), cwd1) = run_daily_scripts E cwd;
             ((ws, wt), cwd2) = run_weekly_scripts E cwd1
         in ((ds + ws, dt + wt), cwd2))
      else run_daily_scripts E cwd)"

section \<open>Fixture\<close>

text \<open>Every script exists; the GOOGL fetch times out, every other script exits 0.\<close>

definition ex_sched :: sched_env where
  "ex_sched = \<lparr>path_exists = (\<lambda>p. True),
               run_script = (\<lambda>p. if p = base_path @ ''/GOOGL/GOOGLfetch.py'' then TimedOut else Exited 0)\<rparr>"

section \<open>Lemmas\<close>

lemma run_scripts_eq:
  "run_scripts E (n, cwd) ss =
     (n + length (filter (succeeds E) (map fst ss)),
      (case filter (abnormal E) (map fst ss) of [] \<Rightarrow> cwd | ps \<Rightarrow> py_dirname (last ps)))"
proof (induction ss arbitrary: n cwd)
  case Nil
  then show ?case by simp
next
  case (Cons s ss)
  obtain p name where s: "s = (p, name)" by (cases s)
  show ?case
    using Cons
    by (auto simp: s run_fetch_script_def Let_def succeeds_def abnormal_def
        split: run_result.split list.split)
qed

section \<open>Properties\<close>

text \<open>\<open>main\<close> counts, among the daily scripts and on Fridays at 20h also the
  weekly ones, exactly the scripts that exist and exit with code 0, out of 12 or 15.\<close>

theorem sched_main_counts:
  "fst (fst (sched_main E cwd d h)) =
     length (filter (succeeds E) (map fst (daily_scripts @ (if d = 4 \<and> h = 20 then weekly_scripts else []))))
   \<and> snd (fst (sched_main E cwd d h)) = (if d = 4 \<and> h = 20 then 15 else 12)"
  by (simp add: sched_main_def run_daily_scripts_def run_weekly_scripts_def run_scripts_eq split_beta)
     (simp add: daily_scripts_def weekly_scripts_def)

text \<open>C40: the working directory is not restored after a script that times out or whose
  run raises: \<open>os.chdir(original_cwd)\<close> (line 30) is skipped by the exception, and
  the next scripts take that directory as their \<open>original_cwd\<close>. After the daily
  run the process is in the directory of the last such script, here \<open>/app/GOOGL\<close>.\<close>

theorem run_daily_scripts_cwd:
  "snd (run_daily_scripts E cwd) =
     (case filter (abnormal E) (map fst daily_scripts) of [] \<Rightarrow> cwd | ps \<Rightarrow> py_dirname (last ps))
   \<and> snd (run_daily_scripts ex_sched ''/root'') = ''/app/GOOGL''"
proof
  show "snd (run_daily_scripts E cwd) =
     (case filter (abnormal E) (map fst daily_scripts) of [] \<Rightarrow> cwd | ps \<Rightarrow> py_dirname (last ps))"
    by (simp add: run_daily_scripts_def run_scripts_eq split_beta)
  show "snd (run_daily_scripts ex_sched ''/root'') = ''/app/GOOGL''"
    by (simp add: run_daily_scripts_def run_scripts_eq split_beta daily_scripts_def base_path_def
        abnormal_def ex_sched_def) code_simp
qed

end
