(* ===== verification/Options.thy ===== *)
theory Options
  imports Prelude Archive
begin

text \<open>
  The options-flow tracker \<open>options_flow.py\<close> (class \<open>OptionsFlowTracker\<close>).
  yfinance is the parameter \<open>options_source\<close>: the expiration dates of a ticker, the
  option chain (calls, puts) of one expiration, and the daily closes and volumes of
  a history period; each read may raise. A chain row (\<open>quote\<close>) has the columns the
  code reads; \<open>option_row\<close> adds the metadata columns of lines 38-46 (the
  \<open>timestamp\<close> column is not modelled). \<open>pandas\<close> operations are list functions:
  \<open>quantile(0.9)\<close> is numpy's linear interpolation (\<open>quantile_linear\<close>),
  \<open>groupby('strike').sum()\<close> has its groups in strike order and \<open>idxmax\<close> takes the
  first maximum (\<open>max_pain\<close>), \<open>argsort()[:5]\<close> of the distances is one stable sort
  of them (\<open>atm_rows\<close>; numpy's default sort may order ties differently),
  \<open>rank(pct=True)\<close> averages the ranks of ties. Divisions whose divisor may be 0
  give a \<open>pyfloat\<close>; \<open>put/(call + 1)\<close> ratios have a divisor of at least 1 for the
  non-negative volumes and open interests of a chain and are real divisions.
\<close>

section \<open>Chains\<close>

datatype option_type = Call | Put

record quote =
  strike :: real
  volume :: real
  open_interest :: real
  implied_volatility :: real

record option_row = quote +
  opt_type :: option_type
  expiration :: string
  opt_ticker :: string

record options_source =
  expirations_of :: "string \<Rightarrow> py_exc + string list"
  chain_of :: "string \<Rightarrow> string \<Rightarrow> py_exc + quote list \<times> quote list"
  closes_of :: "string \<Rightarrow> string \<Rightarrow> py_exc + real list"
  volumes_of :: "string \<Rightarrow> string \<Rightarrow> py_exc + real list"

definition tag_rows :: "option_type \<Rightarrow> string \<Rightarrow> string \<Rightarrow> quote list \<Rightarrow> option_row list" where
  "tag_rows ty edate tk qs =
     map (\<lambda>q. \<lparr>strike = strike q, volume = volume q, open_interest = open_interest q,
               implied_volatility = implied_volatility q, opt_type = ty, expiration = edate,
               opt_ticker = tk\<rparr>) qs"

definition get_options_chain_yahoo :: "options_source \<Rightarrow> string \<Rightarrow> option_row list option" where
  "get_options_chain_yahoo S tk =
     (case expirations_of S tk of
        Inl e \<Rightarrow> None
      | Inr [] \<Rightarrow> None
      | Inr (nearest_exp # _) \<Rightarrow>
          (case chain_of S tk nearest_exp of
             Inl e \<Rightarrow> None
           | Inr (calls, puts) \<Rightarrow> Some (tag_rows Call nearest_exp tk calls @ tag_rows Put nearest_exp tk puts)))"

section \<open>Unusual activity\<close>

text \<open>numpy's default (linear) quantile of a non-empty column: the value at position
  \<open>q (n - 1)\<close> of the sorted column, interpolated between its neighbours.\<close>

definition quantile_linear :: "real list \<Rightarrow> real \<Rightarrow> real" where
  "quantile_linear xs q =
     (let s = sort xs; h = q * real (length s - 1); i = nat \<lfloor>h\<rfloor>; fr = h - of_int \<lfloor>h\<rfloor>
      in if Suc i < length s then s ! i + fr * (s ! Suc i - s ! i) else s ! i)"

datatype sentiment = Bullish | Bearish | Neutral

definition sentiment_of :: "real \<Rightarrow> sentiment" where
  "sentiment_of r = (if r < 0.7 then Bullish else if r > 1.3 then Bearish else Neutral)"

record options_analysis =
  an_ticker :: string
  total_call_volume :: real
  total_put_volume :: real
  put_call_ratio :: real
  total_volume :: real
  unusual_activity_count :: nat
  volume_weighted_avg_strike :: real
  an_sentiment :: sentiment

text \<open>The result of \<open>analyze_unusual_options_activity\<close>: \<open>None\<close> for an empty table,
  otherwise the pair of the analysis and the unusual rows.\<close>

datatype analysis_result = NoAnalysis | AnalysisPair options_analysis "option_row list"

definition calls_of :: "option_row list \<Rightarrow> option_row list" where
  "calls_of rs = filter (\<lambda>r. opt_type r = Call) rs"

definition puts_of :: "option_row list \<Rightarrow> option_row list" where
  "puts_of rs = filter (\<lambda>r. opt_type r = Put) rs"

definition analyze_unusual_options_activity :: "option_row list \<Rightarrow> analysis_result" where
  "analyze_unusual_options_activity rs =
     (if rs = [] then NoAnalysis
      else
        (let threshold = quantile_linear (map volume rs) 0.9;
             unusual = filter (\<lambda>r. threshold \<le> volume r) rs;
             tcv = sum_list (map volume (calls_of rs));
             tpv = sum_list (map volume (puts_of rs));
             pcr = tpv / (tcv + 1);
             tv = sum_list (map volume rs);
             avg_strike = (if 0 < tv then sum_list (map (\<lambda>r. strike r * volume r) rs) / tv else 0)
         in AnalysisPair
              \<lparr>an_ticker = opt_ticker (hd rs), total_call_volume = tcv, total_put_volume = tpv,
               put_call_ratio = pcr, total_volume = tv, unusual_activity_count = length unusual,
               volume_weighted_avg_strike = avg_strike, an_sentiment = sentiment_of pcr\<rparr>
              unusual))"

section \<open>Indicators\<close>

definition atm_rows :: "real \<Rightarrow> option_row list \<Rightarrow> option_row list" where
  "atm_rows price rs = take 5 (sort_key (\<lambda>r. \<bar>strike r - price\<bar>) rs)"

text \<open>\<open>groupby('strike')['openInterest'].sum()\<close>: one group per strike, in strike order.\<close>

definition strike_oi :: "option_row list \<Rightarrow> real \<Rightarrow> real" where
  "strike_oi rs k = sum_list (map open_interest (filter (\<lambda>r. strike r = k) rs))"

definition oi_by_strike :: "option_row list \<Rightarrow> (real \<times> real) list" where
  "oi_by_strike rs = map (\<lambda>k. (k, strike_oi rs k)) (sort (remdups (map strike rs)))"

text \<open>\<open>total_oi_by_strike.loc[...idxmax(), 'strike']\<close>; \<open>idxmax\<close> of an empty column
  raises \<open>ValueError\<close>.\<close>

definition max_pain :: "option_row list \<Rightarrow> py_exc + real" where
  "max_pain rs =
     (let g = oi_by_strike rs
      in if g = [] then Inl ValueError
         else Inr (fst (hd (filter (\<lambda>p. snd p = py_max (map snd g)) g))))"

text \<open>The truth value of a float in Python: NaN is true, 0 is false.\<close>

definition py_truthy :: "pyfloat \<Rightarrow> bool" where
  "py_truthy x = (x \<noteq> Fin 0)"

definition mean_or_nan :: "real list \<Rightarrow> pyfloat" where
  "mean_or_nan xs = (if xs = [] then NaN else Fin (py_mean xs))"

definition py_sub :: "pyfloat \<Rightarrow> pyfloat \<Rightarrow> pyfloat" where
  "py_sub a b = (case (a, b) of (Fin x, Fin y) \<Rightarrow> Fin (x - y) | _ \<Rightarrow> NaN)"

record options_indicators =
  ind_ticker :: string
  current_price :: real
  max_pain_strike :: real
  distance_to_max_pain :: pyfloat
  net_gamma_exposure :: real
  atm_call_iv :: "real option"
  atm_put_iv :: "real option"
  iv_skew :: "pyfloat option"
  total_call_oi :: real
  total_put_oi :: real
  put_call_oi_ratio :: real

definition indicators_of ::
  "string \<Rightarrow> real \<Rightarrow> option_row list \<Rightarrow> py_exc + options_indicators" where
  "indicators_of tk price rs =
     (let calls = calls_of rs; puts = puts_of rs;
          atm_calls = atm_rows price calls; atm_puts = atm_rows price puts
      in py_bind (max_pain rs) (\<lambda>mp.
         (let cge = sum_list (map (\<lambda>r. open_interest r * strike r * 0.01) calls);
              pge = sum_list (map (\<lambda>r. open_interest r * strike r * -0.01) puts);
              put_m = mean_or_nan (map implied_volatility atm_puts);
              call_m = mean_or_nan (map implied_volatility atm_calls)
          in Inr \<lparr>ind_ticker = tk, current_price = price, max_pain_strike = mp,
                  distance_to_max_pain = py_affine 100 0 (py_div (price - mp) price),
                  net_gamma_exposure = cge + pge,
                  atm_call_iv = (if atm_calls \<noteq> [] then Some (py_mean (map implied_volatility atm_calls)) else None),
                  atm_put_iv = (if atm_puts \<noteq> [] then Some (py_mean (map implied_volatility atm_puts)) else None),
                  iv_skew = (if py_truthy put_m \<and> py_truthy call_m then Some (py_sub put_m call_m) else None),
                  total_call_oi = sum_list (map open_interest calls),
                  total_put_oi = sum_list (map open_interest puts),
                  put_call_oi_ratio = sum_list (map open_interest puts) / (sum_list (map open_interest calls) + 1)\<rparr>)))"

definition calculate_options_indicators :: "options_source \<Rightarrow> string \<Rightarrow> options_indicators option" where
  "calculate_options_indicators S tk =
     (case closes_of S tk ''5d'' of
        Inl e \<Rightarrow> None
      | Inr [] \<Rightarrow> None
      | Inr closes \<Rightarrow>
          (case get_options_chain_yahoo S tk of
             None \<Rightarrow> None
           | Some rs \<Rightarrow> (case indicators_of tk (last closes) rs of Inl e \<Rightarrow> None | Inr i \<Rightarrow> Some i)))"

section \<open>Dark pool estimate\<close>

datatype volume_anomaly = AnomalyHigh | AnomalyLow | AnomalyNormal

record dark_pool =
  dp_ticker :: string
  avg_volume_5y :: real
  recent_volume_30d :: real
  volume_ratio :: pyfloat
  volume_percentile_5y :: real
  estimated_dark_pool_pct :: pyfloat
  dp_anomaly :: volume_anomaly

definition anomaly_of :: "pyfloat \<Rightarrow> volume_anomaly" where
  "anomaly_of r = (if py_lt (Fin 1.5) r then AnomalyHigh else if py_lt r (Fin 0.7) then AnomalyLow
                   else AnomalyNormal)"

text \<open>The sample standard deviation of line 208 is written to the table only; it is
  not modelled.\<close>

definition track_dark_pool_activity :: "options_source \<Rightarrow> string \<Rightarrow> dark_pool option" where
  "track_dark_pool_activity S tk =
     (case volumes_of S tk ''5y'' of
        Inl e \<Rightarrow> None
      | Inr [] \<Rightarrow> None
      | Inr vols \<Rightarrow>
          (let avg = py_mean vols;
               recent = py_mean (drop (length vols - 30) vols)
           in case volumes_of S tk ''5d-1h'' of
                Inl e \<Rightarrow> None
              | Inr [] \<Rightarrow> None
              | Inr _ \<Rightarrow>
                  (let ratio = py_div recent avg
                   in Some \<lparr>dp_ticker = tk, avg_volume_5y = avg, recent_volume_30d = recent,
                            volume_ratio = ratio, volume_percentile_5y = rank_pct_last vols * 100,
                            estimated_dark_pool_pct = py_min2 (Fin 40) (py_max2 (Fin 15) (py_affine 10 15 ratio)),
                            dp_anomaly = anomaly_of ratio\<rparr>)))"

section \<open>Fetch and save\<close>

record options_output =
  options_summary :: "options_analysis list"
  unusual_tables :: "(string \<times> option_row list) list"
  indicator_rows :: "options_indicators list"
  dark_pool_summary :: "dark_pool list"

text \<open>One ticker of the loop of \<open>fetch_and_save_options_data\<close> (lines 244-289): the
  unpacking \<open>analysis, unusual_activity = ...\<close> of line 257 raises \<open>TypeError\<close> when
  the analysis is \<open>None\<close>, which the loop's \<open>except\<close> turns into skipping the rest of
  the ticker, sleep included.\<close>

definition options_for_ticker :: "options_source \<Rightarrow> string \<Rightarrow> options_output \<times> event list" where
  "options_for_ticker S tk =
     (let opts = get_options_chain_yahoo S tk;
          step1 = (case opts of
                     None \<Rightarrow> Inr ([], [])
                   | Some rs \<Rightarrow> (case analyze_unusual_options_activity rs of
                                  NoAnalysis \<Rightarrow> Inl TypeError
                                | AnalysisPair a u \<Rightarrow> Inr ([a], if u \<noteq> [] then [(tk, u)] else [])))
      in case step1 of
           Inl e \<Rightarrow> (\<lparr>options_summary = [], unusual_tables = [], indicator_rows = [], dark_pool_summary = []\<rparr>, [])
         | Inr (an, un) \<Rightarrow>
             (\<lparr>options_summary = an, unusual_tables = un,
               indicator_rows = (case calculate_options_indicators S tk of None \<Rightarrow> [] | Some i \<Rightarrow> [i]),
               dark_pool_summary = (case track_dark_pool_activity S tk of None \<Rightarrow> [] | Some d \<Rightarrow> [d])\<rparr>,
              [Sleep 1000]))"

definition fetch_and_save_options_data :: "options_source \<Rightarrow> string list \<Rightarrow> options_output \<times> event list" where
  "fetch_and_save_options_data S tks =
     (let rs = map (options_for_ticker S) tks
      in (\<lparr>options_summary = concat (map (options_summary \<circ> fst) rs),
           unusual_tables = concat (map (unusual_tables \<circ> fst) rs),
           indicator_rows = concat (map (indicator_rows \<circ> fst) rs),
           dark_pool_summary = concat (map (dark_pool_summary \<circ> fst) rs)\<rparr>,
          concat (map snd rs)))"

section \<open>Example inputs\<close>

text \<open>A chain of two calls and two puts of the nearest expiration, daily closes and
  volumes; the same source with an empty chain; and one whose volumes are all 0.\<close>

definition ex_quote :: "real \<Rightarrow> real \<Rightarrow> real \<Rightarrow> real \<Rightarrow> quote" where
  "ex_quote k v oi iv = \<lparr>strike = k, volume = v, open_interest = oi, implied_volatility = iv\<rparr>"

definition ex_calls :: "quote list" where
  "ex_calls = [ex_quote 100 50 200 0.3, ex_quote 110 10 300 0.25]"

definition ex_puts :: "quote list" where
  "ex_puts = [ex_quote 100 40 100 0.35, ex_quote 90 5 50 0.4]"

definition ex_chain :: "option_row list" where
  "ex_chain = tag_rows Call ''2025-01-17'' ''SPY'' ex_calls @ tag_rows Put ''2025-01-17'' ''SPY'' ex_puts"

definition ex_opts :: options_source where
  "ex_opts = \<lparr>expirations_of = (\<lambda>tk. Inr [''2025-01-17'', ''2025-01-24'']),
     chain_of = (\<lambda>tk e. Inr (ex_calls, ex_puts)),
     closes_of = (\<lambda>tk p. Inr [101, 104]),
     volumes_of = (\<lambda>tk p. Inr [1000, 1200, 1100])\<rparr>"

definition ex_opts_empty :: options_source where
  "ex_opts_empty = ex_opts\<lparr>chain_of := (\<lambda>tk e. Inr ([], []))\<rparr>"

definition ex_opts_flat :: options_source where
  "ex_opts_flat = ex_opts\<lparr>volumes_of := (\<lambda>tk p. Inr [0, 0, 0])\<rparr>"

section \<open>Lemmas\<close>




lemma analyze_unusual_options_activity_Nil:
  "analyze_unusual_options_activity [] = NoAnalysis"
  by (simp add: analyze_unusual_options_activity_def)


lemma analyze_unusual_options_activity_pair:
  assumes "rs \<noteq> []"
  shows "\<exists>a u. analyze_unusual_options_activity rs = AnalysisPair a u \<and>
     u = filter (\<lambda>r. quantile_linear (map volume rs) 0.9 \<le> volume r) rs \<and>
     unusual_activity_count a = length u \<and>
     put_call_ratio a = total_put_volume a / (total_call_volume a + 1) \<and>
     an_sentiment a = sentiment_of (put_call_ratio a)"
  using assms by (simp add: analyze_unusual_options_activity_def Let_def)



lemma oi_by_strike_Nil_iff: "oi_by_strike rs = [] \<longleftrightarrow> rs = []"
  by (simp add: oi_by_strike_def)

lemma max_pain_Nil: "max_pain [] = Inl ValueError"
  by (simp add: max_pain_def oi_by_strike_def)

text \<open>C14: The max-pain strike of \<open>calculate_options_indicators\<close> is a strike of the chain whose total open interest is maximal, and no lower strike has as much: \<open>idxmax\<close> over the strike-ordered groups takes the lowest maximal strike.\<close>

lemma max_pain_argmax:
  assumes "max_pain rs = Inr mp"
  shows "mp \<in> strike ` set rs \<and> (\<forall>k\<in>strike ` set rs. strike_oi rs k \<le> strike_oi rs mp)
     \<and> (\<forall>k\<in>strike ` set rs. k < mp \<longrightarrow> strike_oi rs k < strike_oi rs mp)"
proof -
  define s where "s = sort (remdups (map strike rs))"
  define g where "g = oi_by_strike rs"
  define M where "M = py_max (map snd g)"
  have g: "g = map (\<lambda>k. (k, strike_oi rs k)) s" by (simp add: g_def s_def oi_by_strike_def)
  have ne: "g \<noteq> []" and mp: "mp = fst (hd (filter (\<lambda>p. snd p = M) g))"
    using assms by (auto simp: max_pain_def g_def M_def Let_def split: if_splits)
  have setS: "set s = strike ` set rs" by (simp add: s_def)
  have M: "M = Max (snd ` set g)" using ne by (simp add: M_def py_max_Max)
  then have "M \<in> snd ` set g" using ne by simp
  then have fne: "filter (\<lambda>p. snd p = M) g \<noteq> []" by (auto simp: filter_empty_conv)
  obtain j where j: "j < length g" "hd (filter (\<lambda>p. snd p = M) g) = g ! j"
      "snd (g ! j) = M" "\<forall>i<j. snd (g ! i) \<noteq> M"
    using hd_filter_first [OF fne] by blast
  have lg: "length g = length s" by (simp add: g)
  have mpj: "mp = s ! j" using mp j(1,2) by (simp add: g)
  have oi_mp: "strike_oi rs mp = M" using j(1,3) mpj by (simp add: g)
  have le: "\<forall>k\<in>set s. strike_oi rs k \<le> M"
    using M by (auto simp: g image_image intro!: Max_ge)
  have "\<forall>k\<in>set s. k < mp \<longrightarrow> strike_oi rs k < M"
  proof (intro ballI impI)
    fix k assume k: "k \<in> set s" "k < mp"
    then obtain i where i: "i < length s" "s ! i = k" by (auto simp: in_set_conv_nth)
    have "i < j" using sorted_distinct_nth_less [of s i j] i j(1) lg k(2) mpj
      by (simp add: s_def)
    then have "snd (g ! i) \<noteq> M" using j(4) by blast
    then have "strike_oi rs k \<noteq> M" using i by (simp add: g)
    then show "strike_oi rs k < M" using le k(1) by force
  qed
  moreover have "mp \<in> set s" using mpj j(1) lg by simp
  ultimately show ?thesis using le oi_mp setS by auto
qed

lemma track_dark_pool_activity_Some:
  assumes "track_dark_pool_activity S tk = Some d"
  shows "\<exists>vols ratio. vols \<noteq> [] \<and> volume_percentile_5y d = rank_pct_last vols * 100 \<and>
     estimated_dark_pool_pct d = py_min2 (Fin 40) (py_max2 (Fin 15) (py_affine 10 15 ratio))"
  using assms
  by (auto simp: track_dark_pool_activity_def Let_def split: sum.splits list.splits) force

text \<open>C16: Every dark-pool record has an estimated dark-pool share between 15 and 40 percent, also when the volume ratio is NaN or infinite, and a 5-year volume percentile in (0, 100].\<close>

lemma track_dark_pool_activity_bounds:
  assumes "track_dark_pool_activity S tk = Some d"
  shows "(\<exists>r. estimated_dark_pool_pct d = Fin r \<and> 15 \<le> r \<and> r \<le> 40) \<and>
     0 < volume_percentile_5y d \<and> volume_percentile_5y d \<le> 100"
proof -
  obtain vols ratio where v: "vols \<noteq> []" "volume_percentile_5y d = rank_pct_last vols * 100"
      "estimated_dark_pool_pct d = py_min2 (Fin 40) (py_max2 (Fin 15) (py_affine 10 15 ratio))"
    using track_dark_pool_activity_Some [OF assms] by blast
  obtain r where "py_min2 (Fin 40) (py_max2 (Fin 15) (py_affine 10 15 ratio)) = Fin r"
      "15 \<le> r" "r \<le> 40"
    using py_min2_py_max2_Fin [of 40 15 "py_affine 10 15 ratio"] by auto
  then show ?thesis using v rank_pct_last_bounds [OF v(1)] by auto
qed

text \<open>C15: When the nearest expiration has an empty chain, the analysis returns a bare None whose unpacking raises TypeError: the ticker gets no indicators, no dark-pool record and no rate-limiting sleep, even when those reads would succeed.\<close>

lemma options_for_ticker_empty_chain:
  assumes "get_options_chain_yahoo S tk = Some []"
  shows "options_for_ticker S tk =
    (\<lparr>options_summary = [], unusual_tables = [], indicator_rows = [], dark_pool_summary = []\<rparr>, [])"
  using assms by (simp add: options_for_ticker_def analyze_unusual_options_activity_Nil)

lemma options_for_ticker_trace:
  "snd (options_for_ticker S tk) =
     (if get_options_chain_yahoo S tk = Some [] then [] else [Sleep 1000])"
proof (cases "get_options_chain_yahoo S tk")
  case None
  then show ?thesis by (simp add: options_for_ticker_def)
next
  case (Some rs)
  then show ?thesis
  proof (cases "rs = []")
    case True
    then show ?thesis using Some by (simp add: options_for_ticker_def analyze_unusual_options_activity_Nil)
  next
    case False
    then obtain a u where "analyze_unusual_options_activity rs = AnalysisPair a u"
      using analyze_unusual_options_activity_pair by blast
    then show ?thesis using Some False by (simp add: options_for_ticker_def)
  qed
qed

text \<open>C18: fetch_and_save_options_data sleeps one second after each ticker except those whose chain is present but empty, and issues nothing else.\<close>

lemma fetch_and_save_options_data_trace:
  "snd (fetch_and_save_options_data S tks) =
     replicate (length (filter (\<lambda>tk. get_options_chain_yahoo S tk \<noteq> Some []) tks)) (Sleep 1000)"
  by (induction tks)
    (simp_all add: fetch_and_save_options_data_def Let_def options_for_ticker_trace)



lemma ex_opts_chain: "get_options_chain_yahoo ex_opts ''SPY'' = Some ex_chain"
  by (simp add: get_options_chain_yahoo_def ex_opts_def ex_chain_def)



lemma max_pain_ex_chain: "max_pain ex_chain = Inr 100"
  by (simp add: ex_chain_def ex_calls_def ex_puts_def tag_rows_def ex_quote_def max_pain_def
      oi_by_strike_def strike_oi_def py_max_def)

lemma max_pain_argmax_witness:
  "max_pain ex_chain = Inr 100 \<and> 100 \<in> strike ` set ex_chain \<and>
   strike_oi ex_chain 110 \<le> strike_oi ex_chain 100 \<and> strike_oi ex_chain 90 < strike_oi ex_chain 100"
proof -
  have k: "110 \<in> strike ` set ex_chain" "90 \<in> strike ` set ex_chain"
    by (simp_all add: ex_chain_def ex_calls_def ex_puts_def tag_rows_def ex_quote_def)
  show ?thesis using max_pain_ex_chain max_pain_argmax [OF max_pain_ex_chain] k by auto
qed

lemma track_dark_pool_activity_flat:
  "\<exists>d. track_dark_pool_activity ex_opts_flat ''SPY'' = Some d \<and> volume_ratio d = NaN"
  by (simp add: track_dark_pool_activity_def ex_opts_flat_def ex_opts_def Let_def py_mean_def
      py_div_def)

lemma track_dark_pool_activity_bounds_witness:
  "\<exists>d. track_dark_pool_activity ex_opts_flat ''SPY'' = Some d \<and> volume_ratio d = NaN \<and>
     (\<exists>r. estimated_dark_pool_pct d = Fin r \<and> 15 \<le> r \<and> r \<le> 40) \<and>
     0 < volume_percentile_5y d \<and> volume_percentile_5y d \<le> 100"
proof -
  obtain d where d: "track_dark_pool_activity ex_opts_flat ''SPY'' = Some d" "volume_ratio d = NaN"
    using track_dark_pool_activity_flat by blast
  show ?thesis using d track_dark_pool_activity_bounds [OF d(1)] by blast
qed

lemma ex_opts_empty_chain: "get_options_chain_yahoo ex_opts_empty ''SPY'' = Some []"
  by (simp add: get_options_chain_yahoo_def ex_opts_empty_def ex_opts_def tag_rows_def)

lemma options_for_ticker_empty_chain_witness:
  "get_options_chain_yahoo ex_opts_empty ''SPY'' = Some [] \<and>
   track_dark_pool_activity ex_opts_empty ''SPY'' \<noteq> None \<and>
   options_for_ticker ex_opts_empty ''SPY'' =
     (\<lparr>options_summary = [], unusual_tables = [], indicator_rows = [], dark_pool_summary = []\<rparr>, [])"
proof -
  have "track_dark_pool_activity ex_opts_empty ''SPY'' \<noteq> None"
    by (simp add: track_dark_pool_activity_def ex_opts_empty_def ex_opts_def Let_def)
  then show ?thesis
    using ex_opts_empty_chain options_for_ticker_empty_chain [OF ex_opts_empty_chain] by blast
qed

end
