(* ===== verification/Vix.thy ===== *)
theory Vix
  imports Prelude
begin

text \<open>
  The volatility fetcher \<open>vix_fetcher.py\<close> (class \<open>VIXFetcher\<close>). yfinance is the
  parameter \<open>vol_source\<close>: the Close column of the history of a symbol for a period
  and an interval, or an exception (the date index is not modelled). A fetched table
  is the record \<open>vol_table\<close>: the closes and the derived columns, each \<open>None\<close> where
  the code does not add it. pandas' rolling windows of width \<open>w\<close> give NaN until a
  full window is available (\<open>rolling\<close>); \<open>pct_change\<close> starts with NaN and divides
  as numpy does; \<open>std\<close> is the sample standard deviation, NaN when a value of its
  window is NaN or infinite or the window has fewer than two values.
\<close>

section \<open>Sources, tickers and pandas helpers\<close>

record vol_source =
  history_of :: "string \<Rightarrow> string \<Rightarrow> string \<Rightarrow> py_exc + real list"

definition volatility_tickers :: "(string \<times> string) list" where
  "volatility_tickers = py_dict
     [(''^VIX'', ''VIX''), (''^VIX9D'', ''VIX9D''), (''^VIX3M'', ''VIX3M''), (''^VIX6M'', ''VIX6M''),
      (''^VVIX'', ''VVIX''), (''^SKEW'', ''SKEW''), (''VXX'', ''VXX''), (''UVXY'', ''UVXY''),
      (''VIXY'', ''VIXY''), (''SVXY'', ''SVXY'')]"

text \<open>The symbols of line 38 that get no realised-volatility columns.\<close>

definition vix_indices :: "string list" where
  "vix_indices = [''^VIX'', ''^VIX9D'', ''^VIX3M'', ''^VIX6M'']"

definition term_structure_symbols :: "string list" where
  "term_structure_symbols = [''^VIX'', ''^VIX9D'', ''^VIX3M'', ''^VIX6M'']"

fun is_fin :: "pyfloat \<Rightarrow> bool" where
  "is_fin (Fin r) = True"
| "is_fin _ = False"

fun fin_val :: "pyfloat \<Rightarrow> real" where
  "fin_val (Fin r) = r"
| "fin_val _ = 0"

text \<open>\<open>Series.pct_change()\<close>: NaN, then \<open>x\<^sub>i / x\<^sub>i\<^sub>-\<^sub>1 - 1\<close>.\<close>

definition pct_change :: "real list \<Rightarrow> pyfloat list" where
  "pct_change xs = (if xs = [] then [] else NaN # map2 (\<lambda>p c. py_affine 1 (-1) (py_div c p)) xs (tl xs))"

text \<open>The window of width \<open>w\<close> ending at position \<open>i\<close>, and \<open>rolling(window=w).f()\<close>
  with the default \<open>min_periods = w\<close>.\<close>

definition window :: "nat \<Rightarrow> 'a list \<Rightarrow> nat \<Rightarrow> 'a list" where
  "window w xs i = take w (drop (Suc i - w) xs)"

definition rolling :: "nat \<Rightarrow> ('a list \<Rightarrow> pyfloat) \<Rightarrow> 'a list \<Rightarrow> pyfloat list" where
  "rolling w f xs = map (\<lambda>i. if Suc i < w then NaN else f (window w xs i)) [0..<length xs]"

definition sample_std :: "real list \<Rightarrow> pyfloat" where
  "sample_std xs = (if length xs < 2 then NaN
     else Fin (sqrt (sum_list (map (\<lambda>x. (x - py_mean xs)\<^sup>2) xs) / real (length xs - 1))))"

definition window_std :: "pyfloat list \<Rightarrow> pyfloat" where
  "window_std ps = (if list_all is_fin ps then sample_std (map fin_val ps) else NaN)"

text \<open>\<open>Series.std()\<close> skips NaN; an infinite value makes it NaN.\<close>

definition series_std :: "pyfloat list \<Rightarrow> pyfloat" where
  "series_std ps = window_std (filter (\<lambda>p. p \<noteq> NaN) ps)"

definition annualise :: "pyfloat \<Rightarrow> pyfloat" where
  "annualise p = py_affine (sqrt 252 * 100) 0 p"

definition rolling_volatility :: "nat \<Rightarrow> real list \<Rightarrow> pyfloat list" where
  "rolling_volatility w cs = map annualise (rolling w window_std (pct_change cs))"

definition rolling_mean :: "nat \<Rightarrow> real list \<Rightarrow> pyfloat list" where
  "rolling_mean w cs = rolling w (\<lambda>ws. Fin (py_mean ws)) cs"

definition rolling_rank_pct :: "nat \<Rightarrow> real list \<Rightarrow> pyfloat list" where
  "rolling_rank_pct w cs = map (py_affine 100 0) (rolling w (\<lambda>ws. Fin (rank_pct_last ws)) cs)"

section \<open>Fear levels\<close>

datatype fear_level = Low | Normal | High | Extreme

text \<open>\<open>pd.cut(close, bins=[0, 12, 20, 30, inf])\<close>: right-closed intervals, NaN (here
  \<open>None\<close>) outside \<open>(0, inf]\<close>.\<close>

definition pd_cut_fear :: "real \<Rightarrow> fear_level option" where
  "pd_cut_fear c = (if c \<le> 0 then None else if c \<le> 12 then Some Low else if c \<le> 20 then Some Normal
                    else if c \<le> 30 then Some High else Some Extreme)"

text \<open>The threshold chain of line 122.\<close>

definition fear_level_of :: "real \<Rightarrow> fear_level" where
  "fear_level_of c = (if c > 30 then Extreme else if c > 20 then High else if c > 12 then Normal else Low)"

section \<open>Instrument tables\<close>

record vol_table =
  vt_symbol :: string
  vt_close :: "real list"
  vol_30d :: "pyfloat list option"
  vol_10d :: "pyfloat list option"
  vix_percentile_30d :: "pyfloat list option"
  vix_percentile_90d :: "pyfloat list option"
  vix_ma_10 :: "pyfloat list option"
  vix_ma_20 :: "pyfloat list option"
  fear_col :: "fear_level option list option"

text \<open>The columns added by lines 33-54 to a non-empty history.\<close>

definition vol_table_of :: "string \<Rightarrow> real list \<Rightarrow> vol_table" where
  "vol_table_of symbol cs =
     (let realised = symbol \<notin> set vix_indices; vix = (symbol = ''^VIX'')
      in \<lparr>vt_symbol = symbol, vt_close = cs,
          vol_30d = (if realised then Some (rolling_volatility 30 cs) else None),
          vol_10d = (if realised then Some (rolling_volatility 10 cs) else None),
          vix_percentile_30d = (if vix then Some (rolling_rank_pct 30 cs) else None),
          vix_percentile_90d = (if vix then Some (rolling_rank_pct 90 cs) else None),
          vix_ma_10 = (if vix then Some (rolling_mean 10 cs) else None),
          vix_ma_20 = (if vix then Some (rolling_mean 20 cs) else None),
          fear_col = (if vix then Some (map pd_cut_fear cs) else None)\<rparr>)"

definition fetch_volatility_data :: "vol_source \<Rightarrow> string \<Rightarrow> string \<Rightarrow> vol_table option" where
  "fetch_volatility_data S symbol period =
     (case history_of S symbol period ''1d'' of
        Inl e \<Rightarrow> None
      | Inr [] \<Rightarrow> None
      | Inr cs \<Rightarrow> Some (vol_table_of symbol cs))"

section \<open>Term structure\<close>

datatype term_kind = Contango | Backwardation

record term_structure =
  vix_current :: "real option"
  vix9d :: "real option"
  vix3m :: "real option"
  vix6m :: "real option"
  vix_vix3m_ratio :: "pyfloat option"
  ts_kind :: "term_kind option"

text \<open>The loop of lines 68-72: the latest close of each symbol with a non-empty
  history, in order; an exception of any request leaves the loop (and the method).\<close>

fun collect_latest :: "vol_source \<Rightarrow> string list \<Rightarrow> py_exc + (string \<times> real) list" where
  "collect_latest S [] = Inr []"
| "collect_latest S (s # ss) =
     (case history_of S s ''5d'' ''1d'' of
        Inl e \<Rightarrow> Inl e
      | Inr cs \<Rightarrow> py_bind (collect_latest S ss) (\<lambda>rest. Inr (if cs = [] then rest else (s, last cs) # rest)))"

definition term_structure_of :: "(string \<times> real) list \<Rightarrow> term_structure" where
  "term_structure_of vd =
     (let v = map_of vd
      in \<lparr>vix_current = v ''^VIX'', vix9d = v ''^VIX9D'', vix3m = v ''^VIX3M'', vix6m = v ''^VIX6M'',
          vix_vix3m_ratio = (case (v ''^VIX'', v ''^VIX3M'') of
                               (Some a, Some b) \<Rightarrow> Some (py_div a b) | _ \<Rightarrow> None),
          ts_kind = (case (v ''^VIX'', v ''^VIX3M'') of
                       (Some a, Some b) \<Rightarrow> Some (if a > b then Backwardation else Contango) | _ \<Rightarrow> None)\<rparr>)"

definition calculate_vix_term_structure :: "vol_source \<Rightarrow> term_structure option" where
  "calculate_vix_term_structure S =
     (case collect_latest S term_structure_symbols of
        Inl e \<Rightarrow> None
      | Inr vd \<Rightarrow> if 2 \<le> length vd then Some (term_structure_of vd) else None)"

section \<open>Market fear indicators\<close>

record fear_row =
  fr_vix_current :: real
  fr_vix_30d_avg :: real
  fr_vix_percentile :: real
  fr_spy_vol :: pyfloat
  fr_vix_spy_ratio :: "real option"
  fr_fear_level :: fear_level

text \<open>The row of lines 106-123 from the VIX closes and the SPY closes.\<close>

definition fear_row_of :: "real list \<Rightarrow> real list \<Rightarrow> fear_row" where
  "fear_row_of vs ss =
     (let cur = last vs; sv = annualise (series_std (pct_change ss))
      in \<lparr>fr_vix_current = cur, fr_vix_30d_avg = py_mean (drop (length vs - 30) vs),
          fr_vix_percentile = rank_pct_last vs * 100, fr_spy_vol = sv,
          fr_vix_spy_ratio = (case sv of Fin v \<Rightarrow> if 0 < v then Some (cur / v) else None | _ \<Rightarrow> None),
          fr_fear_level = fear_level_of cur\<rparr>)"

definition get_market_fear_indicators :: "vol_source \<Rightarrow> fear_row list" where
  "get_market_fear_indicators S =
     (case history_of S ''^VIX'' ''20y'' ''1d'' of
        Inl e \<Rightarrow> []
      | Inr [] \<Rightarrow> []
      | Inr vs \<Rightarrow>
          (case history_of S ''SPY'' ''20y'' ''1d'' of
             Inl e \<Rightarrow> []
           | Inr ss \<Rightarrow> [fear_row_of vs ss]))"

section \<open>Fetch and save\<close>

record vol_output =
  vol_tables :: "(string \<times> vol_table) list"
  term_rows :: "term_structure list"
  fear_rows :: "fear_row list"

definition fetch_and_save_volatility_data :: "vol_source \<Rightarrow> string \<Rightarrow> vol_output" where
  "fetch_and_save_volatility_data S period =
     \<lparr>vol_tables = concat (map (\<lambda>(symbol, name). case fetch_volatility_data S symbol period of
                                                None \<Rightarrow> [] | Some t \<Rightarrow> [(name, t)]) volatility_tickers),
      term_rows = (case calculate_vix_term_structure S of None \<Rightarrow> [] | Some t \<Rightarrow> [t]),
      fear_rows = get_market_fear_indicators S\<rparr>"

section \<open>Well-formed tables and example sources\<close>

text \<open>A table is well formed when every column it has is as long as its Close column
  and it has exactly the columns the code adds for its symbol.\<close>

definition col_ok :: "nat \<Rightarrow> 'a list option \<Rightarrow> bool" where
  "col_ok n c = (case c of None \<Rightarrow> True | Some xs \<Rightarrow> length xs = n)"

definition vol_table_wf :: "vol_table \<Rightarrow> bool" where
  "vol_table_wf t =
     (let n = length (vt_close t); realised = vt_symbol t \<notin> set vix_indices; vix = (vt_symbol t = ''^VIX'')
      in 0 < n \<and> col_ok n (vol_30d t) \<and> col_ok n (vol_10d t) \<and> col_ok n (vix_percentile_30d t) \<and>
         col_ok n (vix_percentile_90d t) \<and> col_ok n (vix_ma_10 t) \<and> col_ok n (vix_ma_20 t) \<and>
         col_ok n (fear_col t) \<and>
         (vol_30d t \<noteq> None \<longleftrightarrow> realised) \<and> (vol_10d t \<noteq> None \<longleftrightarrow> realised) \<and>
         (vix_percentile_30d t \<noteq> None \<longleftrightarrow> vix) \<and> (vix_percentile_90d t \<noteq> None \<longleftrightarrow> vix) \<and>
         (vix_ma_10 t \<noteq> None \<longleftrightarrow> vix) \<and> (vix_ma_20 t \<noteq> None \<longleftrightarrow> vix) \<and> (fear_col t \<noteq> None \<longleftrightarrow> vix))"

text \<open>A source on which the 9-day VIX request raises, and the same source with an
  empty 9-day history.\<close>

definition ex_vol :: vol_source where
  "ex_vol = \<lparr>history_of = (\<lambda>s p i.
     if p = ''5d'' then (if s = ''^VIX9D'' then Inl RequestException
                         else if s = ''^VIX3M'' then Inr [21, 19] else Inr [20, 22])
     else if s = ''SPY'' then Inr [] else Inr [15, 25])\<rparr>"

definition ex_vol_ok :: vol_source where
  "ex_vol_ok = \<lparr>history_of = (\<lambda>s p i.
     if p = ''5d'' \<and> s = ''^VIX9D'' then Inr [] else history_of ex_vol s p i)\<rparr>"

section \<open>Lemmas\<close>

lemma length_rolling [simp]: "length (rolling w f xs) = length xs"
  by (simp add: rolling_def)

lemma rolling_nth:
  "i < length xs \<Longrightarrow> rolling w f xs ! i = (if Suc i < w then NaN else f (window w xs i))"
  by (simp add: rolling_def)

lemma length_window: "w \<le> Suc i \<Longrightarrow> i < length xs \<Longrightarrow> length (window w xs i) = w"
  by (simp add: window_def)

lemma window_nth:
  "w \<le> Suc i \<Longrightarrow> i < length xs \<Longrightarrow> j < w \<Longrightarrow> window w xs i ! j = xs ! (Suc i - w + j)"
  by (simp add: window_def)

lemma set_window: "set (window w xs i) \<subseteq> set xs"
  unfolding window_def by (meson order_trans set_drop_subset set_take_subset)

lemma length_pct_change [simp]: "length (pct_change xs) = length xs"
  by (cases xs) (simp_all add: pct_change_def)

lemma pct_change_nth_0: "xs \<noteq> [] \<Longrightarrow> pct_change xs ! 0 = NaN"
  by (simp add: pct_change_def)

lemma pct_change_nth:
  "0 < i \<Longrightarrow> i < length xs \<Longrightarrow>
   pct_change xs ! i = py_affine 1 (-1) (py_div (xs ! i) (xs ! (i - 1)))"
proof (cases xs)
  case Nil
  then show "0 < i \<Longrightarrow> i < length xs \<Longrightarrow> ?thesis" by simp
next
  case (Cons x ys)
  assume i: "0 < i" "i < length xs"
  then obtain k where k: "i = Suc k" by (cases i) auto
  have "map2 (\<lambda>p c. py_affine 1 (-1) (py_div c p)) (x # ys) ys ! k =
        py_affine 1 (-1) (py_div (ys ! k) ((x # ys) ! k))"
    using i k Cons by simp
  then show ?thesis using Cons k by (simp add: pct_change_def)
qed

lemma pct_change_fin:
  "\<forall>c\<in>set xs. 0 < c \<Longrightarrow> 0 < i \<Longrightarrow> i < length xs \<Longrightarrow> is_fin (pct_change xs ! i)"
proof -
  assume a: "\<forall>c\<in>set xs. 0 < c" "0 < i" "i < length xs"
  then have "0 < xs ! (i - 1)" by simp
  then have d: "py_div (xs ! i) (xs ! (i - 1)) = Fin (xs ! i / xs ! (i - 1))"
    by (simp add: py_div_def)
  show ?thesis using a pct_change_nth [of i xs] unfolding d by (simp add: py_affine_def)
qed

lemma sample_std_range:
  "sample_std xs = NaN \<or> (\<exists>r. sample_std xs = Fin r \<and> 0 \<le> r)"
  by (auto simp: sample_std_def intro!: divide_nonneg_nonneg sum_list_nonneg)

lemma window_std_range:
  "window_std ps = NaN \<or> (\<exists>r. window_std ps = Fin r \<and> 0 \<le> r)"
  using sample_std_range [of "map fin_val ps"] by (simp add: window_std_def)

lemma annualise_range:
  "p = NaN \<or> (\<exists>r. p = Fin r \<and> 0 \<le> r) \<Longrightarrow>
   annualise p = NaN \<or> (\<exists>r. annualise p = Fin r \<and> 0 \<le> r)"
  by (auto simp: annualise_def py_affine_def)

lemma window_has_first:
  "0 < w \<Longrightarrow> Suc i = w \<Longrightarrow> i < length xs \<Longrightarrow> xs ! 0 \<in> set (window w xs i)"
  using nth_mem [of 0 "take w xs"] by (simp add: window_def)

lemma rolling_volatility_nth:
  "i < length cs \<Longrightarrow> rolling_volatility w cs ! i =
     annualise (if Suc i < w then NaN else window_std (window w (pct_change cs) i))"
  by (simp add: rolling_volatility_def rolling_nth)

lemma rolling_volatility_warmup:
  assumes "i < length cs" "i < w"
  shows "rolling_volatility w cs ! i = NaN"
proof (cases "Suc i < w")
  case True
  then show ?thesis using assms by (simp add: rolling_volatility_nth annualise_def py_affine_def)
next
  case False
  then have w: "Suc i = w" using assms(2) by simp
  have "pct_change cs ! 0 \<in> set (window w (pct_change cs) i)"
    using window_has_first [of w i "pct_change cs"] w assms(1) by simp
  moreover have "cs \<noteq> []" using assms(1) by auto
  then have "pct_change cs ! 0 = NaN" by (simp add: pct_change_nth_0)
  ultimately have "\<not> list_all is_fin (window w (pct_change cs) i)"
    by (metis is_fin.simps(4) list_all_iff)
  then show ?thesis using assms w
    by (simp add: rolling_volatility_nth window_std_def annualise_def py_affine_def)
qed

lemma rolling_volatility_fin:
  assumes "\<forall>c\<in>set cs. 0 < c" "2 \<le> w" "w \<le> i" "i < length cs"
  shows "is_fin (rolling_volatility w cs ! i)"
proof -
  let ?ws = "window w (pct_change cs) i"
  have "list_all is_fin ?ws"
    unfolding list_all_length
  proof (intro allI impI)
    fix j assume "j < length ?ws"
    then have j: "j < w" using assms by (simp add: length_window)
    then show "is_fin (?ws ! j)"
      using assms pct_change_fin [of cs "Suc i - w + j"] by (simp add: window_nth)
  qed
  moreover have "length (map fin_val ?ws) = w" using assms by (simp add: length_window)
  ultimately show ?thesis using assms
    by (simp add: rolling_volatility_nth window_std_def sample_std_def annualise_def py_affine_def)
qed

lemma collect_latest_keys:
  "collect_latest S ss = Inr vd \<Longrightarrow>
   map fst vd = filter (\<lambda>s. \<exists>cs. history_of S s ''5d'' ''1d'' = Inr cs \<and> cs \<noteq> []) ss"
proof (induction ss arbitrary: vd)
  case Nil
  then show ?case by simp
next
  case (Cons s ss)
  then obtain cs rest where h: "history_of S s ''5d'' ''1d'' = Inr cs" "collect_latest S ss = Inr rest"
      "vd = (if cs = [] then rest else (s, last cs) # rest)"
    by (auto simp: py_bind_eq_Inr split: sum.splits)
  then show ?case using Cons.IH [OF h(2)] by auto
qed

lemma collect_latest_vals:
  "collect_latest S ss = Inr vd \<Longrightarrow> (s, a) \<in> set vd \<Longrightarrow>
   \<exists>cs. history_of S s ''5d'' ''1d'' = Inr cs \<and> cs \<noteq> [] \<and> a = last cs"
proof (induction ss arbitrary: vd)
  case Nil
  then show ?case by simp
next
  case (Cons x ss)
  then obtain cs rest where h: "history_of S x ''5d'' ''1d'' = Inr cs" "collect_latest S ss = Inr rest"
      "vd = (if cs = [] then rest else (x, last cs) # rest)"
    by (auto simp: py_bind_eq_Inr split: sum.splits)
  then show ?case using Cons.IH [OF h(2)] Cons.prems(2) by (auto split: if_splits)
qed

lemma collect_latest_raise:
  "s \<in> set ss \<Longrightarrow> history_of S s ''5d'' ''1d'' = Inl e \<Longrightarrow> \<exists>e'. collect_latest S ss = Inl e'"
proof (induction ss)
  case Nil
  then show ?case by simp
next
  case (Cons x ss)
  show ?case
  proof (cases "history_of S x ''5d'' ''1d''")
    case (Inl e1)
    then show ?thesis by simp
  next
    case (Inr cs)
    then have "x \<noteq> s" using Cons.prems by auto
    then obtain e' where "collect_latest S ss = Inl e'" using Cons by auto
    then show ?thesis using Inr by simp
  qed
qed

lemma map_of_filter_count:
  assumes "distinct ss" "map fst vd = filter P ss"
  shows "length (filter (\<lambda>s. map_of vd s \<noteq> None) ss) = length vd"
proof -
  have "\<And>s. s \<in> set ss \<Longrightarrow> (map_of vd s \<noteq> None) = P s"
  proof -
    fix s assume "s \<in> set ss"
    have "(map_of vd s \<noteq> None) = (s \<in> set (map fst vd))" by (simp add: map_of_eq_None_iff)
    also have "\<dots> = P s" using assms(2) \<open>s \<in> set ss\<close> by simp
    finally show "(map_of vd s \<noteq> None) = P s" .
  qed
  then have "filter (\<lambda>s. map_of vd s \<noteq> None) ss = filter P ss" by (rule filter_cong [OF refl])
  then show ?thesis using arg_cong [OF assms(2), of length] by simp
qed

lemma term_structure_of_fields:
  "[vix_current (term_structure_of vd), vix9d (term_structure_of vd), vix3m (term_structure_of vd),
    vix6m (term_structure_of vd)] = map (map_of vd) term_structure_symbols"
  by (simp add: term_structure_of_def Let_def term_structure_symbols_def)

lemma term_structure_of_kind:
  "(ts_kind (term_structure_of vd) = Some Backwardation \<longleftrightarrow>
      (\<exists>a b. vix_current (term_structure_of vd) = Some a \<and> vix3m (term_structure_of vd) = Some b \<and> b < a)) \<and>
   (ts_kind (term_structure_of vd) = Some Contango \<longleftrightarrow>
      (\<exists>a b. vix_current (term_structure_of vd) = Some a \<and> vix3m (term_structure_of vd) = Some b \<and> a \<le> b)) \<and>
   (vix_vix3m_ratio (term_structure_of vd) \<noteq> None \<longleftrightarrow> ts_kind (term_structure_of vd) \<noteq> None)"
  by (auto simp: term_structure_of_def Let_def split: option.splits)

text \<open>C19: A term structure returned by \<open>calculate_vix_term_structure\<close> has at least two of its four levels; it is Backwardation exactly when VIX and VIX3M are both present and VIX is the larger, Contango when both are present and VIX is not larger, and it has a ratio exactly when it has a kind; its VIX level is the latest 5-day close of ^VIX.\<close>

lemma calculate_vix_term_structure_kind:
  assumes "calculate_vix_term_structure S = Some t"
  shows "2 \<le> length (filter (\<lambda>v. v \<noteq> None) [vix_current t, vix9d t, vix3m t, vix6m t]) \<and>
    (ts_kind t = Some Backwardation \<longleftrightarrow> (\<exists>a b. vix_current t = Some a \<and> vix3m t = Some b \<and> b < a)) \<and>
    (ts_kind t = Some Contango \<longleftrightarrow> (\<exists>a b. vix_current t = Some a \<and> vix3m t = Some b \<and> a \<le> b)) \<and>
    (vix_vix3m_ratio t \<noteq> None \<longleftrightarrow> ts_kind t \<noteq> None) \<and>
    (\<forall>a. vix_current t = Some a \<longrightarrow>
       (\<exists>cs. history_of S ''^VIX'' ''5d'' ''1d'' = Inr cs \<and> cs \<noteq> [] \<and> a = last cs))"
proof -
  obtain vd where vd: "collect_latest S term_structure_symbols = Inr vd" "2 \<le> length vd"
      "t = term_structure_of vd"
    using assms by (auto simp: calculate_vix_term_structure_def split: sum.splits if_splits)
  have keys: "map fst vd = filter (\<lambda>s. \<exists>cs. history_of S s ''5d'' ''1d'' = Inr cs \<and> cs \<noteq> [])
      term_structure_symbols"
    using collect_latest_keys [OF vd(1)] .
  have d: "distinct term_structure_symbols" by (simp add: term_structure_symbols_def)
  have cnt: "length (filter (\<lambda>v. v \<noteq> None) (map (map_of vd) term_structure_symbols)) = length vd"
    using map_of_filter_count [OF d keys] by (simp add: filter_map comp_def)
  have cur: "vix_current t = map_of vd ''^VIX''" by (simp add: vd(3) term_structure_of_def Let_def)
  have "\<forall>a. vix_current t = Some a \<longrightarrow>
       (\<exists>cs. history_of S ''^VIX'' ''5d'' ''1d'' = Inr cs \<and> cs \<noteq> [] \<and> a = last cs)"
    using collect_latest_vals [OF vd(1)] map_of_SomeD unfolding cur by metis
  then show ?thesis
    using cnt vd(2) term_structure_of_kind [of vd] term_structure_of_fields [of vd] unfolding vd(3)
    by simp
qed

text \<open>C20: One exception among the four history requests of \<open>calculate_vix_term_structure\<close> loses the whole term structure, even when the other symbols answer.\<close>

lemma calculate_vix_term_structure_one_failure:
  assumes "s \<in> set term_structure_symbols" "history_of S s ''5d'' ''1d'' = Inl e"
  shows "calculate_vix_term_structure S = None"
  using collect_latest_raise [OF assms]
  by (auto simp: calculate_vix_term_structure_def)

lemma fetch_volatility_data_Some:
  "fetch_volatility_data S symbol p = Some t \<Longrightarrow>
   \<exists>cs. history_of S symbol p ''1d'' = Inr cs \<and> cs \<noteq> [] \<and> t = vol_table_of symbol cs"
  by (auto simp: fetch_volatility_data_def split: sum.splits list.splits)

lemma vol_table_of_wf: "cs \<noteq> [] \<Longrightarrow> vt_symbol (vol_table_of symbol cs) = symbol \<and> vol_table_wf (vol_table_of symbol cs)"
  by (simp add: vol_table_of_def vol_table_wf_def Let_def col_ok_def rolling_volatility_def
      rolling_mean_def rolling_rank_pct_def)

lemma fetch_volatility_data_wf:
  "fetch_volatility_data S symbol p = Some t \<Longrightarrow> vt_symbol t = symbol \<and> vol_table_wf t"
  using fetch_volatility_data_Some vol_table_of_wf by blast

lemma vol_tables_mem:
  "(name, t) \<in> set (vol_tables (fetch_and_save_volatility_data S p)) \<Longrightarrow>
   \<exists>symbol. (symbol, name) \<in> set volatility_tickers \<and> fetch_volatility_data S symbol p = Some t"
  by (auto simp: fetch_and_save_volatility_data_def split: option.splits)

text \<open>C21: Every table written by \<open>fetch_and_save_volatility_data\<close> is well formed (non-empty, every added column as long as the closes, realised volatility exactly for the non-VIX-index symbols, the VIX columns exactly for ^VIX) and is saved under the name the ticker dict gives its symbol.\<close>

lemma fetch_and_save_volatility_data_wf:
  assumes "(name, t) \<in> set (vol_tables (fetch_and_save_volatility_data S p))"
  shows "vol_table_wf t \<and> (vt_symbol t, name) \<in> set volatility_tickers"
  using vol_tables_mem [OF assms] fetch_volatility_data_wf by blast

lemma pd_cut_fear_threshold: "pd_cut_fear c = (if 0 < c then Some (fear_level_of c) else None)"
  by (simp add: pd_cut_fear_def fear_level_of_def)

text \<open>C22: The fear level of \<open>get_market_fear_indicators\<close> (a threshold chain) agrees with the last \<open>pd.cut\<close> label of the ^VIX table of \<open>fetch_volatility_data\<close> on the same 20-year history whenever the current VIX is positive, and its percentile lies in (0, 100].\<close>

lemma fear_indicators_agree:
  assumes "fetch_volatility_data S ''^VIX'' ''20y'' = Some t"
    "r \<in> set (get_market_fear_indicators S)" "0 < fr_vix_current r"
  shows "\<exists>fs. fear_col t = Some fs \<and> last fs = Some (fr_fear_level r) \<and>
    0 < fr_vix_percentile r \<and> fr_vix_percentile r \<le> 100"
proof -
  obtain vs where vs: "history_of S ''^VIX'' ''20y'' ''1d'' = Inr vs" "vs \<noteq> []"
      "t = vol_table_of ''^VIX'' vs"
    using fetch_volatility_data_Some [OF assms(1)] by blast
  have fc: "fear_col t = Some (map pd_cut_fear vs)" by (simp add: vs(3) vol_table_of_def Let_def)
  obtain ss where "history_of S ''SPY'' ''20y'' ''1d'' = Inr ss" "r = fear_row_of vs ss"
    using assms(2) vs(1,2)
    by (cases vs; cases "history_of S ''SPY'' ''20y'' ''1d''") (auto simp: get_market_fear_indicators_def)
  then have r: "fr_vix_current r = last vs" "fr_fear_level r = fear_level_of (last vs)"
      "fr_vix_percentile r = rank_pct_last vs * 100"
    by (simp_all add: fear_row_of_def Let_def)
  have "last (map pd_cut_fear vs) = Some (fr_fear_level r)"
    using vs(2) r(1,2) assms(3) by (simp add: last_map pd_cut_fear_threshold)
  then show ?thesis using fc r(3) rank_pct_last_bounds [OF vs(2)] by simp
qed

lemma rolling_volatility_range:
  "i < length cs \<Longrightarrow>
   rolling_volatility w cs ! i = NaN \<or> (\<exists>r. rolling_volatility w cs ! i = Fin r \<and> 0 \<le> r)"
  using annualise_range [OF window_std_range [of "window w (pct_change cs) i"]]
  by (simp add: rolling_volatility_nth annualise_def py_affine_def)

text \<open>C23: The realised-volatility columns of \<open>fetch_volatility_data\<close> are NaN or non-negative; their first w entries are NaN (the warm-up of the window and the NaN that starts \<open>pct_change\<close>); and from position w on they are finite when every close is positive and w \<open>\<ge>\<close> 2.\<close>

lemma rolling_volatility_bounds:
  "i < length cs \<Longrightarrow>
   (rolling_volatility w cs ! i = NaN \<or> (\<exists>r. rolling_volatility w cs ! i = Fin r \<and> 0 \<le> r)) \<and>
   (i < w \<longrightarrow> rolling_volatility w cs ! i = NaN) \<and>
   ((\<forall>c\<in>set cs. 0 < c) \<and> 2 \<le> w \<and> w \<le> i \<longrightarrow> is_fin (rolling_volatility w cs ! i))"
  using rolling_volatility_range rolling_volatility_warmup rolling_volatility_fin by blast

lemma rolling_volatility_bounds_witness:
  "2 < length [100, 101, 102 :: real] \<and> 1 < length [100, 101, 102 :: real] \<and>
   is_fin (rolling_volatility 2 [100, 101, 102] ! 2) \<and> rolling_volatility 2 [100, 101, 102] ! 1 = NaN"
proof -
  have h: "2 < length [100, 101, 102 :: real]" "1 < length [100, 101, 102 :: real]" by simp_all
  show ?thesis
    using h rolling_volatility_bounds [OF h(1), of 2] rolling_volatility_bounds [OF h(2), of 2] by simp
qed

lemma ex_vol_ok_term_structure:
  "calculate_vix_term_structure ex_vol_ok =
     Some (term_structure_of [(''^VIX'', 22), (''^VIX3M'', 19), (''^VIX6M'', 22)])"
  by (simp add: calculate_vix_term_structure_def term_structure_symbols_def ex_vol_ok_def ex_vol_def)

lemma calculate_vix_term_structure_kind_witness:
  "calculate_vix_term_structure ex_vol_ok =
     Some (term_structure_of [(''^VIX'', 22), (''^VIX3M'', 19), (''^VIX6M'', 22)]) \<and>
   ts_kind (term_structure_of [(''^VIX'', 22), (''^VIX3M'', 19), (''^VIX6M'', 22)]) = Some Backwardation \<and>
   vix_vix3m_ratio (term_structure_of [(''^VIX'', 22), (''^VIX3M'', 19), (''^VIX6M'', 22)]) \<noteq> None"
proof -
  have k: "\<exists>a b. vix_current (term_structure_of [(''^VIX'', 22), (''^VIX3M'', 19), (''^VIX6M'', 22)]) = Some a
      \<and> vix3m (term_structure_of [(''^VIX'', 22), (''^VIX3M'', 19), (''^VIX6M'', 22)]) = Some b \<and> b < a"
    by (simp add: term_structure_of_def)
  show ?thesis using ex_vol_ok_term_structure calculate_vix_term_structure_kind [OF ex_vol_ok_term_structure] k
    by blast
qed

lemma calculate_vix_term_structure_one_failure_witness:
  "''^VIX9D'' \<in> set term_structure_symbols \<and>
   history_of ex_vol ''^VIX9D'' ''5d'' ''1d'' = Inl RequestException \<and>
   history_of ex_vol ''^VIX'' ''5d'' ''1d'' = Inr [20, 22] \<and>
   history_of ex_vol ''^VIX3M'' ''5d'' ''1d'' = Inr [21, 19] \<and>
   calculate_vix_term_structure ex_vol = None"
proof -
  have h: "''^VIX9D'' \<in> set term_structure_symbols"
      "history_of ex_vol ''^VIX9D'' ''5d'' ''1d'' = Inl RequestException"
    by (simp_all add: term_structure_symbols_def ex_vol_def)
  have "history_of ex_vol ''^VIX'' ''5d'' ''1d'' = Inr [20, 22]"
      "history_of ex_vol ''^VIX3M'' ''5d'' ''1d'' = Inr [21, 19]"
    by (simp_all add: ex_vol_def)
  then show ?thesis using h calculate_vix_term_structure_one_failure [OF h] by blast
qed

lemma ex_vol_tables:
  "(''VIX'', vol_table_of ''^VIX'' [15, 25]) \<in> set (vol_tables (fetch_and_save_volatility_data ex_vol ''20y''))"
  by (simp add: fetch_and_save_volatility_data_def volatility_tickers_def py_dict_def
      fetch_volatility_data_def ex_vol_def)

lemma fetch_and_save_volatility_data_wf_witness:
  "(''VIX'', vol_table_of ''^VIX'' [15, 25]) \<in> set (vol_tables (fetch_and_save_volatility_data ex_vol ''20y'')) \<and>
   vol_table_wf (vol_table_of ''^VIX'' [15, 25]) \<and>
   (vt_symbol (vol_table_of ''^VIX'' [15, 25]), ''VIX'') \<in> set volatility_tickers"
  using ex_vol_tables fetch_and_save_volatility_data_wf [OF ex_vol_tables] by blast

lemma ex_vol_fear:
  "fetch_volatility_data ex_vol ''^VIX'' ''20y'' = Some (vol_table_of ''^VIX'' [15, 25]) \<and>
   fear_row_of [15, 25] [] \<in> set (get_market_fear_indicators ex_vol) \<and>
   0 < fr_vix_current (fear_row_of [15, 25] [])"
proof -
  have "fr_vix_current (fear_row_of [15, 25] []) = 25" by (simp add: fear_row_of_def Let_def)
  then show ?thesis
    by (simp add: fetch_volatility_data_def get_market_fear_indicators_def ex_vol_def)
qed

lemma fear_indicators_agree_witness:
  "fetch_volatility_data ex_vol ''^VIX'' ''20y'' = Some (vol_table_of ''^VIX'' [15, 25]) \<and>
   fear_row_of [15, 25] [] \<in> set (get_market_fear_indicators ex_vol) \<and>
   0 < fr_vix_current (fear_row_of [15, 25] []) \<and>
   (\<exists>fs. fear_col (vol_table_of ''^VIX'' [15, 25]) = Some fs \<and>
      last fs = Some (fr_fear_level (fear_row_of [15, 25] [])) \<and>
      0 < fr_vix_percentile (fear_row_of [15, 25] []) \<and> fr_vix_percentile (fear_row_of [15, 25] []) \<le> 100)"
  using ex_vol_fear fear_indicators_agree [of ex_vol "vol_table_of ''^VIX'' [15, 25]" "fear_row_of [15, 25] []"]
  by blast

end
