(* ===== verification/Economic.thy ===== *)
theory Economic
  imports Archive Xml_Parser
begin

text \<open>
  The FRED fetcher \<open>economic_indicators.py\<close> (class \<open>EconomicIndicatorsFetcher\<close>).
  The API key is \<open>fred_api_key\<close> (absent or empty means no key); \<open>requests.get\<close> on the
  observations endpoint is \<open>fred_get\<close>, a function of the request URL giving
  \<open>Raised\<close> or a status and a body whose \<open>json()\<close> may raise; a body is the list of
  (date, value) strings of its \<open>observations\<close> (\<open>[]\<close> when the key is missing).
  \<open>pd.to_numeric(errors='coerce')\<close> is the decimal reading \<open>py_float_numeric\<close> of the XML
  parser, NaN (dropped) otherwise; FRED writes plain decimals and "." for a missing
  value. Dates are ISO strings, so sorting by date is sorting the strings. Every
  request is recorded in the trace as \<open>Get\<close> of its URL, every \<open>time.sleep\<close> as
  \<open>Sleep\<close> in milliseconds; the \<open>timestamp\<close> fields are omitted.
\<close>

section \<open>Source, series and \<open>get_fred_data\<close>\<close>

record fred_source =
  fred_api_key :: "string option"
  fred_get :: "string \<Rightarrow> (py_exc + (string \<times> string) list) response"

definition fred_base_url :: string where
  "fred_base_url = ''https://api.stlouisfed.org/fred''"

definition indicators :: "(string \<times> string) list" where
  "indicators = py_dict
     [(''FEDFUNDS'', ''Federal Funds Rate''), (''DGS10'', ''10-Year Treasury Rate''),
      (''DGS2'', ''2-Year Treasury Rate''), (''DGS30'', ''30-Year Treasury Rate''),
      (''DGS3MO'', ''3-Month Treasury Rate''), (''CPIAUCSL'', ''Consumer Price Index''),
      (''CPILFESL'', ''Core CPI (Less Food & Energy)''), (''PCEPI'', ''PCE Price Index''),
      (''PCEPILFE'', ''Core PCE Price Index''), (''UNRATE'', ''Unemployment Rate''),
      (''PAYEMS'', ''Total Nonfarm Payrolls''), (''CIVPART'', ''Labor Force Participation Rate''),
      (''EMRATIO'', ''Employment-Population Ratio''), (''GDP'', ''Gross Domestic Product''),
      (''GDPC1'', ''Real GDP''), (''GDPPOT'', ''Real Potential GDP''),
      (''UMCSENT'', ''University of Michigan Consumer Sentiment''), (''HOUST'', ''Housing Starts''),
      (''INDPRO'', ''Industrial Production Index''), (''RETAILSA'', ''Retail Sales''),
      (''M1SL'', ''M1 Money Stock''), (''M2SL'', ''M2 Money Stock''), (''BOGMBASE'', ''Monetary Base''),
      (''VIXCLS'', ''VIX Close''), (''DEXUSEU'', ''US/Euro Exchange Rate''),
      (''DEXJPUS'', ''Japan/US Exchange Rate''), (''GOLDAMGBD228NLBM'', ''Gold Price''),
      (''DCOILWTICO'', ''WTI Oil Price'')]"

text \<open>The URL \<open>requests\<close> builds from the endpoint and the \<open>params\<close> dict, in its order.\<close>

definition fred_url :: "string \<Rightarrow> string \<Rightarrow> nat \<Rightarrow> string" where
  "fred_url key series limit =
     fred_base_url @ ''/series/observations?series_id='' @ series @ ''&api_key='' @ key @
     ''&file_type=json&limit='' @ show_nat limit @ ''&sort_order=desc''"

text \<open>\<open>if not self.fred_api_key\<close>: the key, when it is present and not empty.\<close>

definition fred_key :: "fred_source \<Rightarrow> string option" where
  "fred_key S = (case fred_api_key S of Some k \<Rightarrow> if k = [] then None else Some k | None \<Rightarrow> None)"

record fred_frame =
  ff_obs :: "(string \<times> real) list"
  ff_series_id :: string
  ff_series_name :: string

text \<open>Lines 89-92: numeric coercion, \<open>dropna\<close> on the value, sort by date.\<close>

definition clean_observations :: "(string \<times> string) list \<Rightarrow> (string \<times> real) list" where
  "clean_observations obs =
     sort_key fst (concat (map (\<lambda>(d, v). case py_float_numeric v of None \<Rightarrow> [] | Some x \<Rightarrow> [(d, x)]) obs))"

definition get_fred_data :: "fred_source \<Rightarrow> string \<Rightarrow> nat \<Rightarrow> fred_frame option \<times> event list" where
  "get_fred_data S series limit =
     (case fred_key S of
        None \<Rightarrow> (None, [])
      | Some k \<Rightarrow>
          (let url = fred_url k series limit
           in (case fred_get S url of
                 Raised \<Rightarrow> None
               | Response st body \<Rightarrow>
                   if st \<noteq> 200 then None
                   else (case body of
                           Inl e \<Rightarrow> None
                         | Inr obs \<Rightarrow>
                             if obs = [] then None
                             else Some \<lparr>ff_obs = clean_observations obs, ff_series_id = series,
                                        ff_series_name = py_get indicators series series\<rparr>),
               [Get url])))"

text \<open>The column \<open>data['value']\<close> of a fetched frame that is not empty, as the loops
  of the four indicator groups read it (\<open>data is not None and not data.empty\<close>).\<close>

definition frame_values :: "fred_frame option \<Rightarrow> real list option" where
  "frame_values d = (case d of None \<Rightarrow> None
                     | Some df \<Rightarrow> if ff_obs df = [] then None else Some (map snd (ff_obs df)))"

text \<open>One loop over a series list: fetch each series with the group's \<open>limit\<close> and
  add the group's dict entries for it.\<close>

fun fred_collect ::
  "fred_source \<Rightarrow> nat \<Rightarrow> (string \<Rightarrow> real list \<Rightarrow> 'a list) \<Rightarrow> string list \<Rightarrow> 'a list \<times> event list" where
  "fred_collect S cap f [] = ([], [])"
| "fred_collect S cap f (s # ss) =
     (let (d, t) = get_fred_data S s cap; (rest, t') = fred_collect S cap f ss
      in ((case frame_values d of None \<Rightarrow> [] | Some vs \<Rightarrow> f s vs) @ rest, t @ t'))"

section \<open>Yield curve\<close>

definition rate_series :: "string list" where
  "rate_series = [''DGS3MO'', ''DGS2'', ''DGS10'', ''DGS30'']"

record yield_curve =
  treasury_3mo :: "real option"
  treasury_2yr :: "real option"
  treasury_10yr :: "real option"
  treasury_30yr :: "real option"
  yield_curve_2_10 :: "real option"
  inverted_2_10 :: "bool option"
  yield_curve_3mo_10yr :: "real option"
  inverted_3mo_10yr :: "bool option"

definition yield_curve_of :: "(string \<times> real) list \<Rightarrow> yield_curve" where
  "yield_curve_of rates =
     (let r = map_of rates
      in \<lparr>treasury_3mo = r ''DGS3MO'', treasury_2yr = r ''DGS2'', treasury_10yr = r ''DGS10'',
          treasury_30yr = r ''DGS30'',
          yield_curve_2_10 = (case (r ''DGS10'', r ''DGS2'') of (Some a, Some b) \<Rightarrow> Some (a - b) | _ \<Rightarrow> None),
          inverted_2_10 = (case (r ''DGS10'', r ''DGS2'') of (Some a, Some b) \<Rightarrow> Some (a < b) | _ \<Rightarrow> None),
          yield_curve_3mo_10yr = (case (r ''DGS10'', r ''DGS3MO'') of (Some a, Some b) \<Rightarrow> Some (a - b) | _ \<Rightarrow> None),
          inverted_3mo_10yr = (case (r ''DGS10'', r ''DGS3MO'') of (Some a, Some b) \<Rightarrow> Some (a < b) | _ \<Rightarrow> None)\<rparr>)"

definition calculate_yield_curve :: "fred_source \<Rightarrow> yield_curve option \<times> event list" where
  "calculate_yield_curve S =
     (let (rates, t) = fred_collect S 30 (\<lambda>s vs. [(s, last vs)]) rate_series
      in (if 2 \<le> length rates then Some (yield_curve_of rates) else None, t))"

section \<open>Inflation\<close>

definition inflation_series :: "string list" where
  "inflation_series = [''CPIAUCSL'', ''CPILFESL'', ''PCEPI'', ''PCEPILFE'']"

text \<open>Lines 155-161: the latest value and its change against \<open>iloc[-12]\<close>, or the
  first value of a shorter series.\<close>

definition inflation_entry :: "string \<Rightarrow> real list \<Rightarrow> (string \<times> real \<times> pyfloat) list" where
  "inflation_entry s vs =
     (let latest = last vs; year_ago = (if 12 \<le> length vs then vs ! (length vs - 12) else hd vs)
      in [(s, latest, py_affine 100 0 (py_div (latest - year_ago) year_ago))])"

record inflation_metrics =
  inflation_values :: "(string \<times> real \<times> pyfloat) list"
  above_fed_target :: "bool option"
  distance_from_target :: "pyfloat option"

definition inflation_metrics_of :: "(string \<times> real \<times> pyfloat) list \<Rightarrow> inflation_metrics" where
  "inflation_metrics_of d =
     (let p = map_of (map (\<lambda>(s, c, y). (s, y)) d) ''PCEPI''
      in \<lparr>inflation_values = d, above_fed_target = map_option (py_lt (Fin 2)) p,
          distance_from_target = map_option (py_affine 1 (-2)) p\<rparr>)"

definition get_inflation_metrics :: "fred_source \<Rightarrow> inflation_metrics option \<times> event list" where
  "get_inflation_metrics S =
     (let (d, t) = fred_collect S 24 inflation_entry inflation_series
      in (if d = [] then None else Some (inflation_metrics_of d), t))"

section \<open>Employment\<close>

definition employment_series :: "string list" where
  "employment_series = [''UNRATE'', ''PAYEMS'', ''CIVPART'', ''EMRATIO'']"

datatype trend = Improving | Deteriorating

definition employment_entry :: "string \<Rightarrow> real list \<Rightarrow> (string \<times> real \<times> trend option) list" where
  "employment_entry s vs =
     [(s, last vs,
       if 3 \<le> length vs
       then Some (if py_mean (drop (length vs - 3) vs) > py_mean (drop (length vs - 6) vs)
                  then Improving else Deteriorating)
       else None)]"

definition get_employment_indicators ::
  "fred_source \<Rightarrow> (string \<times> real \<times> trend option) list option \<times> event list" where
  "get_employment_indicators S =
     (let (d, t) = fred_collect S 12 employment_entry employment_series
      in (if d = [] then None else Some d, t))"

section \<open>Market sentiment\<close>

definition sentiment_series :: "string list" where
  "sentiment_series = [''UMCSENT'', ''VIXCLS'', ''GOLDAMGBD228NLBM'', ''DCOILWTICO'']"

definition sentiment_entry :: "string \<Rightarrow> real list \<Rightarrow> (string \<times> real \<times> pyfloat option) list" where
  "sentiment_entry s vs =
     [(s, last vs,
       if 30 \<le> length vs
       then Some (let m = vs ! (length vs - 30) in py_affine 100 0 (py_div (last vs - m) m))
       else None)]"

definition get_market_sentiment_indicators ::
  "fred_source \<Rightarrow> (string \<times> real \<times> pyfloat option) list option \<times> event list" where
  "get_market_sentiment_indicators S =
     (let (d, t) = fred_collect S 30 sentiment_entry sentiment_series
      in (if d = [] then None else Some d, t))"

section \<open>Dashboard and fetch loop\<close>

record dashboard =
  db_yield_curve :: "yield_curve option"
  db_inflation :: "inflation_metrics option"
  db_employment :: "(string \<times> real \<times> trend option) list option"
  db_sentiment :: "(string \<times> real \<times> pyfloat option) list option"
  recession_signal_yield_curve :: "bool option"
  unemployment_elevated :: "bool option"

definition create_economic_dashboard :: "fred_source \<Rightarrow> dashboard \<times> event list" where
  "create_economic_dashboard S =
     (let (yc, t1) = calculate_yield_curve S; (inf, t2) = get_inflation_metrics S;
          (emp, t3) = get_employment_indicators S; (sen, t4) = get_market_sentiment_indicators S
      in (\<lparr>db_yield_curve = yc, db_inflation = inf, db_employment = emp, db_sentiment = sen,
           recession_signal_yield_curve = (case yc of None \<Rightarrow> None | Some y \<Rightarrow> inverted_2_10 y),
           unemployment_elevated =
             (case emp of None \<Rightarrow> None
              | Some e \<Rightarrow> map_option (\<lambda>c. c > 5) (map_of (map (\<lambda>(s, c, _). (s, c)) e) ''UNRATE''))\<rparr>,
          t1 @ t2 @ t3 @ t4))"

text \<open>The file name of line 295.\<close>

definition series_file :: "string \<Rightarrow> string \<Rightarrow> string" where
  "series_file s name =
     s @ ''_'' @ map (\<lambda>c. if c = CHR '' '' \<or> c = CHR ''/'' then CHR ''_'' else c) name @ ''.csv''"

record econ_output =
  series_tables :: "(string \<times> fred_frame) list"
  dashboard_rows :: "dashboard list"

definition fetch_and_save_economic_data :: "fred_source \<Rightarrow> econ_output \<times> event list" where
  "fetch_and_save_economic_data S =
     (let rs = map (\<lambda>(s, name). let (d, t) = get_fred_data S s 10000
                                 in (case d of None \<Rightarrow> [] | Some df \<Rightarrow> [(series_file s name, df)],
                                     t @ [Sleep 500])) indicators;
          (db, t) = create_economic_dashboard S
      in (\<lparr>series_tables = concat (map fst rs), dashboard_rows = [db]\<rparr>, concat (map snd rs) @ t))"

section \<open>Request plan and example sources\<close>

text \<open>The requests of the dashboard, in the order of its four groups, and the
  dashboard of a run in which every group is empty.\<close>

definition dashboard_requests :: "(string \<times> nat) list" where
  "dashboard_requests =
     map (\<lambda>s. (s, 30)) rate_series @ map (\<lambda>s. (s, 24)) inflation_series @
     map (\<lambda>s. (s, 12)) employment_series @ map (\<lambda>s. (s, 30)) sentiment_series"

definition empty_dashboard :: dashboard where
  "empty_dashboard = \<lparr>db_yield_curve = None, db_inflation = None, db_employment = None,
     db_sentiment = None, recession_signal_yield_curve = None, unemployment_elevated = None\<rparr>"

text \<open>A FRED source with a key that answers the 24-month CPI request with 13 monthly
  values and the 12-month unemployment request with six rising rates, newest first.\<close>

definition ex_cpi_obs :: "(string \<times> string) list" where
  "ex_cpi_obs = [(''2023-06-01'', ''100.0''), (''2023-07-01'', ''101.0''), (''2023-08-01'', ''102.0''),
     (''2023-09-01'', ''103.0''), (''2023-10-01'', ''104.0''), (''2023-11-01'', ''105.0''),
     (''2023-12-01'', ''106.0''), (''2024-01-01'', ''107.0''), (''2024-02-01'', ''108.0''),
     (''2024-03-01'', ''109.0''), (''2024-04-01'', ''110.0''), (''2024-05-01'', ''111.0''),
     (''2024-06-01'', ''112.0'')]"

definition ex_unrate_obs :: "(string \<times> string) list" where
  "ex_unrate_obs = [(''2024-06-01'', ''4.4''), (''2024-05-01'', ''4.2''), (''2024-04-01'', ''4.0''),
     (''2024-03-01'', ''3.8''), (''2024-02-01'', ''3.6''), (''2024-01-01'', ''3.4'')]"

definition ex_fred :: fred_source where
  "ex_fred = \<lparr>fred_api_key = Some ''KEY'',
     fred_get = (\<lambda>url. if url = fred_url ''KEY'' ''CPIAUCSL'' 24 then Response 200 (Inr ex_cpi_obs)
                       else if url = fred_url ''KEY'' ''UNRATE'' 12 then Response 200 (Inr ex_unrate_obs)
                       else Response 500 (Inr []))\<rparr>"

definition ex_fred_nokey :: fred_source where
  "ex_fred_nokey = ex_fred\<lparr>fred_api_key := Some []\<rparr>"

section \<open>Lemmas\<close>

lemma get_fred_data_trace:
  "snd (get_fred_data S s cap) = (case fred_key S of None \<Rightarrow> [] | Some k \<Rightarrow> [Get (fred_url k s cap)])"
  by (simp add: get_fred_data_def Let_def split: option.splits)

lemma get_fred_data_no_key: "fred_key S = None \<Longrightarrow> get_fred_data S s cap = (None, [])"
  by (simp add: get_fred_data_def)

lemma fred_collect_trace:
  "snd (fred_collect S cap f ss) = concat (map (\<lambda>s. snd (get_fred_data S s cap)) ss)"
  by (induction ss) (simp_all add: split_def Let_def)

lemma fred_collect_entries:
  "fst (fred_collect S cap f ss) =
     concat (map (\<lambda>s. case frame_values (fst (get_fred_data S s cap)) of None \<Rightarrow> [] | Some vs \<Rightarrow> f s vs) ss)"
  by (induction ss) (simp_all add: split_def Let_def)

lemma fred_collect_mem:
  "x \<in> set (fst (fred_collect S cap f ss)) \<Longrightarrow>
   \<exists>s vs. s \<in> set ss \<and> frame_values (fst (get_fred_data S s cap)) = Some vs \<and> x \<in> set (f s vs)"
proof -
  assume "x \<in> set (fst (fred_collect S cap f ss))"
  then obtain s where s: "s \<in> set ss"
      "x \<in> set (case frame_values (fst (get_fred_data S s cap)) of None \<Rightarrow> [] | Some vs \<Rightarrow> f s vs)"
    by (auto simp: fred_collect_entries)
  then show ?thesis by (cases "frame_values (fst (get_fred_data S s cap))") auto
qed

lemma create_economic_dashboard_trace:
  "snd (create_economic_dashboard S) =
     concat (map (\<lambda>(s, cap). snd (get_fred_data S s cap)) dashboard_requests)"
  by (simp add: create_economic_dashboard_def calculate_yield_curve_def get_inflation_metrics_def
      get_employment_indicators_def get_market_sentiment_indicators_def split_def Let_def
      fred_collect_trace dashboard_requests_def comp_def)

lemma throttled_Cons_tl: "throttled (e # es) \<Longrightarrow> throttled es"
  by (cases es; cases e; cases "hd es") simp_all

lemma throttled_append_right: "throttled (xs @ ys) \<Longrightarrow> throttled ys"
  by (induction xs) (auto dest: throttled_Cons_tl)

text \<open>C24: With an API key, \<open>fetch_and_save_economic_data\<close> requests every one of the 28 indicator series once with limit 10000, in the dict order, each followed by its 0.5 s sleep, and then issues the 16 requests of the dashboard back to back, so its trace is not throttled.\<close>

lemma fetch_and_save_economic_data_trace:
  assumes "fred_key S = Some k"
  shows "snd (fetch_and_save_economic_data S) =
      concat (map (\<lambda>(s, n). [Get (fred_url k s 10000), Sleep 500]) indicators) @
      map (\<lambda>(s, cap). Get (fred_url k s cap)) dashboard_requests \<and>
    \<not> throttled (snd (fetch_and_save_economic_data S))"
proof -
  have tr: "snd (fetch_and_save_economic_data S) =
      concat (map (\<lambda>(s, n). [Get (fred_url k s 10000), Sleep 500]) indicators) @
      map (\<lambda>(s, cap). Get (fred_url k s cap)) dashboard_requests"
    using create_economic_dashboard_trace [of S] assms
    by (simp add: fetch_and_save_economic_data_def split_def Let_def get_fred_data_trace comp_def
)
  have "\<not> throttled (map (\<lambda>(s, cap). Get (fred_url k s cap)) dashboard_requests)"
    by (simp add: dashboard_requests_def rate_series_def)
  then show ?thesis using tr throttled_append_right by metis
qed

text \<open>C25: Without an API key (absent or empty) no request is made, no series table is written, the loop still sleeps 0.5 s per indicator, and a dashboard row with no data is written.\<close>

lemma fetch_and_save_economic_data_no_key:
  assumes "fred_key S = None"
  shows "fetch_and_save_economic_data S =
    (\<lparr>series_tables = [], dashboard_rows = [empty_dashboard]\<rparr>, replicate 28 (Sleep 500))"
proof -
  have c: "fred_collect S cap f ss = ([], [])" for cap and f :: "string \<Rightarrow> real list \<Rightarrow> 'a list" and ss
    by (induction ss) (simp_all add: get_fred_data_no_key [OF assms] frame_values_def)
  have "length indicators = 28" by (simp add: indicators_def py_dict_def)
  then show ?thesis
    by (simp add: fetch_and_save_economic_data_def create_economic_dashboard_def get_fred_data_no_key [OF assms]
        calculate_yield_curve_def get_inflation_metrics_def get_employment_indicators_def
        get_market_sentiment_indicators_def c empty_dashboard_def split_def Let_def comp_def
        map_replicate_const)
qed

text \<open>C26: Each inflation entry of \<open>get_inflation_metrics\<close> carries the latest value of its series, and for a series of at least 12 values its year-over-year change is taken against \<open>iloc[-12]\<close>, the value 11 observations before the latest.\<close>

lemma get_inflation_metrics_year_ago:
  assumes "fst (get_inflation_metrics S) = Some m" "(s, c, y) \<in> set (inflation_values m)"
  shows "\<exists>vs. s \<in> set inflation_series \<and> frame_values (fst (get_fred_data S s 24)) = Some vs \<and>
    c = last vs \<and>
    (12 \<le> length vs \<longrightarrow> y = py_affine 100 0 (py_div (c - vs ! (length vs - 12)) (vs ! (length vs - 12))))"
proof -
  have "(s, c, y) \<in> set (fst (fred_collect S 24 inflation_entry inflation_series))"
    using assms by (auto simp: get_inflation_metrics_def inflation_metrics_of_def split_def Let_def
        split: if_splits)
  then obtain s' vs where "s' \<in> set inflation_series"
      "frame_values (fst (get_fred_data S s' 24)) = Some vs" "(s, c, y) \<in> set (inflation_entry s' vs)"
    by (blast dest: fred_collect_mem)
  then show ?thesis by (auto simp: inflation_entry_def Let_def)
qed

lemma ex_fred_key: "fred_key ex_fred = Some ''KEY''"
  by (simp add: fred_key_def ex_fred_def)

lemma ex_fred_get:
  "fred_get ex_fred (fred_url ''KEY'' ''CPIAUCSL'' 24) = Response 200 (Inr ex_cpi_obs)"
  "fred_get ex_fred (fred_url ''KEY'' ''UNRATE'' 12) = Response 200 (Inr ex_unrate_obs)"
  by (simp_all add: ex_fred_def fred_url_def)

lemma ex_fred_unrate:
  "frame_values (fst (get_fred_data ex_fred ''UNRATE'' 12)) = Some [3.4, 3.6, 3.8, 4.0, 4.2, 4.4]"
  by (simp add: get_fred_data_def ex_fred_key ex_fred_get ex_unrate_obs_def frame_values_def
      clean_observations_def xml_parser_simps py_simps Let_def)

lemma ex_fred_cpi:
  "frame_values (fst (get_fred_data ex_fred ''CPIAUCSL'' 24)) =
     Some [100, 101, 102, 103, 104, 105, 106, 107, 108, 109, 110, 111, 112]"
  by (simp add: get_fred_data_def ex_fred_key ex_fred_get ex_cpi_obs_def frame_values_def
      clean_observations_def xml_parser_simps py_simps Let_def)

lemma ex_fred_missing:
  "s \<in> {''CPILFESL'', ''PCEPI'', ''PCEPILFE'', ''PAYEMS'', ''CIVPART'', ''EMRATIO''} \<Longrightarrow>
   frame_values (fst (get_fred_data ex_fred s n)) = None"
proof -
  assume s: "s \<in> {''CPILFESL'', ''PCEPI'', ''PCEPILFE'', ''PAYEMS'', ''CIVPART'', ''EMRATIO''}"
  then have "fred_get ex_fred (fred_url ''KEY'' s n) = Response 500 (Inr [])"
    by (auto simp: ex_fred_def fred_url_def)
  then show ?thesis by (simp add: get_fred_data_def ex_fred_key frame_values_def)
qed

lemma get_inflation_metrics_ex_fred:
  "fst (get_inflation_metrics ex_fred) =
     Some (inflation_metrics_of [(''CPIAUCSL'', 112, py_affine 100 0 (py_div (112 - 101) 101))])"
proof -
  have "fst (fred_collect ex_fred 24 inflation_entry inflation_series) =
      [(''CPIAUCSL'', 112, py_affine 100 0 (py_div (112 - 101) 101))]"
    unfolding fred_collect_entries
    by (simp add: inflation_series_def ex_fred_cpi ex_fred_missing inflation_entry_def Let_def)
  then show ?thesis by (simp add: get_inflation_metrics_def split_def)
qed

lemma get_inflation_metrics_year_ago_witness:
  "fst (get_inflation_metrics ex_fred) =
     Some (inflation_metrics_of [(''CPIAUCSL'', 112, py_affine 100 0 (py_div (112 - 101) 101))]) \<and>
   (''CPIAUCSL'', 112, py_affine 100 0 (py_div (112 - 101) 101)) \<in>
     set (inflation_values (inflation_metrics_of [(''CPIAUCSL'', 112, py_affine 100 0 (py_div (112 - 101) 101))])) \<and>
   (\<exists>vs. frame_values (fst (get_fred_data ex_fred ''CPIAUCSL'' 24)) = Some vs \<and> 12 \<le> length vs \<and>
      vs ! (length vs - 12) = 101 \<and> hd vs = 100 \<and>
      py_affine 100 0 (py_div (112 - 101) 101) =
        py_affine 100 0 (py_div (112 - vs ! (length vs - 12)) (vs ! (length vs - 12))))"
proof -
  have m: "(''CPIAUCSL'', 112, py_affine 100 0 (py_div (112 - 101) 101)) \<in>
     set (inflation_values (inflation_metrics_of [(''CPIAUCSL'', 112, py_affine 100 0 (py_div (112 - 101) 101))]))"
    by (simp add: inflation_metrics_of_def Let_def)
  obtain vs where "frame_values (fst (get_fred_data ex_fred ''CPIAUCSL'' 24)) = Some vs"
      "12 \<le> length vs \<longrightarrow> py_affine 100 0 (py_div (112 - 101) 101) =
         py_affine 100 0 (py_div (112 - vs ! (length vs - 12)) (vs ! (length vs - 12)))"
    using get_inflation_metrics_year_ago [OF get_inflation_metrics_ex_fred m] by blast
  moreover have "vs = [100, 101, 102, 103, 104, 105, 106, 107, 108, 109, 110, 111, 112]"
    using calculation(1) ex_fred_cpi by simp
  ultimately show ?thesis using get_inflation_metrics_ex_fred m by simp
qed

text \<open>C27: The dashboard flag \<open>unemployment_elevated\<close> is exactly "the latest unemployment rate exceeds 5": it does not implement the Sahm rule its comment describes.\<close>

lemma create_economic_dashboard_unemployment:
  assumes "unemployment_elevated (fst (create_economic_dashboard S)) = Some b"
  shows "\<exists>vs. frame_values (fst (get_fred_data S ''UNRATE'' 12)) = Some vs \<and> b = (5 < last vs)"
proof -
  obtain c t where "(''UNRATE'', c, t) \<in> set (fst (fred_collect S 12 employment_entry employment_series))"
      "b = (5 < c)"
    using assms
    by (auto simp: create_economic_dashboard_def get_employment_indicators_def split_def Let_def
        split: option.splits if_splits dest!: map_of_SomeD)
  moreover obtain s vs where "frame_values (fst (get_fred_data S s 12)) = Some vs"
      "(''UNRATE'', c, t) \<in> set (employment_entry s vs)"
    using calculation(1) by (blast dest: fred_collect_mem)
  ultimately show ?thesis by (auto simp: employment_entry_def)
qed

lemma create_economic_dashboard_ex_fred:
  "unemployment_elevated (fst (create_economic_dashboard ex_fred)) = Some False"
proof -
  have "fst (get_employment_indicators ex_fred) =
      Some [(''UNRATE'', 4.4, Some (if py_mean [4.0, 4.2, 4.4] > py_mean [3.4, 3.6, 3.8, 4.0, 4.2, 4.4]
                                      then Improving else Deteriorating))]"
  proof -
    have "fst (fred_collect ex_fred 12 employment_entry employment_series) =
        [(''UNRATE'', 4.4, Some (if py_mean [4.0, 4.2, 4.4] > py_mean [3.4, 3.6, 3.8, 4.0, 4.2, 4.4]
                                  then Improving else Deteriorating))]"
      unfolding fred_collect_entries
      by (simp add: employment_series_def ex_fred_unrate ex_fred_missing employment_entry_def)
    then show ?thesis by (simp add: get_employment_indicators_def split_def)
  qed
  then show ?thesis by (simp add: create_economic_dashboard_def split_def Let_def)
qed

lemma create_economic_dashboard_unemployment_witness:
  "unemployment_elevated (fst (create_economic_dashboard ex_fred)) = Some False \<and>
   (\<exists>vs. frame_values (fst (get_fred_data ex_fred ''UNRATE'' 12)) = Some vs \<and> \<not> 5 < last vs \<and>
      Min (set vs) + 0.5 \<le> py_mean (drop (length vs - 3) vs))"
proof -
  obtain vs where "frame_values (fst (get_fred_data ex_fred ''UNRATE'' 12)) = Some vs" "False = (5 < last vs)"
    using create_economic_dashboard_unemployment [OF create_economic_dashboard_ex_fred] by blast
  moreover have "vs = [3.4, 3.6, 3.8, 4.0, 4.2, 4.4]" using calculation(1) ex_fred_unrate by simp
  ultimately show ?thesis using create_economic_dashboard_ex_fred by (simp add: py_mean_def)
qed

lemma fetch_and_save_economic_data_trace_witness:
  "fred_key ex_fred = Some ''KEY'' \<and>
   snd (fetch_and_save_economic_data ex_fred) =
     concat (map (\<lambda>(s, n). [Get (fred_url ''KEY'' s 10000), Sleep 500]) indicators) @
     map (\<lambda>(s, cap). Get (fred_url ''KEY'' s cap)) dashboard_requests \<and>
   \<not> throttled (snd (fetch_and_save_economic_data ex_fred))"
  using ex_fred_key fetch_and_save_economic_data_trace [OF ex_fred_key] by blast

lemma fetch_and_save_economic_data_no_key_witness:
  "fred_key ex_fred_nokey = None \<and>
   fetch_and_save_economic_data ex_fred_nokey =
     (\<lparr>series_tables = [], dashboard_rows = [empty_dashboard]\<rparr>, replicate 28 (Sleep 500))"
proof -
  have h: "fred_key ex_fred_nokey = None" by (simp add: fred_key_def ex_fred_nokey_def ex_fred_def)
  show ?thesis using h fetch_and_save_economic_data_no_key [OF h] by blast
qed

end
