(* ===== verification/Reddit.thy ===== *)
theory Reddit
  imports Archive
begin

text \<open>
  The Reddit sentiment fetcher \<open>reddit_sentiment.py\<close> (class \<open>RedditSentimentFetcher\<close>).
  JSON values are \<open>jval\<close> and a JSON object is an association list (\<open>jdict\<close>), read
  with \<open>dict.get\<close> (\<open>py_get\<close>). The Tradestie and Pushshift endpoints are parameters of
  \<open>reddit_source\<close> answering a request URL with \<open>Raised\<close> or a status and a body whose
  \<open>json()\<close> may raise; Tradestie's body is a list of objects, Pushshift's the
  \<open>data\<close> list of post objects (\<open>[]\<close> when absent). VADER's compound score and FinBERT's
  label are parameters, and so is the current time \<open>now_ts\<close> (epoch seconds). Post
  fields other than title, self text, author and permalink are kept as JSON values; the
  \<open>created_utc\<close> conversion to a date and the \<open>timestamp\<close> fields are not modelled.
\<close>

section \<open>JSON values and the source\<close>

datatype jval = JStr string | JNum real | JNull

type_synonym jdict = "(string \<times> jval) list"

record reddit_post_in =
  post_fields :: jdict
  post_title :: string
  post_selftext :: string
  post_author :: "string option"
  post_permalink :: string

record reddit_source =
  tradestie_get :: "string \<Rightarrow> (py_exc + jdict list) response"
  pushshift_get :: "string \<Rightarrow> (py_exc + reddit_post_in list) response"
  vader_compound :: "string \<Rightarrow> real"
  finbert_label :: "string \<Rightarrow> string"
  now_ts :: int

section \<open>Tradestie\<close>

definition tradestie_url :: string where
  "tradestie_url = ''https://tradestie.com/api/v1/apps/reddit''"

text \<open>\<open>item.get('ticker', '').upper()\<close>: a ticker that is not a string has no
  \<open>upper\<close> and raises \<open>AttributeError\<close>.\<close>

definition item_ticker_upper :: "jdict \<Rightarrow> py_exc + string" where
  "item_ticker_upper it = (case py_get it ''ticker'' (JStr []) of JStr s \<Rightarrow> Inr (py_upper s) | _ \<Rightarrow> Inl AttributeError)"

text \<open>The loop of lines 34-37: the first item whose ticker matches ignoring case.\<close>

fun find_item :: "string \<Rightarrow> jdict list \<Rightarrow> py_exc + jdict option" where
  "find_item tk [] = Inr None"
| "find_item tk (it # its) =
     py_bind (item_ticker_upper it) (\<lambda>u. if u = py_upper tk then Inr (Some it) else find_item tk its)"

record reddit_row =
  rr_ticker :: string
  mentions :: jval
  rr_sentiment :: jval
  sentiment_score :: jval

definition reddit_row_of :: "string \<Rightarrow> jdict \<Rightarrow> reddit_row" where
  "reddit_row_of tk it =
     \<lparr>rr_ticker = tk, mentions = py_get it ''no_of_comments'' (JNum 0),
      rr_sentiment = py_get it ''sentiment'' (JNum 0),
      sentiment_score = py_get it ''sentiment_score'' (JNum 0)\<rparr>"

text \<open>\<open>if ticker_data:\<close> is false for an empty object.\<close>

definition get_tradestie_reddit_data :: "reddit_source \<Rightarrow> string \<Rightarrow> reddit_row option \<times> event list" where
  "get_tradestie_reddit_data S tk =
     ((case tradestie_get S tradestie_url of
         Raised \<Rightarrow> None
       | Response st body \<Rightarrow>
           if st \<noteq> 200 then None
           else (case body of
                   Inl e \<Rightarrow> None
                 | Inr items \<Rightarrow>
                     (case find_item tk items of
                        Inr (Some it) \<Rightarrow> if it = [] then None else Some (reddit_row_of tk it)
                      | _ \<Rightarrow> None))),
      [Get tradestie_url])"

section \<open>Pushshift\<close>

definition subreddits :: "string list" where
  "subreddits = [''wallstreetbets'', ''stocks'', ''investing'', ''SecurityAnalysis'', ''ValueInvesting'']"

definition pushshift_url :: "string \<Rightarrow> string \<Rightarrow> int \<Rightarrow> int \<Rightarrow> nat \<Rightarrow> string" where
  "pushshift_url sub tk after before post_limit =
     ''https://api.pushshift.io/reddit/search/submission/?subreddit='' @ sub @ ''&q='' @ tk @
     ''&after='' @ py_str_int after @ ''&before='' @ py_str_int before @ ''&size='' @ show_nat post_limit @
     ''&sort=desc&sort_type=score''"

record reddit_post =
  rp_subreddit :: string
  rp_title :: string
  rp_selftext :: string
  rp_score :: jval
  rp_upvote_ratio :: jval
  rp_num_comments :: jval
  rp_author :: string
  rp_url :: string
  vader_score :: real
  finbert_result :: string

text \<open>Lines 84-105: posts whose title and self text, joined by a space and stripped,
  have more than 10 characters, scored on the text (FinBERT on its first 512).\<close>

definition post_text :: "reddit_post_in \<Rightarrow> string" where
  "post_text p = post_title p @ '' '' @ post_selftext p"

definition posts_of :: "reddit_source \<Rightarrow> string \<Rightarrow> reddit_post_in list \<Rightarrow> reddit_post list" where
  "posts_of S sub ps =
     map (\<lambda>p. \<lparr>rp_subreddit = sub, rp_title = post_title p, rp_selftext = post_selftext p,
               rp_score = py_get (post_fields p) ''score'' (JNum 0),
               rp_upvote_ratio = py_get (post_fields p) ''upvote_ratio'' (JNum 0),
               rp_num_comments = py_get (post_fields p) ''num_comments'' (JNum 0),
               rp_author = (case post_author p of None \<Rightarrow> ''deleted'' | Some a \<Rightarrow> a),
               rp_url = ''https://reddit.com'' @ post_permalink p,
               vader_score = vader_compound S (post_text p),
               finbert_result = finbert_label S (take 512 (post_text p))\<rparr>)
         (filter (\<lambda>p. 10 < length (py_strip (post_text p))) ps)"

text \<open>One subreddit of the loop of lines 65-111: the request, then the posts and the
  one-second sleep; a request or \<open>json()\<close> that raises skips the sleep.\<close>

definition fetch_subreddit ::
  "reddit_source \<Rightarrow> string \<Rightarrow> nat \<Rightarrow> nat \<Rightarrow> string \<Rightarrow> reddit_post list \<times> event list" where
  "fetch_subreddit S tk days_back post_limit sub =
     (let url = pushshift_url sub tk (now_ts S - int days_back * 86400) (now_ts S) post_limit
      in case pushshift_get S url of
           Raised \<Rightarrow> ([], [Get url])
         | Response st body \<Rightarrow>
             if st \<noteq> 200 then ([], [Get url, Sleep 1000])
             else (case body of
                     Inl e \<Rightarrow> ([], [Get url])
                   | Inr ps \<Rightarrow> (posts_of S sub ps, [Get url, Sleep 1000])))"

definition get_reddit_posts_pushshift ::
  "reddit_source \<Rightarrow> string \<Rightarrow> nat \<Rightarrow> nat \<Rightarrow> reddit_post list \<times> event list" where
  "get_reddit_posts_pushshift S tk days_back post_limit =
     (let rs = map (fetch_subreddit S tk days_back post_limit) subreddits
      in (concat (map fst rs), concat (map snd rs)))"

section \<open>Summary and save\<close>

text \<open>\<open>get_reddit_sentiment_summary\<close> returns the Tradestie row, if any, and an empty
  table of posts: Pushshift is never called.\<close>

definition get_reddit_sentiment_summary ::
  "reddit_source \<Rightarrow> string \<Rightarrow> (reddit_row list \<times> reddit_post list) \<times> event list" where
  "get_reddit_sentiment_summary S tk =
     (let (d, t) = get_tradestie_reddit_data S tk
      in ((case d of None \<Rightarrow> [] | Some r \<Rightarrow> [r], []), t))"

record reddit_output =
  summary_rows :: "reddit_row list"
  post_rows :: "reddit_post list"

definition fetch_and_save_reddit_sentiment ::
  "reddit_source \<Rightarrow> string \<Rightarrow> reddit_output \<times> event list" where
  "fetch_and_save_reddit_sentiment S tk =
     (let ((rows, posts), t) = get_reddit_sentiment_summary S tk
      in (\<lparr>summary_rows = rows, post_rows = posts\<rparr>, t))"

section \<open>First match and example source\<close>

text \<open>An item whose ticker is a string equal to \<open>tk\<close> ignoring case, and one whose
  ticker is a string that differs.\<close>

definition ticker_is :: "string \<Rightarrow> jdict \<Rightarrow> bool" where
  "ticker_is tk it = (case py_get it ''ticker'' (JStr []) of JStr u \<Rightarrow> py_upper u = py_upper tk | _ \<Rightarrow> False)"

definition ticker_is_other :: "string \<Rightarrow> jdict \<Rightarrow> bool" where
  "ticker_is_other tk it = (case py_get it ''ticker'' (JStr []) of JStr u \<Rightarrow> py_upper u \<noteq> py_upper tk | _ \<Rightarrow> False)"

text \<open>A Tradestie answer whose second item is the NVDA entry, in lower case.\<close>

definition ex_tradestie :: "jdict list" where
  "ex_tradestie = [[(''ticker'', JStr ''AMD''), (''no_of_comments'', JNum 40)],
     [(''no_of_comments'', JNum 120), (''sentiment'', JStr ''Bullish''), (''sentiment_score'', JNum 0.2),
      (''ticker'', JStr ''nvda'')]]"

definition ex_reddit :: reddit_source where
  "ex_reddit = \<lparr>tradestie_get = (\<lambda>url. Response 200 (Inr ex_tradestie)), pushshift_get = (\<lambda>url. Raised),
     vader_compound = (\<lambda>s. 0), finbert_label = (\<lambda>s. ''neutral''), now_ts = 0\<rparr>"

definition is_get :: "event \<Rightarrow> bool" where
  "is_get e = (case e of Get u \<Rightarrow> True | Sleep n \<Rightarrow> False)"

section \<open>Lemmas\<close>

lemma find_item_Some_iff:
  "find_item tk items = Inr (Some it) \<longleftrightarrow>
   (\<exists>pre post. items = pre @ it # post \<and> (\<forall>p\<in>set pre. ticker_is_other tk p) \<and> ticker_is tk it)"
proof (induction items)
  case Nil
  then show ?case by simp
next
  case (Cons x xs)
  show ?case
  proof (cases "py_get x ''ticker'' (JStr [])")
    case (JStr u)
    show ?thesis
    proof (cases "py_upper u = py_upper tk")
      case True
      then show ?thesis using JStr
        by (auto simp: item_ticker_upper_def ticker_is_def ticker_is_other_def Cons_eq_append_conv)
    next
      case False
      have ox: "ticker_is_other tk x" "\<not> ticker_is tk x"
        using JStr False by (simp_all add: ticker_is_other_def ticker_is_def)
      have l: "find_item tk (x # xs) = find_item tk xs"
        using JStr False by (simp add: item_ticker_upper_def)
      have r: "(\<exists>pre post. x # xs = pre @ it # post \<and> (\<forall>p\<in>set pre. ticker_is_other tk p) \<and> ticker_is tk it)
          \<longleftrightarrow> (\<exists>pre post. xs = pre @ it # post \<and> (\<forall>p\<in>set pre. ticker_is_other tk p) \<and> ticker_is tk it)"
      proof
        assume "\<exists>pre post. x # xs = pre @ it # post \<and> (\<forall>p\<in>set pre. ticker_is_other tk p) \<and> ticker_is tk it"
        then obtain pre post where p: "x # xs = pre @ it # post" "\<forall>p\<in>set pre. ticker_is_other tk p"
            "ticker_is tk it" by blast
        show "\<exists>pre post. xs = pre @ it # post \<and> (\<forall>p\<in>set pre. ticker_is_other tk p) \<and> ticker_is tk it"
        proof (cases pre)
          case Nil
          then show ?thesis using p ox by simp
        next
          case (Cons y pre')
          then show ?thesis using p by auto
        qed
      next
        assume "\<exists>pre post. xs = pre @ it # post \<and> (\<forall>p\<in>set pre. ticker_is_other tk p) \<and> ticker_is tk it"
        then obtain pre post where "xs = pre @ it # post" "\<forall>p\<in>set pre. ticker_is_other tk p"
            "ticker_is tk it" by blast
        then show "\<exists>pre post. x # xs = pre @ it # post \<and> (\<forall>p\<in>set pre. ticker_is_other tk p) \<and> ticker_is tk it"
          using ox by (intro exI [of _ "x # pre"] exI [of _ post]) simp
      qed
      show ?thesis unfolding l r using Cons.IH .
    qed
  next
    case (JNum r)
    then show ?thesis
      by (auto simp: item_ticker_upper_def ticker_is_def ticker_is_other_def Cons_eq_append_conv)
  next
    case JNull
    then show ?thesis
      by (auto simp: item_ticker_upper_def ticker_is_def ticker_is_other_def Cons_eq_append_conv)
  qed
qed

lemma get_tradestie_reddit_data_Some:
  "fst (get_tradestie_reddit_data S tk) = Some r \<Longrightarrow>
   \<exists>items it. tradestie_get S tradestie_url = Response 200 (Inr items) \<and>
     find_item tk items = Inr (Some it) \<and> it \<noteq> [] \<and> r = reddit_row_of tk it"
  by (auto simp: get_tradestie_reddit_data_def split: response.splits if_splits sum.splits option.splits)

text \<open>C28: \<open>fetch_and_save_reddit_sentiment\<close> makes the one Tradestie request, writes no post
  table (Pushshift is never called), and writes at most one summary row: the row of the
  first item whose ticker equals the requested one ignoring case, every earlier item
  having a string ticker that differs.\<close>

lemma fetch_and_save_reddit_sentiment_first_match:
  assumes "fetch_and_save_reddit_sentiment S tk = (out, t)"
  shows "t = [Get tradestie_url] \<and> post_rows out = [] \<and> length (summary_rows out) \<le> 1 \<and>
    (\<forall>r\<in>set (summary_rows out). \<exists>items pre it post.
       tradestie_get S tradestie_url = Response 200 (Inr items) \<and> items = pre @ it # post \<and>
       (\<forall>p\<in>set pre. ticker_is_other tk p) \<and> ticker_is tk it \<and> it \<noteq> [] \<and>
       mentions r = py_get it ''no_of_comments'' (JNum 0) \<and> rr_ticker r = tk)"
proof -
  obtain d where d: "get_tradestie_reddit_data S tk = (d, [Get tradestie_url])"
    by (simp add: get_tradestie_reddit_data_def)
  have out: "out = \<lparr>summary_rows = (case d of None \<Rightarrow> [] | Some r \<Rightarrow> [r]), post_rows = []\<rparr>"
      "t = [Get tradestie_url]"
    using assms d by (simp_all add: fetch_and_save_reddit_sentiment_def get_reddit_sentiment_summary_def)
  have "\<forall>r\<in>set (summary_rows out). \<exists>items pre it post.
       tradestie_get S tradestie_url = Response 200 (Inr items) \<and> items = pre @ it # post \<and>
       (\<forall>p\<in>set pre. ticker_is_other tk p) \<and> ticker_is tk it \<and> it \<noteq> [] \<and>
       mentions r = py_get it ''no_of_comments'' (JNum 0) \<and> rr_ticker r = tk"
  proof
    fix r assume "r \<in> set (summary_rows out)"
    then have "fst (get_tradestie_reddit_data S tk) = Some r" using out d by (cases d) auto
    then obtain items it where "tradestie_get S tradestie_url = Response 200 (Inr items)"
        "find_item tk items = Inr (Some it)" "it \<noteq> []" "r = reddit_row_of tk it"
      using get_tradestie_reddit_data_Some by blast
    then show "\<exists>items pre it post.
       tradestie_get S tradestie_url = Response 200 (Inr items) \<and> items = pre @ it # post \<and>
       (\<forall>p\<in>set pre. ticker_is_other tk p) \<and> ticker_is tk it \<and> it \<noteq> [] \<and>
       mentions r = py_get it ''no_of_comments'' (JNum 0) \<and> rr_ticker r = tk"
      unfolding find_item_Some_iff by (auto simp: reddit_row_of_def)
  qed
  then show ?thesis using out by (cases d) auto
qed

lemma find_item_raises:
  "\<forall>p\<in>set pre. ticker_is_other tk p \<Longrightarrow> item_ticker_upper bad = Inl e \<Longrightarrow>
   find_item tk (pre @ bad # post) = Inl e"
  by (induction pre) (auto simp: ticker_is_other_def item_ticker_upper_def split: jval.splits)

lemma py_upper_nvda: "py_upper ''nvda'' = ''NVDA''" "py_upper ''AMD'' = ''AMD''" "py_upper ''NVDA'' = ''NVDA''"
  by code_simp+

lemma ex_reddit_run:
  "fetch_and_save_reddit_sentiment ex_reddit ''NVDA'' =
     (\<lparr>summary_rows = [reddit_row_of ''NVDA'' (ex_tradestie ! 1)], post_rows = []\<rparr>, [Get tradestie_url])"
  by (simp add: fetch_and_save_reddit_sentiment_def get_reddit_sentiment_summary_def
      get_tradestie_reddit_data_def ex_reddit_def ex_tradestie_def item_ticker_upper_def py_upper_nvda py_get_def)

lemma fetch_and_save_reddit_sentiment_first_match_witness:
  "fetch_and_save_reddit_sentiment ex_reddit ''NVDA'' =
     (\<lparr>summary_rows = [reddit_row_of ''NVDA'' (ex_tradestie ! 1)], post_rows = []\<rparr>, [Get tradestie_url]) \<and>
   mentions (reddit_row_of ''NVDA'' (ex_tradestie ! 1)) = JNum 120 \<and>
   (\<exists>items pre it post. tradestie_get ex_reddit tradestie_url = Response 200 (Inr items) \<and>
      items = pre @ it # post \<and> ticker_is ''NVDA'' it \<and>
      mentions (reddit_row_of ''NVDA'' (ex_tradestie ! 1)) = py_get it ''no_of_comments'' (JNum 0))"
proof -
  have "mentions (reddit_row_of ''NVDA'' (ex_tradestie ! 1)) = JNum 120"
    by (simp add: reddit_row_of_def ex_tradestie_def py_simps)
  then show ?thesis
    using ex_reddit_run fetch_and_save_reddit_sentiment_first_match [OF ex_reddit_run] by auto
qed

lemma fetch_subreddit_requests:
  "filter is_get (snd (fetch_subreddit S tk d n sub)) =
     [Get (pushshift_url sub tk (now_ts S - int d * 86400) (now_ts S) n)]"
  by (simp add: fetch_subreddit_def Let_def is_get_def split: response.splits sum.splits)

lemma get_reddit_posts_pushshift_requests:
  "filter is_get (snd (get_reddit_posts_pushshift S tk d n)) =
     map (\<lambda>sub. Get (pushshift_url sub tk (now_ts S - int d * 86400) (now_ts S) n)) subreddits"
  by (simp add: get_reddit_posts_pushshift_def filter_concat comp_def fetch_subreddit_requests
      map_concat concat_map_singleton)

lemma posts_of_mem:
  "p \<in> set (posts_of S sub ps) \<Longrightarrow>
   rp_subreddit p = sub \<and> 10 < length (py_strip (rp_title p @ '' '' @ rp_selftext p))"
  by (auto simp: posts_of_def post_text_def)

lemma fetch_subreddit_posts:
  "fst (fetch_subreddit S tk d n sub) = [] \<or> (\<exists>ps. fst (fetch_subreddit S tk d n sub) = posts_of S sub ps)"
  by (auto simp: fetch_subreddit_def Let_def split: response.split sum.split)

lemma get_reddit_posts_pushshift_posts:
  assumes "p \<in> set (fst (get_reddit_posts_pushshift S tk d n))"
  shows "rp_subreddit p \<in> set subreddits \<and> 10 < length (py_strip (rp_title p @ '' '' @ rp_selftext p))"
proof -
  obtain sub where sub: "sub \<in> set subreddits" "p \<in> set (fst (fetch_subreddit S tk d n sub))"
    using assms by (auto simp: get_reddit_posts_pushshift_def)
  then obtain ps where "p \<in> set (posts_of S sub ps)"
    using fetch_subreddit_posts [of S tk d n sub] by auto
  then show ?thesis using posts_of_mem sub(1) by blast
qed

end
