(* ===== verification/Insider.thy ===== *)
theory Insider
  imports Archive Xml_Parser "HOL-Library.While_Combinator"
begin

text \<open>
  The GOOGL Form 4 scraper \<open>GOOGL/GOOGLinsider.py\<close>. The SEC session is the parameter
  \<open>insider_source\<close>: the submissions JSON of the company (its \<open>recent\<close> arrays, absent
  keys read as \<open>[]\<close>; \<open>json()\<close> may raise), the HTML text of a filing, and
  BeautifulSoup's parse of that text as \<open>form4_doc\<close>: the stripped text of the link
  next to the reporting-person label, the cell texts of the rows of the relationship
  table, and the rows of Table I (whether a row has a header cell, and its cell texts)
  when the Table I header and its table are found. A cell's \<open>get_text(strip=True)\<close>
  is \<open>py_strip\<close> of its text. \<open>float()\<close> is the decimal reading \<open>py_float_numeric\<close>,
  with \<open>ValueError\<close> (caught: 0.0) otherwise. Nothing in the script catches a failed
  request or an index out of range, so those end the run (\<open>Inl\<close>). Sending the e-mail
  is not modelled.
\<close>

section \<open>Source and filing index\<close>

record recent4 =
  r_forms :: "string list"
  r_acc :: "string list"
  r_docs :: "string list"

record form4_doc =
  reporting_name :: "string option"
  relationship_rows :: "string list list option"
  table_i_rows :: "(bool \<times> string list) list option"

record insider_source =
  edgar_get :: "string \<Rightarrow> (py_exc + recent4) response"
  filing_get :: "string \<Rightarrow> string response"
  parse_html :: "string \<Rightarrow> form4_doc"

definition googl_cik :: string where
  "googl_cik = ''1652044''"

definition edgar_url :: string where
  "edgar_url = ''https://data.sec.gov/submissions/CIK000'' @ googl_cik @ ''.json''"

definition form4_url :: "string \<Rightarrow> string \<Rightarrow> string" where
  "form4_url acc doc =
     ''https://www.sec.gov/Archives/edgar/data/'' @ googl_cik @ ''/'' @ filter (\<lambda>c. c \<noteq> CHR ''-'') acc @
     ''/'' @ doc"

text \<open>Lines 36-42: one URL per form \<open>"4"\<close>, indexing the other two arrays.\<close>

definition form4_entry :: "recent4 \<Rightarrow> nat \<Rightarrow> string \<Rightarrow> py_exc + string option" where
  "form4_entry r i form_type =
     (if form_type = ''4''
      then py_bind (py_index (r_acc r) i) (\<lambda>acc. py_bind (py_index (r_docs r) i) (\<lambda>doc. Inr (Some (form4_url acc doc))))
      else Inr None)"

definition fetch_form4_filings :: "insider_source \<Rightarrow> (py_exc + string list) \<times> event list" where
  "fetch_form4_filings S =
     (case edgar_get S edgar_url of
        Raised \<Rightarrow> (Inl RequestException, [Get edgar_url])
      | Response st body \<Rightarrow>
          if st \<noteq> 200 then (Inr [], [Get edgar_url])
          else (py_bind body (\<lambda>r. py_collect (form4_entry r) 0 (r_forms r)), [Get edgar_url]))"

section \<open>Header of a filing\<close>

definition officer_placeholder :: string where
  "officer_placeholder = ''Officer (give title below)''"

text \<open>Lines 71-83: a checked row (\<open>"X"\<close> in its first cell) contributes its stripped
  second cell unless empty or the officer placeholder, and, when that text mentions
  \<open>Officer\<close>, the stripped second cell of the next row as the title.\<close>

fun rel_parts :: "string list list \<Rightarrow> string list" where
  "rel_parts [] = []"
| "rel_parts (cells # rows) =
     (if 2 \<le> length cells \<and> py_in ''X'' (cells ! 0)
      then (let text = py_strip (cells ! 1);
                own = (if text \<noteq> [] \<and> text \<noteq> officer_placeholder then [text] else []);
                title = (if py_in ''Officer'' text \<and> rows \<noteq> [] \<and> 2 \<le> length (hd rows)
                         then (let t = py_strip (hd rows ! 1) in
                               if t \<noteq> [] \<and> t \<noteq> officer_placeholder then [t] else [])
                         else [])
            in own @ title)
      else []) @ rel_parts rows"

fun join_comma :: "string list \<Rightarrow> string" where
  "join_comma [] = []"
| "join_comma [x] = x"
| "join_comma (x # y # zs) = x @ '', '' @ join_comma (y # zs)"

definition parse_header_info :: "form4_doc \<Rightarrow> string \<times> string" where
  "parse_header_info d =
     (let name = (case reporting_name d of None \<Rightarrow> ''N/A'' | Some n \<Rightarrow> n);
          parts = (case relationship_rows d of None \<Rightarrow> [] | Some rows \<Rightarrow> rel_parts rows)
      in (name, if parts = [] then ''N/A'' else join_comma parts))"

section \<open>Table I\<close>

text \<open>\<open>re.sub(r"\(\d+\)", "", s)\<close>: a scan from left to right that drops every
  footnote marker \<open>(digits)\<close> it meets and keeps every other character; the result is
  not scanned again. \<open>footnote_len\<close> is the length of a marker at the start.\<close>

definition footnote_len :: "string \<Rightarrow> nat option" where
  "footnote_len s =
     (case s of
        [] \<Rightarrow> None
      | c # r \<Rightarrow>
          (let ds = takeWhile is_digit r; rest = dropWhile is_digit r
           in if c = CHR ''('' \<and> ds \<noteq> [] \<and> rest \<noteq> [] \<and> hd rest = CHR '')'' then Some (length ds + 2)
              else None))"

definition sub_step :: "string \<times> string \<Rightarrow> string \<times> string" where
  "sub_step st =
     (case footnote_len (fst st) of
        Some k \<Rightarrow> (drop k (fst st), snd st)
      | None \<Rightarrow> (tl (fst st), hd (fst st) # snd st))"

definition strip_footnotes :: "string \<Rightarrow> string option" where
  "strip_footnotes s = map_option (rev \<circ> snd) (while_option (\<lambda>st. fst st \<noteq> []) sub_step (s, []))"

definition float_or_zero :: "string \<Rightarrow> real" where
  "float_or_zero s = (if s = [] then 0 else case py_float_numeric s of Some x \<Rightarrow> x | None \<Rightarrow> 0)"

definition drop_commas :: "string \<Rightarrow> string" where
  "drop_commas s = filter (\<lambda>c. c \<noteq> CHR '','') s"

record insider_tx =
  trade_date :: string
  transaction_type :: string
  tx_shares :: real
  shares_bought :: real
  price_per_share :: real
  shares_owned_after :: real
  total_value :: real
  avg_book_price :: real

text \<open>Lines 105-145 for a row of at least nine cells.\<close>

definition tx_of_cells :: "string list \<Rightarrow> insider_tx option" where
  "tx_of_cells cells =
     (case (strip_footnotes (py_strip (cells ! 3)), strip_footnotes (py_strip (cells ! 7))) of
        (Some code, Some price0) \<Rightarrow>
          (let amount_str = drop_commas (py_strip (cells ! 5));
               indicator = py_strip (cells ! 6);
               price_str = py_strip (drop_commas (filter (\<lambda>c. c \<noteq> CHR ''$'') price0));
               owned_str = drop_commas (py_strip (cells ! 8));
               shares = float_or_zero amount_str;
               price = float_or_zero price_str;
               owned = float_or_zero owned_str;
               total = \<bar>shares\<bar> * price
           in Some \<lparr>trade_date = py_strip (cells ! 1), transaction_type = py_strip code, tx_shares = shares,
                    shares_bought = (if py_upper indicator = ''D'' then - shares else shares),
                    price_per_share = price, shares_owned_after = owned, total_value = total,
                    avg_book_price = (if owned > 0 then total / owned else 0)\<rparr>)
      | _ \<Rightarrow> None)"

definition parse_table_i :: "form4_doc \<Rightarrow> insider_tx list" where
  "parse_table_i d =
     (case table_i_rows d of
        None \<Rightarrow> []
      | Some rows \<Rightarrow>
          concat (map (\<lambda>(has_th, cells). if has_th \<or> length cells < 9 then []
                                          else (case tx_of_cells cells of None \<Rightarrow> [] | Some t \<Rightarrow> [t])) rows))"

section \<open>Filings, export and the main task\<close>

record insider_row = insider_tx +
  insider_name :: string
  relationship_to_issuer :: string

definition with_header :: "string \<times> string \<Rightarrow> insider_tx \<Rightarrow> insider_row" where
  "with_header h t = insider_tx.extend t \<lparr>insider_name = fst h, relationship_to_issuer = snd h\<rparr>"

definition process_form4 :: "insider_source \<Rightarrow> string \<Rightarrow> (py_exc + insider_row list) \<times> event list" where
  "process_form4 S url =
     (case filing_get S url of
        Raised \<Rightarrow> (Inl RequestException, [Get url])
      | Response st txt \<Rightarrow>
          if st \<noteq> 200 then (Inr [], [Get url])
          else (let d = parse_html S txt in (Inr (map (with_header (parse_header_info d)) (parse_table_i d)), [Get url])))"

text \<open>The loop of lines 166-169: each filing, then the 5 ms delay; an exception ends
  the run with the requests made so far.\<close>

fun process_filings :: "insider_source \<Rightarrow> string list \<Rightarrow> (py_exc + insider_row list) \<times> event list" where
  "process_filings S [] = (Inr [], [])"
| "process_filings S (u # us) =
     (let (r, t) = process_form4 S u
      in case r of
           Inl e \<Rightarrow> (Inl e, t)
         | Inr txs \<Rightarrow> (let (r', t') = process_filings S us in (map_sum id (\<lambda>ys. txs @ ys) r', t @ [Sleep 5] @ t')))"

definition process_all_form4_filings :: "insider_source \<Rightarrow> (py_exc + insider_row list) \<times> event list" where
  "process_all_form4_filings S =
     (let (r, t) = fetch_form4_filings S
      in case r of
           Inl e \<Rightarrow> (Inl e, t)
         | Inr urls \<Rightarrow> (let (r', t') = process_filings S urls in (r', t @ t')))"

text \<open>The CSV rows of \<open>export_to_csv\<close>, in the column order of its \<open>fieldnames\<close>.\<close>

type_synonym csv_row = "string \<times> string \<times> real \<times> string \<times> string \<times> real \<times> real \<times> real \<times> real \<times> real"

definition csv_row_of :: "insider_row \<Rightarrow> csv_row" where
  "csv_row_of t = (insider_name t, relationship_to_issuer t, shares_bought t, trade_date t, transaction_type t,
                   tx_shares t, price_per_share t, shares_owned_after t, total_value t, avg_book_price t)"

definition export_to_csv :: "insider_row list \<Rightarrow> csv_row list option" where
  "export_to_csv txs = (if txs = [] then None else Some (map csv_row_of txs))"

definition main_task :: "insider_source \<Rightarrow> (py_exc + csv_row list option) \<times> event list" where
  "main_task S =
     (let (r, t) = process_all_form4_filings S
      in (map_sum id (\<lambda>txs. if txs = [] then None else export_to_csv txs) r, t))"

section \<open>Example inputs\<close>

definition ex_row :: "string list" where
  "ex_row = ['''', ''2024-01-02'', '''', ''S(1)'', '''', ''1,000(2)'', ''D'', ''$150.00(3)'', ''5,000'']"

definition ex_doc :: form4_doc where
  "ex_doc = \<lparr>reporting_name = Some ''Pichai Sundar'',
     relationship_rows = Some [[''X'', ''Officer (give title below)''], ['''', ''CEO'']],
     table_i_rows = Some [(True, [''Date'']), (False, ex_row)]\<rparr>"

definition ex_recent :: recent4 where
  "ex_recent = \<lparr>r_forms = [''4'', ''10-K''], r_acc = [''0001-23-45'', ''0009-87-65''],
     r_docs = [''f4.xml'', ''k.htm'']\<rparr>"

definition ex_insider :: insider_source where
  "ex_insider = \<lparr>edgar_get = (\<lambda>_. Response 200 (Inr ex_recent)), filing_get = (\<lambda>_. Response 200 ''''),
     parse_html = (\<lambda>_. ex_doc)\<rparr>"

definition ex_insider_short :: insider_source where
  "ex_insider_short = ex_insider\<lparr>edgar_get := (\<lambda>_. Response 200 (Inr (ex_recent\<lparr>r_acc := []\<rparr>)))\<rparr>"

section \<open>Lemmas\<close>





lemma parse_decimal_paren: "CHR ''('' \<in> set s \<Longrightarrow> parse_decimal s = None"
proof -
  assume p: "CHR ''('' \<in> set s"
  have nd: "\<not> is_digit CHR ''(''" by (simp add: is_digit_def)
  then have "CHR ''('' \<notin> set (takeWhile is_digit s)" by (auto dest: set_takeWhileD)
  then have r: "CHR ''('' \<in> set (dropWhile is_digit s)"
    using p by (metis Un_iff set_append takeWhile_dropWhile_id)
  then obtain x xs where xs: "dropWhile is_digit s = x # xs" by (cases "dropWhile is_digit s") auto
  have "x \<noteq> CHR ''.'' \<or> \<not> list_all is_digit xs"
    using r nd xs by (auto simp: list_all_iff)
  then show ?thesis using xs by (auto simp: parse_decimal_def Let_def)
qed

lemma py_float_numeric_paren: "CHR ''('' \<in> set s \<Longrightarrow> py_float_numeric s = None"
  by (cases s) (auto simp: py_float_numeric_def parse_decimal_paren)

lemma float_or_zero_paren: "CHR ''('' \<in> set s \<Longrightarrow> float_or_zero s = 0"
  by (auto simp: float_or_zero_def py_float_numeric_paren)


text \<open>C30: Footnote markers are removed from the code and price cells only (lines 107, 112): an
  amount cell carrying a marker such as \<open>1,000(2)\<close> fails \<open>float()\<close>, so the transaction is
  recorded with 0 shares, 0 bought, a total value of 0 and an average book price of 0.\<close>

lemma tx_of_cells_footnoted_amount:
  assumes "tx_of_cells cells = Some t" "CHR ''('' \<in> set (py_strip (cells ! 5))"
  shows "tx_shares t = 0 \<and> shares_bought t = 0 \<and> total_value t = 0 \<and> avg_book_price t = 0"
proof -
  have "CHR ''('' \<in> set (drop_commas (py_strip (cells ! 5)))" using assms(2) by (simp add: drop_commas_def)
  then have z: "float_or_zero (drop_commas (py_strip (cells ! 5))) = 0" by (rule float_or_zero_paren)
  show ?thesis using assms(1) z
    by (auto simp: tx_of_cells_def Let_def split: option.splits)
qed

lemma ex_row_strip:
  "strip_footnotes ''S(1)'' = Some ''S''" "strip_footnotes ''$150.00(3)'' = Some ''$150.00''"
  by (simp_all add: strip_footnotes_def while_option_unfold [of _ sub_step] sub_step_def footnote_len_def
      is_digit_def)

lemma ex_row_tx:
  "tx_of_cells ex_row = Some \<lparr>trade_date = ''2024-01-02'', transaction_type = ''S'', tx_shares = 0,
     shares_bought = 0, price_per_share = 150, shares_owned_after = 5000, total_value = 0, avg_book_price = 0\<rparr>"
  by (simp add: tx_of_cells_def ex_row_def ex_row_strip Let_def drop_commas_def float_or_zero_def
      xml_parser_simps py_simps)

lemma tx_of_cells_footnoted_amount_witness:
  "tx_of_cells ex_row = Some \<lparr>trade_date = ''2024-01-02'', transaction_type = ''S'', tx_shares = 0,
     shares_bought = 0, price_per_share = 150, shares_owned_after = 5000, total_value = 0, avg_book_price = 0\<rparr> \<and>
   CHR ''('' \<in> set (py_strip (ex_row ! 5))"
proof -
  have h: "CHR ''('' \<in> set (py_strip (ex_row ! 5))" by (simp add: ex_row_def py_simps)
  show ?thesis using h ex_row_tx tx_of_cells_footnoted_amount [OF ex_row_tx h] by blast
qed

lemma form4_entry_Inl: "form4_entry r i f = Inl e \<Longrightarrow> e = IndexError"
  by (auto simp: form4_entry_def py_bind_def split: if_splits sum.splits)

text \<open>C31: When the submissions JSON lists a form \<open>4\<close> at a position past the end of its
  accession-number array, \<open>fetch_form4_filings\<close> raises \<open>IndexError\<close>: nothing guards the
  indexing of lines 38 and 40.\<close>

lemma fetch_form4_filings_missing_accession:
  assumes "edgar_get S edgar_url = Response 200 (Inr r)" "j < length (r_forms r)" "r_forms r ! j = ''4''"
    "length (r_acc r) \<le> j"
  shows "fst (fetch_form4_filings S) = Inl IndexError"
proof -
  have body: "fst (fetch_form4_filings S) = py_collect (form4_entry r) 0 (r_forms r)"
    using assms(1) by (simp add: fetch_form4_filings_def)
  have g: "form4_entry r j (r_forms r ! j) = Inl IndexError" using assms(3,4) by (simp add: form4_entry_def py_index_def)
  show ?thesis
  proof (cases "py_collect (form4_entry r) 0 (r_forms r)")
    case (Inl e)
    then obtain k where "form4_entry r k (r_forms r ! k) = Inl e" using py_collect_Inl by fastforce
    then have "e = IndexError" by (rule form4_entry_Inl)
    then show ?thesis using Inl body by simp
  next
    case (Inr ys)
    then obtain x where "form4_entry r j (r_forms r ! j) = Inr x" using py_collect_rows_Inr [OF Inr assms(2)] by auto
    with g show ?thesis by simp
  qed
qed

lemma fetch_form4_filings_missing_accession_witness:
  "edgar_get ex_insider_short edgar_url = Response 200 (Inr (ex_recent\<lparr>r_acc := []\<rparr>)) \<and>
   fst (fetch_form4_filings ex_insider_short) = Inl IndexError"
  using fetch_form4_filings_missing_accession [of ex_insider_short "ex_recent\<lparr>r_acc := []\<rparr>" 0]
  by (simp add: ex_insider_short_def ex_insider_def ex_recent_def)

lemma process_form4_trace: "process_form4 S u = (r, t) \<Longrightarrow> t = [Get u]"
  by (auto simp: process_form4_def Let_def split: response.splits if_splits)

lemma fetch_form4_filings_trace: "fetch_form4_filings S = (r, t) \<Longrightarrow> t = [Get edgar_url]"
  by (auto simp: fetch_form4_filings_def split: response.splits if_splits)

lemma process_filings_ordered:
  "fst (process_filings S us) = Inr rows \<Longrightarrow> snd (process_filings S us) = concat (map (\<lambda>u. [Get u, Sleep 5]) us)"
proof (induction us arbitrary: rows)
  case Nil
  then show ?case by simp
next
  case (Cons u us)
  obtain r t where rt: "process_form4 S u = (r, t)" by fastforce
  then have t: "t = [Get u]" by (rule process_form4_trace)
  obtain r' t' where rt': "process_filings S us = (r', t')" by fastforce
  show ?case using Cons.prems Cons.IH rt rt' t by (cases r') (auto split: sum.splits)
qed

text \<open>C32: A run of \<open>process_all_form4_filings\<close> that returns requests the submissions JSON
  first, then each Form 4 URL it listed, in order and once, each followed by the 5 ms delay.\<close>

lemma process_all_form4_filings_trace:
  assumes "fst (process_all_form4_filings S) = Inr rows"
  shows "\<exists>urls. fst (fetch_form4_filings S) = Inr urls \<and>
    snd (process_all_form4_filings S) = Get edgar_url # concat (map (\<lambda>u. [Get u, Sleep 5]) urls)"
proof -
  obtain r t where rt: "fetch_form4_filings S = (r, t)" by fastforce
  then have t: "t = [Get edgar_url]" by (rule fetch_form4_filings_trace)
  obtain urls where r: "r = Inr urls" using assms rt by (cases r) (auto simp: process_all_form4_filings_def)
  obtain r' t' where rt': "process_filings S urls = (r', t')" by fastforce
  have "fst (process_filings S urls) = Inr rows" using assms rt r rt' by (simp add: process_all_form4_filings_def)
  then have "t' = concat (map (\<lambda>u. [Get u, Sleep 5]) urls)" using process_filings_ordered rt' by fastforce
  then show ?thesis using rt r rt' t by (simp add: process_all_form4_filings_def)
qed

lemma ex_doc_header: "parse_header_info ex_doc = (''Pichai Sundar'', ''CEO'')"
  by (simp add: parse_header_info_def ex_doc_def officer_placeholder_def py_simps)

lemma ex_doc_table: "parse_table_i ex_doc =
  [\<lparr>trade_date = ''2024-01-02'', transaction_type = ''S'', tx_shares = 0,
     shares_bought = 0, price_per_share = 150, shares_owned_after = 5000, total_value = 0, avg_book_price = 0\<rparr>]"
proof -
  have "length ex_row = 9" by (simp add: ex_row_def)
  then show ?thesis by (simp add: parse_table_i_def ex_doc_def ex_row_tx)
qed

lemma process_all_form4_filings_trace_witness:
  "fst (process_all_form4_filings ex_insider) =
     Inr (map (with_header (''Pichai Sundar'', ''CEO'')) (parse_table_i ex_doc)) \<and>
   fst (fetch_form4_filings ex_insider) = Inr [form4_url ''0001-23-45'' ''f4.xml''] \<and>
   snd (process_all_form4_filings ex_insider) =
     [Get edgar_url, Get (form4_url ''0001-23-45'' ''f4.xml''), Sleep 5]"
proof -
  have f: "fetch_form4_filings ex_insider = (Inr [form4_url ''0001-23-45'' ''f4.xml''], [Get edgar_url])"
    by (simp add: fetch_form4_filings_def ex_insider_def ex_recent_def form4_entry_def py_simps)
  have p: "fst (process_all_form4_filings ex_insider) =
     Inr (map (with_header (''Pichai Sundar'', ''CEO'')) (parse_table_i ex_doc))"
    using f by (simp add: process_all_form4_filings_def process_form4_def ex_insider_def ex_doc_header)
  then obtain rows where "fst (process_all_form4_filings ex_insider) = Inr rows" by blast
  from process_all_form4_filings_trace [OF this] f p show ?thesis by auto
qed

end
