(* ===== verification/Spec2Isabelle.thy ===== *)
theory Spec2Isabelle
  imports Orchestration Scheduler Options Vix Economic Reddit Insider
begin

text \<open>
  \<^bold>\<open>A verification model of TradeTitan's institutional holdings tracker.\<close>

  The program (\<open>src/datafetcher/institutional_tracker.py\<close>, class
  \<open>InstitutionalTracker\<close>, and \<open>src/datafetcher/simplified_institutional.py\<close>, class
  \<open>SimplifiedInstitutionalTracker\<close>) reconstructs institutions' quarterly 13F
  holdings from the SEC archive: a crawler lists an institution's holdings-report
  filings (a recent page plus archived shards), a parser cascade extracts holdings
  from each filing (information table, primary document, full text), the holdings
  are tagged with their provenance, and aggregators fold them into yearly summaries
  written as CSV tables; \<open>src/datafetcher/scheduler.py\<close> runs the fetch scripts.
  Beside it, \<open>src/datafetcher/options_flow.py\<close> (class \<open>OptionsFlowTracker\<close>) reads
  option chains and volume histories from yfinance and writes unusual-activity,
  indicator and dark-pool tables, and \<open>src/datafetcher/vix_fetcher.py\<close> (class
  \<open>VIXFetcher\<close>) reads volatility-index histories and writes the instrument tables,
  the VIX term structure and the market fear indicators;
  \<open>src/datafetcher/economic_indicators.py\<close> (class \<open>EconomicIndicatorsFetcher\<close>)
  reads FRED series and writes them with an economic dashboard;
  \<open>src/datafetcher/reddit_sentiment.py\<close> (class \<open>RedditSentimentFetcher\<close>) reads
  the Tradestie Reddit summary of a ticker.

  Layout (each theory imports the ones it uses):
  \<^item> \<open>Prelude\<close>: the Python built-ins the code relies on (strings as \<open>char list\<close>,
    \<open>int()\<close>, \<open>str.split\<close>, \<open>in\<close>, \<open>zfill\<close>, dict literals as association lists,
    the stable descending sort of \<open>sort(reverse=True)\<close>, \<open>xs[::k]\<close>, \<open>min\<close>/\<open>max\<close>,
    numpy floats \<open>pyfloat\<close> with \<open>inf\<close> and \<open>NaN\<close>, their division \<open>py_div\<close>, IEEE
    comparison \<open>py_lt\<close> and Python's \<open>max\<close>/\<open>min\<close> of two of them),
    the exception type \<open>py_exc\<close>, \<open>py_bind\<close> for statements that may raise, the loop
    combinator \<open>py_collect\<close>, and the list, sum and order lemmas the components share.
  \<^item> \<open>Identifiers\<close>: the ticker/CUSIP roster and its inversion, the institution
    rosters (\<open>get_major_institutions\<close>, with its duplicated key).
  \<^item> \<open>Filing_Index\<close>: the filing index (\<open>filing_data\<close>); \<open>_process_filing_data\<close>,
    \<open>_extract_13f_filings\<close> with the quarter label, the loop of \<open>get_13f_filings\<close>.
  \<^item> \<open>Archive\<close>: the archive host as a function of the URL (a response or a raise),
    JSON decoding, the URLs, and the request trace (\<open>Get\<close>, \<open>Sleep\<close>) with the
    rate-limit predicate \<open>throttled\<close>.
  \<^item> \<open>Crawler\<close>: \<open>get_historical_13f_filings\<close>, \<open>get_comprehensive_13f_history\<close>,
    \<open>get_13f_filings\<close> over the recent page and the shards, with their traces.
  \<^item> \<open>Xml_Parser\<close>, \<open>Text_Parser\<close>: \<open>_parse_xml_info_table\<close> (ampersand repair, the
    tag searches, numeric coercion; BeautifulSoup is a parameter giving the parsed
    tree) and \<open>_extract_holdings_from_text\<close>/\<open>extract_holdings_from_filing\<close>.
  \<^item> \<open>Cascade\<close>: \<open>parse_13f_holdings\<close> as one fetch-and-parse block run over the
    ordered strategy list, and its contract \<open>first_nonempty\<close>.
  \<^item> \<open>Aggregator\<close>: \<open>get_historical_holdings_for_ticker\<close> (selection of filings,
    cascade, provenance), \<open>_create_historical_summary\<close> (pandas \<open>groupby().first()\<close>,
    \<open>idxmax\<close>, \<open>nlargest\<close> as list functions), the per-ticker tables of
    \<open>track_major_institutions\<close>.
  \<^item> \<open>Simplified\<close>: the timeline, \<open>_create_yearly_summary\<close> (the spec's
    YearlySummary, with \<open>value_counts\<close>) and \<open>_create_institution_analysis\<close>.
  \<^item> \<open>Yahoo\<close>: the yfinance tables (columns that may be absent) and the summaries of
    \<open>track_smart_money_flows\<close> and \<open>get_current_institutional_data\<close>.
  \<^item> \<open>Orchestration\<close>: \<open>track_major_institutions\<close>,
    \<open>fetch_and_save_institutional_data\<close>, \<open>create_comprehensive_institutional_dataset\<close>
    as functions to the tables they write.
  \<^item> \<open>Scheduler\<close>: \<open>run_fetch_script\<close>, the daily and weekly script lists and \<open>main\<close>,
    with the working directory as state.
  \<^item> \<open>Options\<close>: \<open>get_options_chain_yahoo\<close>, \<open>analyze_unusual_options_activity\<close>
    (numpy's linear \<open>quantile\<close>), \<open>calculate_options_indicators\<close> (max pain as the
    first strike of maximal open interest), \<open>track_dark_pool_activity\<close>
    (\<open>rank(pct=True)\<close>, the clamped estimate) and the loop of
    \<open>fetch_and_save_options_data\<close> (\<open>options_for_ticker\<close>) with its sleeps.
  \<^item> \<open>Vix\<close>: \<open>fetch_volatility_data\<close> (pandas \<open>pct_change\<close> and rolling windows
    with their NaN warm-up, \<open>pd.cut\<close> fear labels), \<open>calculate_vix_term_structure\<close>
    (the loop over the four index symbols), \<open>get_market_fear_indicators\<close> and
    \<open>fetch_and_save_volatility_data\<close> as the tables it writes.
  \<^item> \<open>Economic\<close>: \<open>get_fred_data\<close> (the request URL, \<open>to_numeric\<close>, \<open>dropna\<close>,
    the date sort), the loops of the four indicator groups (\<open>fred_collect\<close>), the
    dashboard and \<open>fetch_and_save_economic_data\<close> with its request/sleep trace.
  \<^item> \<open>Reddit\<close>: JSON values, the Tradestie lookup (\<open>find_item\<close>), the Pushshift
    loop over five subreddits with its post filter and sleeps, the summary and
    \<open>fetch_and_save_reddit_sentiment\<close>.
  \<^item> This theory: the spec's end-to-end scenario through the whole pipeline.

  Modelling conventions. Python \<open>int\<close> is \<open>int\<close>; floats are \<open>real\<close> (exact
  decimal values, no rounding); strings are ASCII \<open>char list\<close>s compared
  lexicographically as Python compares \<open>str\<close>. Exceptions are \<open>Inl\<close> values of
  \<open>py_exc + 'a\<close>; where the code catches them the model takes the handler's branch.
  Effects on the archive are the returned request trace; the current year and the
  current weekday and hour are parameters; libraries the code only calls
  (\<open>requests\<close>, BeautifulSoup, yfinance, \<open>subprocess\<close>) are parameters of the
  operations. No loop of the modelled code can run forever: every loop runs over a
  finite list (the shards, the filings, the roster, the lines), so every operation is
  a total function and there is no fuel.

  What the lemmas show, by theory: the filing index keeps exactly the in-range 13F-HR
  rows; the crawler keeps the recent page whatever the shards do, sorts newest first,
  and its trace delays between shard requests but not before the first; the XML
  parser's repair, coercion round trip and soundness; the text parser's soundness and
  bound; the cascade refines the first-non-empty contract when no request raises,
  short-circuits, and requests a prefix of its three documents; the aggregator's
  provenance, per-institution dedup and concentration bounds; the yearly summary's
  counts and most active institution; the Yahoo concentration bound; the scheduler's
  counts and working directory; the options analysis reports at least one unusual row
  (the 0.9 quantile lies between the column's minimum and maximum and is the order
  statistic at the fractions k/(n-1)), max pain is the lowest strike of maximal open
  interest, the dark-pool estimate stays in [15, 40] whatever the ratio, and the
  options loop sleeps once per ticker not skipped; every volatility table is well formed
  for its symbol, rolling volatilities are NaN during the warm-up of the window and
  finite non-negative after it for positive closes, the term structure's kind follows
  the VIX/VIX3M comparison, and the fear level agrees with the \<open>pd.cut\<close> label for a
  positive VIX; the FRED run requests every indicator series and sleeps after each,
  inflation entries carry the latest value, and the unemployment flag is a plain
  threshold; the Reddit lookup takes the first case-insensitive ticker match. Where the code and the spec disagree a theorem states
  what the code does (listed as findings): a network error aborts the whole cascade,
  the cascade's requests are not throttled, the text fallback has no word boundary and
  scales its values, an unnamed shard empties the crawl, \<open>&#38;\<close> is corrupted, the
  quarter is not validated, one line item of a filing stands for the filing, the
  timeline ignores the ticker, the top-five concentration has no zero guard, a
  script timeout leaves the scheduler in that script's directory, and an empty option
  chain raises \<open>TypeError\<close> in the options loop, which then skips the ticker's
  indicators, dark-pool record and sleep, and one failing history request loses the
  whole VIX term structure; the FRED year-over-year inflation is an 11-month
  change, the dashboard's 16 requests are not throttled, the unemployment flag is not
  the Sahm rule its comment names, and a missing FRED key still sleeps and writes an
  empty dashboard row, and the Reddit posts table is never filled because the summary
  does not call Pushshift.

  Not modelled: logging and \<open>print\<close>, CSV writing and reading, directory creation,
  \<open>datetime.now()\<close> timestamps (parameters or omitted fields); the standalone scripts
  \<open>debug_13f.py\<close>,
  \<open>GOOGL/*\<close>, \<open>SPY/spyFetch.py\<close>,
  which fetch from other services and write files with no logic shared with the
  tracker; in \<open>options_flow.py\<close>, \<open>get_options_flow_finnhub\<close> (an HTTP wrapper)
  and the volume standard deviation written to the dark-pool table; and the test
  scripts.
\<close>

section \<open>The end-to-end scenario\<close>






section \<open>Evaluation of the scenario\<close>







section \<open>Properties\<close>


end
